theory Spec2Isabelle
  imports Complex_Main "HOL-Library.Option_ord" "HOL-Library.Multiset" "HOL-Library.Log_Nat"
begin

section \<open>JavaScript values\<close>

text \<open>
  The values that travel between Express, Zod, Drizzle and the database driver: parsed JSON,
  plus \<open>Date\<close> objects (which \<open>new Date()\<close> and timestamp columns produce and JSON never does).
  An object is an association list; a property read takes the first entry of a key, so
  \<open>{...a, k: v}\<close> is written \<open>(k, v) # a\<close>. A key that is absent reads as \<open>undefined\<close>.
\<close>

datatype jsval =
    JNull
  | JBool bool
  | JNum rat
  | JStr string
  | JDate int
  | JArr "jsval list"
  | JObj "(string \<times> jsval) list"

type_synonym obj = "(string \<times> jsval) list"

text \<open>Reading a column of a row returned by the driver; every row carries all its columns.\<close>

definition col :: "string \<Rightarrow> obj \<Rightarrow> jsval" where
  "col k r = (case map_of r k of None \<Rightarrow> JNull | Some v \<Rightarrow> v)"

text \<open>The decimal text of a whole number, as JavaScript and PostgreSQL both print it.\<close>

definition digitChar :: "nat \<Rightarrow> char" where
  "digitChar n = ''0123456789'' ! (n mod 10)"

fun showNat :: "nat \<Rightarrow> string" where
  "showNat n = (if n < 10 then [digitChar n] else showNat (n div 10) @ [digitChar (n mod 10)])"

declare showNat.simps [simp del]

definition showInt :: "int \<Rightarrow> string" where
  "showInt i = (if i < 0 then CHR ''-'' # showNat (nat (- i)) else showNat (nat i))"

text \<open>
  \<open>decimalOf s n\<close>: the text \<open>s\<close> is the decimal numeral of \<open>n\<close>: digits only, no leading zero,
  and read from the left it gives \<open>n\<close>.
\<close>

abbreviation (input) decimalOf :: "string \<Rightarrow> nat \<Rightarrow> bool" where
  "decimalOf s n \<equiv>
     s \<noteq> [] \<and> set s \<subseteq> set ''0123456789'' \<and> (hd s = CHR ''0'') = (s = ''0'')
     \<and> foldl (\<lambda>a c. 10 * a + (of_char c - 48)) 0 s = n"

section \<open>The schema (shared/schema.ts)\<close>

datatype colType = Varchar | Text | Integer | Decimal nat nat | Boolean | Timestamp | Jsonb

datatype tname =
    Users | FloodZones | AffectedPopulation | Resources
  | ReliefDistribution | WeatherAlerts | ResponseTeams | ActivityLog

datatype dflt = NoDefault | GenRandomUuid | DefaultNow | Literal jsval

record column =
  colKey :: string
  colType :: colType
  colNotNull :: bool
  colDefault :: dflt
  colPrimaryKey :: bool
  colUnique :: bool
  colReferences :: "tname option"

text \<open>The column builders of drizzle-orm/pg-core, one definition per builder method used.\<close>

definition column :: "string \<Rightarrow> colType \<Rightarrow> column" where
  "column k t = \<lparr>colKey = k, colType = t, colNotNull = False, colDefault = NoDefault,
                 colPrimaryKey = False, colUnique = False, colReferences = None\<rparr>"

definition varchar :: "string \<Rightarrow> column" where "varchar k = column k Varchar"
definition pgText :: "string \<Rightarrow> column" where "pgText k = column k Text"
definition pgInteger :: "string \<Rightarrow> column" where "pgInteger k = column k Integer"
definition decimal :: "string \<Rightarrow> nat \<Rightarrow> nat \<Rightarrow> column" where "decimal k p s = column k (Decimal p s)"
definition boolean :: "string \<Rightarrow> column" where "boolean k = column k Boolean"
definition timestamp :: "string \<Rightarrow> column" where "timestamp k = column k Timestamp"
definition jsonb :: "string \<Rightarrow> column" where "jsonb k = column k Jsonb"

definition notNull :: "column \<Rightarrow> column" where
  "notNull c = c\<lparr>colNotNull := True\<rparr>"
definition primaryKey :: "column \<Rightarrow> column" where
  "primaryKey c = c\<lparr>colPrimaryKey := True, colNotNull := True\<rparr>"
definition defaultTo :: "dflt \<Rightarrow> column \<Rightarrow> column" where
  "defaultTo d c = c\<lparr>colDefault := d\<rparr>"
definition defaultNow :: "column \<Rightarrow> column" where
  "defaultNow c = c\<lparr>colDefault := DefaultNow\<rparr>"
definition unique :: "column \<Rightarrow> column" where
  "unique c = c\<lparr>colUnique := True\<rparr>"
definition references :: "tname \<Rightarrow> column \<Rightarrow> column" where
  "references t c = c\<lparr>colReferences := Some t\<rparr>"

definition users :: "column list" where
  "users =
    [ defaultTo GenRandomUuid (primaryKey (varchar ''id'')),
      unique (varchar ''email''),
      varchar ''firstName'',
      varchar ''lastName'',
      varchar ''profileImageUrl'',
      defaultTo (Literal (JStr ''field_worker'')) (notNull (varchar ''role'')),
      varchar ''district'',
      varchar ''organization'',
      defaultNow (timestamp ''createdAt''),
      defaultNow (timestamp ''updatedAt'') ]"

definition floodZones :: "column list" where
  "floodZones =
    [ defaultTo GenRandomUuid (primaryKey (varchar ''id'')),
      notNull (varchar ''name''),
      notNull (varchar ''district''),
      notNull (decimal ''latitude'' 10 8),
      notNull (decimal ''longitude'' 11 8),
      notNull (varchar ''riskLevel''),
      notNull (pgInteger ''radius''),
      decimal ''waterLevel'' 8 2,
      decimal ''dangerMark'' 8 2,
      defaultTo (Literal (JBool True)) (boolean ''isActive''),
      defaultNow (timestamp ''lastUpdated''),
      defaultNow (timestamp ''createdAt'') ]"

definition affectedPopulation :: "column list" where
  "affectedPopulation =
    [ defaultTo GenRandomUuid (primaryKey (varchar ''id'')),
      notNull (varchar ''name''),
      pgInteger ''age'',
      varchar ''gender'',
      varchar ''phoneNumber'',
      pgText ''address'',
      decimal ''latitude'' 10 8,
      decimal ''longitude'' 11 8,
      references FloodZones (varchar ''floodZoneId''),
      notNull (varchar ''evacuationStatus''),
      pgText ''medicalNeeds'',
      defaultTo (Literal (JNum 1)) (pgInteger ''familyMembers''),
      references Users (varchar ''registeredBy''),
      defaultNow (timestamp ''createdAt''),
      defaultNow (timestamp ''updatedAt'') ]"

definition resources :: "column list" where
  "resources =
    [ defaultTo GenRandomUuid (primaryKey (varchar ''id'')),
      notNull (varchar ''name''),
      notNull (varchar ''type''),
      notNull (varchar ''unit''),
      notNull (pgInteger ''totalQuantity''),
      defaultTo (Literal (JNum 0)) (pgInteger ''allocatedQuantity''),
      defaultTo (Literal (JNum 0)) (pgInteger ''distributedQuantity''),
      notNull (varchar ''priority''),
      varchar ''location'',
      timestamp ''expiryDate'',
      defaultNow (timestamp ''createdAt''),
      defaultNow (timestamp ''updatedAt'') ]"

definition reliefDistribution :: "column list" where
  "reliefDistribution =
    [ defaultTo GenRandomUuid (primaryKey (varchar ''id'')),
      notNull (references Resources (varchar ''resourceId'')),
      references FloodZones (varchar ''floodZoneId''),
      notNull (pgInteger ''quantity''),
      varchar ''distributedTo'',
      references Users (varchar ''distributedBy''),
      defaultNow (timestamp ''distributionDate''),
      pgInteger ''recipientCount'',
      pgText ''notes'',
      defaultTo (Literal (JStr ''completed'')) (varchar ''status''),
      defaultNow (timestamp ''createdAt'') ]"

definition weatherAlerts :: "column list" where
  "weatherAlerts =
    [ defaultTo GenRandomUuid (primaryKey (varchar ''id'')),
      notNull (varchar ''type''),
      notNull (varchar ''severity''),
      notNull (varchar ''title''),
      notNull (pgText ''message''),
      varchar ''affectedArea'',
      timestamp ''validUntil'',
      defaultTo (Literal (JBool True)) (boolean ''isActive''),
      references Users (varchar ''createdBy''),
      defaultNow (timestamp ''createdAt'') ]"

definition responseTeams :: "column list" where
  "responseTeams =
    [ defaultTo GenRandomUuid (primaryKey (varchar ''id'')),
      notNull (varchar ''name''),
      notNull (varchar ''type''),
      notNull (varchar ''status''),
      varchar ''currentLocation'',
      references FloodZones (varchar ''assignedZone''),
      defaultTo (Literal (JNum 0)) (pgInteger ''memberCount''),
      varchar ''contactNumber'',
      references Users (varchar ''leadOfficer''),
      defaultNow (timestamp ''createdAt''),
      defaultNow (timestamp ''updatedAt'') ]"

definition activityLog :: "column list" where
  "activityLog =
    [ defaultTo GenRandomUuid (primaryKey (varchar ''id'')),
      notNull (varchar ''type''),
      notNull (pgText ''description''),
      varchar ''entityType'',
      varchar ''entityId'',
      references Users (varchar ''performedBy''),
      varchar ''location'',
      jsonb ''metadata'',
      defaultNow (timestamp ''createdAt'') ]"

fun columnsOf :: "tname \<Rightarrow> column list" where
  "columnsOf Users = users"
| "columnsOf FloodZones = floodZones"
| "columnsOf AffectedPopulation = affectedPopulation"
| "columnsOf Resources = resources"
| "columnsOf ReliefDistribution = reliefDistribution"
| "columnsOf WeatherAlerts = weatherAlerts"
| "columnsOf ResponseTeams = responseTeams"
| "columnsOf ActivityLog = activityLog"

definition allTables :: "tname list" where
  "allTables = [Users, FloodZones, AffectedPopulation, Resources,
                ReliefDistribution, WeatherAlerts, ResponseTeams, ActivityLog]"

section \<open>The environment\<close>

text \<open>
  What the program asks of the outside: the UUIDs of \<open>gen_random_uuid()\<close> and the readings
  of the clocks (\<open>now()\<close>, \<open>new Date()\<close>), each indexed by the statement counter; the text-input
  conversion of PostgreSQL for a value whose JavaScript type is not the column's own
  (\<open>None\<close> when the driver or the server raises), which also decides every \<open>decimal\<close>
  literal; the \<open>OPENWEATHER_API_KEY\<close> variable; and the answer of \<open>fetch\<close> to a URL.
\<close>

datatype fetchResult =
    NetworkError
  | HttpResponse bool nat "jsval option"

record env =
  genUuid :: "nat \<Rightarrow> string"
  clock :: "nat \<Rightarrow> int"
  pgInput :: "colType \<Rightarrow> jsval \<Rightarrow> jsval option"
  apiKey :: "string option"
  fetch :: "string \<Rightarrow> fetchResult"

section \<open>The world: database tables, a statement counter, the outgoing HTTP calls\<close>

text \<open>
  \<open>tables\<close> holds the rows of each table in insertion order. Every statement that asks
  for \<open>gen_random_uuid()\<close>, \<open>now()\<close> or \<open>new Date()\<close> reads the environment at the current
  \<open>tick\<close> and advances it, so no two readings are tied to each other. \<open>httpLog\<close> records
  the URLs given to \<open>fetch\<close>, oldest first.
\<close>

record world =
  tables :: "tname \<Rightarrow> obj list"
  tick :: nat
  httpLog :: "string list"

datatype dberror =
    NotNullViolation string
  | UniqueViolation string
  | ForeignKeyViolation string
  | InvalidInput string
  | NumericOutOfRange string
  | DivisionByZero

section \<open>SQL expressions\<close>

text \<open>Three-valued logic: \<open>None\<close> is SQL's unknown. A \<open>WHERE\<close> keeps the rows whose condition is true.\<close>

definition sql_eq :: "jsval \<Rightarrow> jsval \<Rightarrow> bool option" where
  "sql_eq a b = (if a = JNull \<or> b = JNull then None else Some (a = b))"

fun sql_gte :: "jsval \<Rightarrow> jsval \<Rightarrow> bool option" where
  "sql_gte (JDate a) (JDate b) = Some (b \<le> a)"
| "sql_gte (JNum a) (JNum b) = Some (b \<le> a)"
| "sql_gte _ _ = None"

fun sql_and :: "bool option \<Rightarrow> bool option \<Rightarrow> bool option" where
  "sql_and (Some False) _ = Some False"
| "sql_and _ (Some False) = Some False"
| "sql_and (Some True) (Some True) = Some True"
| "sql_and _ _ = None"

definition whereRows :: "(obj \<Rightarrow> bool option) \<Rightarrow> obj list \<Rightarrow> obj list" where
  "whereRows p rows = filter (\<lambda>r. p r = Some True) rows"

text \<open>
  Aggregates. \<open>count(*)\<close> is a bigint. \<open>SUM\<close> over an integer column skips NULLs, is a
  bigint, and is NULL when nothing is left to add. An integer column holds whole numbers.
\<close>

fun intOf :: "jsval \<Rightarrow> int option" where
  "intOf (JNum r) = Some \<lfloor>r\<rfloor>"
| "intOf _ = None"

definition columnInts :: "string \<Rightarrow> obj list \<Rightarrow> int list" where
  "columnInts k rows = List.map_filter (\<lambda>r. intOf (col k r)) rows"

definition sql_count :: "obj list \<Rightarrow> nat" where
  "sql_count rows = length rows"

definition sql_sum :: "string \<Rightarrow> obj list \<Rightarrow> int option" where
  "sql_sum k rows = (case columnInts k rows of [] \<Rightarrow> None | x # xs \<Rightarrow> Some (sum_list (x # xs)))"

text \<open>
  \<open>bigint * 100.0\<close>: the bigint becomes a numeric and the product is a numeric of display
  scale 1, the scale of the literal. It is kept here as its (whole) value and its scale.
\<close>

definition times100 :: "int option \<Rightarrow> (int \<times> nat) option" where
  "times100 a = map_option (\<lambda>x. (x * 100, 1)) a"

text \<open>
  PostgreSQL's numeric division. The quotient is computed to a result scale and rounded
  there, a tie away from zero. \<open>select_div_scale\<close> picks the scale from the operands as
  numeric stores them, in digits of base 10000: with the weight of an operand the position
  of its first such digit, the weight of the quotient is estimated as the difference of
  the weights, one less when the first digit of the dividend is not greater than that of
  the divisor; the scale is 16 less four times that estimate, not below either operand's
  display scale, and at most 1000. The operands here are whole.
\<close>

definition numericWeight :: "nat \<Rightarrow> nat" where
  "numericWeight n = floorlog 10000 n - 1"

definition firstDigit :: "nat \<Rightarrow> nat" where
  "firstDigit n = n div 10000 ^ numericWeight n"

definition select_div_scale :: "int \<Rightarrow> nat \<Rightarrow> int \<Rightarrow> nat \<Rightarrow> nat" where
  "select_div_scale var1 dscale1 var2 dscale2 =
    (let qweight = int (numericWeight (nat \<bar>var1\<bar>)) - int (numericWeight (nat \<bar>var2\<bar>))
                     - (if firstDigit (nat \<bar>var1\<bar>) \<le> firstDigit (nat \<bar>var2\<bar>) then 1 else 0);
         rscale = 16 - qweight * 4
     in nat (min 1000 (max 0 (max (int dscale2) (max (int dscale1) rscale)))))"

definition roundTo :: "nat \<Rightarrow> rat \<Rightarrow> rat" where
  "roundTo rscale x = sgn x * of_int \<lfloor>\<bar>x\<bar> * 10 ^ rscale + 1 / 2\<rfloor> / 10 ^ rscale"

text \<open>Division raises on a zero divisor; with a NULL operand it is NULL and nothing is divided.\<close>

definition sql_div :: "(int \<times> nat) option \<Rightarrow> int option \<Rightarrow> dberror + rat option" where
  "sql_div a b =
    (case a of None \<Rightarrow> Inr None
     | Some x \<Rightarrow> (case b of None \<Rightarrow> Inr None
        | Some y \<Rightarrow>
            if y = 0 then Inl DivisionByZero
            else Inr (Some (roundTo (select_div_scale (fst x) (snd x) y 0) (of_int (fst x) / of_int y)))))"

text \<open>\<open>ROUND(x, 0)\<close> on numeric: to the nearest integer, a tie away from zero.\<close>

definition round0 :: "rat \<Rightarrow> int" where
  "round0 x = (if 0 \<le> x then \<lfloor>x + 1 / 2\<rfloor> else - \<lfloor>- x + 1 / 2\<rfloor>)"

definition sql_round :: "rat option \<Rightarrow> int option" where
  "sql_round a = map_option round0 a"

text \<open>
  What the driver hands over for a bigint or a numeric of scale 0: it does not parse these
  types, so the value arrives as its decimal text, and NULL as \<open>null\<close>.
\<close>

definition bigintText :: "nat \<Rightarrow> jsval" where
  "bigintText n = JStr (showNat n)"

definition numericText :: "int option \<Rightarrow> jsval" where
  "numericText a = (case a of None \<Rightarrow> JNull | Some x \<Rightarrow> JStr (showInt x))"

text \<open>
  \<open>ORDER BY c DESC\<close> on a timestamp column: latest first, NULLs before everything. Rows with
  the same timestamp keep their table order here; SQL leaves their order open.
\<close>

fun descKey :: "jsval \<Rightarrow> int option" where
  "descKey (JDate t) = Some (- t)"
| "descKey _ = None"

definition orderByDesc :: "string \<Rightarrow> obj list \<Rightarrow> obj list" where
  "orderByDesc k rows = sort_key (\<lambda>r. descKey (col k r)) rows"

definition first :: "'a list \<Rightarrow> 'a option" where
  "first xs = (case xs of [] \<Rightarrow> None | x # _ \<Rightarrow> Some x)"

section \<open>Statements: INSERT and UPDATE\<close>

text \<open>
  A value bound to a column. A value of the column's own JavaScript type is stored as it is
  (an integer column takes a whole number of 32 bits); NULL is NULL; anything else is left
  to the environment's \<open>pgInput\<close>.
\<close>

definition isWhole :: "rat \<Rightarrow> bool" where
  "isWhole r = (of_int \<lfloor>r\<rfloor> = r)"

definition inInt4 :: "rat \<Rightarrow> bool" where
  "inInt4 r = (- 2147483648 \<le> r \<and> r \<le> 2147483647)"

text \<open>The JavaScript values a column of each type holds (NULL aside).\<close>

fun hasType :: "colType \<Rightarrow> jsval \<Rightarrow> bool" where
  "hasType Varchar (JStr s) = True"
| "hasType Text (JStr s) = True"
| "hasType (Decimal p s) (JStr d) = True"
| "hasType Integer (JNum r) = (isWhole r \<and> inInt4 r)"
| "hasType Boolean (JBool b) = True"
| "hasType Timestamp (JDate d) = True"
| "hasType Jsonb v = (v \<noteq> JNull)"
| "hasType t v = False"

definition viaInput :: "env \<Rightarrow> string \<Rightarrow> colType \<Rightarrow> jsval \<Rightarrow> dberror + jsval" where
  "viaInput e k t v =
    (case pgInput e t v of
       None \<Rightarrow> Inl (InvalidInput k)
     | Some v' \<Rightarrow> if hasType t v' then Inr v' else Inl (InvalidInput k))"

fun convert :: "env \<Rightarrow> string \<Rightarrow> colType \<Rightarrow> jsval \<Rightarrow> dberror + jsval" where
  "convert e k t JNull = Inr JNull"
| "convert e k Varchar (JStr s) = Inr (JStr s)"
| "convert e k Text (JStr s) = Inr (JStr s)"
| "convert e k Integer (JNum r) =
     (if \<not> isWhole r then Inl (InvalidInput k)
      else if inInt4 r then Inr (JNum r) else Inl (NumericOutOfRange k))"
| "convert e k Boolean (JBool b) = Inr (JBool b)"
| "convert e k Timestamp (JDate d) = Inr (JDate d)"
| "convert e k Jsonb v = Inr v"
| "convert e k t v = viaInput e k t v"

definition defaultValue :: "env \<Rightarrow> nat \<Rightarrow> column \<Rightarrow> jsval" where
  "defaultValue e n c =
    (case colDefault c of
       NoDefault \<Rightarrow> JNull
     | GenRandomUuid \<Rightarrow> JStr (genUuid e n)
     | DefaultNow \<Rightarrow> JDate (clock e n)
     | Literal v \<Rightarrow> v)"

text \<open>The row an INSERT proposes: a given value is converted, a missing one takes the default.\<close>

fun buildRow :: "env \<Rightarrow> nat \<Rightarrow> column list \<Rightarrow> obj \<Rightarrow> dberror + obj" where
  "buildRow e n [] vals = Inr []"
| "buildRow e n (c # cs) vals =
     (case (case map_of vals (colKey c) of
              None \<Rightarrow> Inr (defaultValue e n c)
            | Some v \<Rightarrow> convert e (colKey c) (colType c) v) of
        Inl err \<Rightarrow> Inl err
      | Inr v \<Rightarrow>
          (case buildRow e n cs vals of
             Inl err \<Rightarrow> Inl err
           | Inr r \<Rightarrow> Inr ((colKey c, v) # r)))"

text \<open>
  The constraints of a row against the other rows of its table and the referenced tables:
  NOT NULL, then the primary key and unique columns, then the foreign keys.
\<close>

definition notNullError :: "obj \<Rightarrow> column \<Rightarrow> dberror option" where
  "notNullError r c =
    (if colNotNull c \<and> col (colKey c) r = JNull then Some (NotNullViolation (colKey c)) else None)"

definition uniqueError :: "obj list \<Rightarrow> obj \<Rightarrow> column \<Rightarrow> dberror option" where
  "uniqueError others r c =
    (if (colPrimaryKey c \<or> colUnique c) \<and> col (colKey c) r \<noteq> JNull
        \<and> col (colKey c) r \<in> set (map (col (colKey c)) others)
     then Some (UniqueViolation (colKey c)) else None)"

definition foreignKeyError :: "world \<Rightarrow> obj \<Rightarrow> column \<Rightarrow> dberror option" where
  "foreignKeyError w r c =
    (case colReferences c of
       None \<Rightarrow> None
     | Some t \<Rightarrow>
         if col (colKey c) r = JNull \<or> col (colKey c) r \<in> set (map (col ''id'') (tables w t))
         then None else Some (ForeignKeyViolation (colKey c)))"

definition checkRow :: "world \<Rightarrow> obj list \<Rightarrow> obj \<Rightarrow> column list \<Rightarrow> dberror option" where
  "checkRow w others r cols =
    first (List.map_filter (notNullError r) cols
           @ List.map_filter (uniqueError others r) cols
           @ List.map_filter (foreignKeyError w r) cols)"

text \<open>
  \<open>db.insert(t).values(vals).returning()\<close>: one statement, committed on its own. It reads
  the environment at the current tick and advances the counter whether it succeeds or not.
\<close>

definition insertRow :: "env \<Rightarrow> tname \<Rightarrow> obj \<Rightarrow> world \<Rightarrow> (dberror + obj) \<times> world" where
  "insertRow e t vals w =
    (let w1 = w\<lparr>tick := Suc (tick w)\<rparr>
     in case buildRow e (tick w) (columnsOf t) vals of
          Inl err \<Rightarrow> (Inl err, w1)
        | Inr r \<Rightarrow>
            (case checkRow w (tables w t) r (columnsOf t) of
               Some err \<Rightarrow> (Inl err, w1)
             | None \<Rightarrow> (Inr r, w1\<lparr>tables := (tables w)(t := tables w t @ [r])\<rparr>)))"

text \<open>
  The right-hand sides of \<open>.set({...})\<close>: a plain value, or the SQL fragment
  \<open>column + value\<close> used by \<open>createReliefDistribution\<close>.
\<close>

datatype setExpr = Val jsval | PlusColumn string jsval

fun bindExpr :: "env \<Rightarrow> column \<Rightarrow> setExpr \<Rightarrow> dberror + setExpr" where
  "bindExpr e c (Val v) =
     (case convert e (colKey c) (colType c) v of Inl err \<Rightarrow> Inl err | Inr v' \<Rightarrow> Inr (Val v'))"
| "bindExpr e c (PlusColumn k v) =
     (case convert e (colKey c) Integer v of Inl err \<Rightarrow> Inl err | Inr v' \<Rightarrow> Inr (PlusColumn k v'))"

text \<open>Only the keys that name a column of the table are assigned; the parameters are converted
  when the statement is bound, before any row is looked at.\<close>

fun bindSet :: "env \<Rightarrow> column list \<Rightarrow> (string \<times> setExpr) list \<Rightarrow> dberror + (string \<times> setExpr) list" where
  "bindSet e [] sets = Inr []"
| "bindSet e (c # cs) sets =
     (case map_of sets (colKey c) of
        None \<Rightarrow> bindSet e cs sets
      | Some x \<Rightarrow>
          (case bindExpr e c x of
             Inl err \<Rightarrow> Inl err
           | Inr x' \<Rightarrow>
               (case bindSet e cs sets of
                  Inl err \<Rightarrow> Inl err
                | Inr rest \<Rightarrow> Inr ((colKey c, x') # rest))))"

fun sqlPlus :: "string \<Rightarrow> jsval \<Rightarrow> jsval \<Rightarrow> dberror + jsval" where
  "sqlPlus k (JNum a) (JNum b) =
     (if inInt4 (a + b) then Inr (JNum (a + b)) else Inl (NumericOutOfRange k))"
| "sqlPlus k JNull _ = Inr JNull"
| "sqlPlus k _ JNull = Inr JNull"
| "sqlPlus k _ _ = Inl (InvalidInput k)"

definition assign :: "(string \<times> setExpr) list \<Rightarrow> obj \<Rightarrow> string \<Rightarrow> jsval \<Rightarrow> dberror + jsval" where
  "assign sets r k v =
    (case map_of sets k of
       None \<Rightarrow> Inr v
     | Some (Val x) \<Rightarrow> Inr x
     | Some (PlusColumn k' x) \<Rightarrow> sqlPlus k (col k' r) x)"

fun applySet :: "(string \<times> setExpr) list \<Rightarrow> obj \<Rightarrow> obj \<Rightarrow> dberror + obj" where
  "applySet sets r [] = Inr []"
| "applySet sets r ((k, v) # kvs) =
     (case assign sets r k v of
        Inl err \<Rightarrow> Inl err
      | Inr v' \<Rightarrow>
          (case applySet sets r kvs of
             Inl err \<Rightarrow> Inl err
           | Inr kvs' \<Rightarrow> Inr ((k, v') # kvs')))"

fun applyAll :: "(obj \<Rightarrow> bool) \<Rightarrow> (string \<times> setExpr) list \<Rightarrow> obj list \<Rightarrow> dberror + obj list" where
  "applyAll sel sets [] = Inr []"
| "applyAll sel sets (r # rs) =
     (case (if sel r then applySet sets r r else Inr r) of
        Inl err \<Rightarrow> Inl err
      | Inr r' \<Rightarrow>
          (case applyAll sel sets rs of
             Inl err \<Rightarrow> Inl err
           | Inr rs' \<Rightarrow> Inr (r' # rs')))"

text \<open>A row whose \<open>id\<close> other rows refer to cannot change it.\<close>

definition referenced :: "world \<Rightarrow> tname \<Rightarrow> jsval \<Rightarrow> bool" where
  "referenced w t v =
    list_ex (\<lambda>t'. list_ex (\<lambda>c. colReferences c = Some t
                              \<and> v \<in> set (map (col (colKey c)) (tables w t')))
                          (columnsOf t'))
            allTables"

text \<open>
  The rows a table holds satisfy its constraints, so an UPDATE has to check only the columns
  whose value it changes.
\<close>

definition changed :: "obj \<Rightarrow> obj \<Rightarrow> column list \<Rightarrow> column list" where
  "changed old new cols = filter (\<lambda>c. col (colKey c) new \<noteq> col (colKey c) old) cols"

definition updatedError :: "world \<Rightarrow> tname \<Rightarrow> obj list \<Rightarrow> obj \<times> obj \<Rightarrow> dberror option" where
  "updatedError w t others rr =
    (case checkRow w others (snd rr) (changed (fst rr) (snd rr) (columnsOf t)) of
       Some err \<Rightarrow> Some err
     | None \<Rightarrow>
         if col ''id'' (snd rr) \<noteq> col ''id'' (fst rr) \<and> referenced w t (col ''id'' (fst rr))
         then Some (ForeignKeyViolation ''id'') else None)"

text \<open>
  \<open>db.update(t).set(sets).where(eq(t.id, ident)).returning()\<close>: the rows whose id equals
  the parameter are rewritten; the others stay. The statement fails as a whole, changing
  nothing, when a parameter cannot be bound or a rewritten row breaks a constraint.
\<close>

definition updateRows ::
  "env \<Rightarrow> tname \<Rightarrow> (string \<times> setExpr) list \<Rightarrow> jsval \<Rightarrow> world \<Rightarrow> (dberror + obj list) \<times> world" where
  "updateRows e t sets ident w =
    (let sel = (\<lambda>r. sql_eq (col ''id'' r) ident = Some True);
         rows = tables w t
     in case bindSet e (columnsOf t) sets of
          Inl err \<Rightarrow> (Inl err, w)
        | Inr bound \<Rightarrow>
            (case applyAll sel bound rows of
               Inl err \<Rightarrow> (Inl err, w)
             | Inr rows' \<Rightarrow>
                 (case first (List.map_filter (updatedError w t (filter (\<lambda>r. \<not> sel r) rows))
                                (filter (\<lambda>rr. sel (fst rr)) (zip rows rows'))) of
                    Some err \<Rightarrow> (Inl err, w)
                  | None \<Rightarrow>
                      (Inr (map snd (filter (\<lambda>rr. sel (fst rr)) (zip rows rows'))),
                       w\<lparr>tables := (tables w)(t := rows')\<rparr>))))"

section \<open>The storage layer (server/storage.ts)\<close>

text \<open>
  Each method of \<open>DatabaseStorage\<close>, on the statements above. A method that raises returns
  \<open>Inl\<close> with the world as the statements committed so far left it: nothing is wrapped
  in a transaction. An insert or update object is an \<open>obj\<close> whose absent keys are
  \<open>undefined\<close>.
\<close>

definition byId :: "jsval \<Rightarrow> obj \<Rightarrow> bool option" where
  "byId ident r = sql_eq (col ''id'' r) ident"

definition setOf :: "obj \<Rightarrow> (string \<times> setExpr) list" where
  "setOf updates = map (\<lambda>kv. (fst kv, Val (snd kv))) updates"

text \<open>\<open>.set({ ...updates, stamp: new Date() }).where(eq(t.id, id)).returning()\<close>, first row.\<close>

definition setAndStamp ::
  "env \<Rightarrow> tname \<Rightarrow> string \<Rightarrow> string \<Rightarrow> obj \<Rightarrow> world \<Rightarrow> (dberror + obj option) \<times> world" where
  "setAndStamp e t stamp ident updates w =
    (let now = clock e (tick w);
         w1 = w\<lparr>tick := Suc (tick w)\<rparr>
     in case updateRows e t (setOf ((stamp, JDate now) # updates)) (JStr ident) w1 of
          (Inl err, w2) \<Rightarrow> (Inl err, w2)
        | (Inr rows, w2) \<Rightarrow> (Inr (first rows), w2))"

subsection \<open>Users\<close>

definition getUser :: "string \<Rightarrow> world \<Rightarrow> obj option" where
  "getUser ident w = first (whereRows (byId (JStr ident)) (tables w Users))"

text \<open>
  \<open>insert(users).values(userData).onConflictDoUpdate({target: users.id, set: {...userData,
  updatedAt: new Date()}})\<close>: the proposed row must pass NOT NULL; when its id is taken
  the existing row is updated, otherwise the row is inserted.
\<close>

definition upsertUser :: "env \<Rightarrow> obj \<Rightarrow> world \<Rightarrow> (dberror + obj option) \<times> world" where
  "upsertUser e userData w =
    (let now = clock e (tick w);
         w1 = w\<lparr>tick := Suc (tick w)\<rparr>;
         w2 = w1\<lparr>tick := Suc (tick w1)\<rparr>
     in case buildRow e (tick w1) users userData of
          Inl err \<Rightarrow> (Inl err, w2)
        | Inr r \<Rightarrow>
            (case first (List.map_filter (notNullError r) users) of
               Some err \<Rightarrow> (Inl err, w2)
             | None \<Rightarrow>
                 if col ''id'' r \<in> set (map (col ''id'') (tables w Users))
                 then (case updateRows e Users (setOf ((''updatedAt'', JDate now) # userData))
                              (col ''id'' r) w2 of
                         (Inl err, w3) \<Rightarrow> (Inl err, w3)
                       | (Inr rows, w3) \<Rightarrow> (Inr (first rows), w3))
                 else (case insertRow e Users userData w1 of
                         (Inl err, w3) \<Rightarrow> (Inl err, w3)
                       | (Inr row, w3) \<Rightarrow> (Inr (Some row), w3))))"

subsection \<open>Flood zones\<close>

definition getFloodZones :: "world \<Rightarrow> obj list" where
  "getFloodZones w = orderByDesc ''lastUpdated'' (tables w FloodZones)"

definition getFloodZone :: "string \<Rightarrow> world \<Rightarrow> obj option" where
  "getFloodZone ident w = first (whereRows (byId (JStr ident)) (tables w FloodZones))"

definition createFloodZone :: "env \<Rightarrow> obj \<Rightarrow> world \<Rightarrow> (dberror + obj) \<times> world" where
  "createFloodZone e zone w = insertRow e FloodZones zone w"

definition updateFloodZone ::
  "env \<Rightarrow> string \<Rightarrow> obj \<Rightarrow> world \<Rightarrow> (dberror + obj option) \<times> world" where
  "updateFloodZone e ident zone w = setAndStamp e FloodZones ''lastUpdated'' ident zone w"

subsection \<open>Affected population\<close>

text \<open>\<open>if (floodZoneId)\<close>: an absent or empty string takes the unfiltered branch.\<close>

definition getAffectedPopulation :: "string option \<Rightarrow> world \<Rightarrow> obj list" where
  "getAffectedPopulation floodZoneId w =
    (case floodZoneId of
       None \<Rightarrow> orderByDesc ''createdAt'' (tables w AffectedPopulation)
     | Some z \<Rightarrow>
         if z \<noteq> []
         then orderByDesc ''createdAt''
                (whereRows (\<lambda>r. sql_eq (col ''floodZoneId'' r) (JStr z)) (tables w AffectedPopulation))
         else orderByDesc ''createdAt'' (tables w AffectedPopulation))"

definition createAffectedPerson :: "env \<Rightarrow> obj \<Rightarrow> world \<Rightarrow> (dberror + obj) \<times> world" where
  "createAffectedPerson e person w = insertRow e AffectedPopulation person w"

definition updateAffectedPerson ::
  "env \<Rightarrow> string \<Rightarrow> obj \<Rightarrow> world \<Rightarrow> (dberror + obj option) \<times> world" where
  "updateAffectedPerson e ident updates w =
     setAndStamp e AffectedPopulation ''updatedAt'' ident updates w"

subsection \<open>Resources\<close>

definition getResources :: "world \<Rightarrow> obj list" where
  "getResources w = orderByDesc ''updatedAt'' (tables w Resources)"

definition getResource :: "string \<Rightarrow> world \<Rightarrow> obj option" where
  "getResource ident w = first (whereRows (byId (JStr ident)) (tables w Resources))"

definition createResource :: "env \<Rightarrow> obj \<Rightarrow> world \<Rightarrow> (dberror + obj) \<times> world" where
  "createResource e resource w = insertRow e Resources resource w"

definition updateResource ::
  "env \<Rightarrow> string \<Rightarrow> obj \<Rightarrow> world \<Rightarrow> (dberror + obj option) \<times> world" where
  "updateResource e ident updates w = setAndStamp e Resources ''updatedAt'' ident updates w"

subsection \<open>Relief distribution\<close>

definition getReliefDistributions :: "string option \<Rightarrow> world \<Rightarrow> obj list" where
  "getReliefDistributions floodZoneId w =
    (case floodZoneId of
       None \<Rightarrow> orderByDesc ''distributionDate'' (tables w ReliefDistribution)
     | Some z \<Rightarrow>
         if z \<noteq> []
         then orderByDesc ''distributionDate''
                (whereRows (\<lambda>r. sql_eq (col ''floodZoneId'' r) (JStr z)) (tables w ReliefDistribution))
         else orderByDesc ''distributionDate'' (tables w ReliefDistribution))"

text \<open>
  The insert, then a second statement:
  \<open>update(resources).set({distributedQuantity: sql`distributed_quantity + ${quantity}`,
  updatedAt: new Date()}).where(eq(resources.id, distribution.resourceId))\<close>.
\<close>

definition createReliefDistribution :: "env \<Rightarrow> obj \<Rightarrow> world \<Rightarrow> (dberror + obj) \<times> world" where
  "createReliefDistribution e distribution w =
    (case insertRow e ReliefDistribution distribution w of
       (Inl err, w1) \<Rightarrow> (Inl err, w1)
     | (Inr newDistribution, w1) \<Rightarrow>
         (let now = clock e (tick w1);
              w2 = w1\<lparr>tick := Suc (tick w1)\<rparr>
          in case updateRows e Resources
                    [ (''distributedQuantity'',
                         PlusColumn ''distributedQuantity'' (col ''quantity'' distribution)),
                      (''updatedAt'', Val (JDate now)) ]
                    (col ''resourceId'' distribution) w2 of
               (Inl err, w3) \<Rightarrow> (Inl err, w3)
             | (Inr rows, w3) \<Rightarrow> (Inr newDistribution, w3)))"

subsection \<open>Weather alerts\<close>

definition isActiveAlert :: "int \<Rightarrow> obj \<Rightarrow> bool option" where
  "isActiveAlert now r =
     sql_and (sql_eq (col ''isActive'' r) (JBool True)) (sql_gte (col ''validUntil'' r) (JDate now))"

definition getActiveWeatherAlerts :: "env \<Rightarrow> world \<Rightarrow> obj list \<times> world" where
  "getActiveWeatherAlerts e w =
    (orderByDesc ''createdAt'' (whereRows (isActiveAlert (clock e (tick w))) (tables w WeatherAlerts)),
     w\<lparr>tick := Suc (tick w)\<rparr>)"

definition createWeatherAlert :: "env \<Rightarrow> obj \<Rightarrow> world \<Rightarrow> (dberror + obj) \<times> world" where
  "createWeatherAlert e alert w = insertRow e WeatherAlerts alert w"

definition deactivateWeatherAlert :: "env \<Rightarrow> string \<Rightarrow> world \<Rightarrow> (dberror + unit) \<times> world" where
  "deactivateWeatherAlert e ident w =
    (case updateRows e WeatherAlerts [(''isActive'', Val (JBool False))] (JStr ident) w of
       (Inl err, w1) \<Rightarrow> (Inl err, w1)
     | (Inr rows, w1) \<Rightarrow> (Inr (), w1))"

subsection \<open>Response teams\<close>

definition getResponseTeams :: "world \<Rightarrow> obj list" where
  "getResponseTeams w = orderByDesc ''updatedAt'' (tables w ResponseTeams)"

definition createResponseTeam :: "env \<Rightarrow> obj \<Rightarrow> world \<Rightarrow> (dberror + obj) \<times> world" where
  "createResponseTeam e team w = insertRow e ResponseTeams team w"

definition updateResponseTeam ::
  "env \<Rightarrow> string \<Rightarrow> obj \<Rightarrow> world \<Rightarrow> (dberror + obj option) \<times> world" where
  "updateResponseTeam e ident updates w = setAndStamp e ResponseTeams ''updatedAt'' ident updates w"

subsection \<open>Activity log\<close>

text \<open>
  \<open>.limit(n)\<close>: the query builder writes a \<open>LIMIT\<close> clause only for a count that is not
  negative, so a negative one returns every row; PostgreSQL refuses one beyond 64 bits.
\<close>

definition getRecentActivities :: "int \<Rightarrow> world \<Rightarrow> dberror + obj list" where
  "getRecentActivities limit w =
    (if limit < 0 then Inr (orderByDesc ''createdAt'' (tables w ActivityLog))
     else if 9223372036854775807 < limit then Inl (NumericOutOfRange ''limit'')
     else Inr (take (nat limit) (orderByDesc ''createdAt'' (tables w ActivityLog))))"

definition logActivity :: "env \<Rightarrow> obj \<Rightarrow> world \<Rightarrow> (dberror + obj) \<times> world" where
  "logActivity e activity w = insertRow e ActivityLog activity w"

subsection \<open>Dashboard statistics\<close>

text \<open>
  The third query of \<open>getDashboardStats\<close>:
  \<open>CASE WHEN SUM(total) = 0 THEN 0 ELSE ROUND(SUM(distributed) * 100.0 / SUM(total), 0) END\<close>.
  The \<open>WHEN\<close> branch is taken only when the comparison is true, so a NULL sum goes to \<open>ELSE\<close>.
  Both branches are numerics of scale 0.
\<close>

definition reliefPercentage :: "obj list \<Rightarrow> dberror + int option" where
  "reliefPercentage rows =
    (let total = sql_sum ''totalQuantity'' rows;
         distributed = sql_sum ''distributedQuantity'' rows
     in if total = Some 0 then Inr (Some 0)
        else (case sql_div (times100 distributed) total of
                Inl e \<Rightarrow> Inl e
              | Inr q \<Rightarrow> Inr (sql_round q)))"

text \<open>
  The four queries, and the object built from their first rows. \<open>sql<number>\<close> is a type
  annotation only: the fields are the driver's values as they come.
\<close>

definition getDashboardStats :: "world \<Rightarrow> dberror + obj" where
  "getDashboardStats w =
    (let activeZonesCount =
           sql_count (whereRows (\<lambda>r. sql_eq (col ''isActive'' r) (JBool True)) (tables w FloodZones));
         affectedPeopleCount = sql_count (tables w AffectedPopulation)
     in case reliefPercentage (tables w Resources) of
          Inl e \<Rightarrow> Inl e
        | Inr percentage \<Rightarrow>
            (let responseTeamsCount = sql_count (tables w ResponseTeams)
             in Inr [ (''activeZones'', bigintText activeZonesCount),
                      (''affectedPeople'', bigintText affectedPeopleCount),
                      (''reliefDistributed'', numericText percentage),
                      (''responseTeams'', bigintText responseTeamsCount) ]))"

subsection \<open>Sequences of storage calls\<close>

datatype call =
    UpsertUser obj
  | CreateFloodZone obj
  | UpdateFloodZone string obj
  | CreateAffectedPerson obj
  | UpdateAffectedPerson string obj
  | CreateResource obj
  | UpdateResource string obj
  | CreateReliefDistribution obj
  | GetActiveWeatherAlerts
  | CreateWeatherAlert obj
  | DeactivateWeatherAlert string
  | CreateResponseTeam obj
  | UpdateResponseTeam string obj
  | LogActivity obj

text \<open>The world a call leaves behind, whether it returned or raised.\<close>

fun exec :: "env \<Rightarrow> call \<Rightarrow> world \<Rightarrow> world" where
  "exec e (UpsertUser u) w = snd (upsertUser e u w)"
| "exec e (CreateFloodZone z) w = snd (createFloodZone e z w)"
| "exec e (UpdateFloodZone i z) w = snd (updateFloodZone e i z w)"
| "exec e (CreateAffectedPerson p) w = snd (createAffectedPerson e p w)"
| "exec e (UpdateAffectedPerson i p) w = snd (updateAffectedPerson e i p w)"
| "exec e (CreateResource r) w = snd (createResource e r w)"
| "exec e (UpdateResource i r) w = snd (updateResource e i r w)"
| "exec e (CreateReliefDistribution d) w = snd (createReliefDistribution e d w)"
| "exec e GetActiveWeatherAlerts w = snd (getActiveWeatherAlerts e w)"
| "exec e (CreateWeatherAlert a) w = snd (createWeatherAlert e a w)"
| "exec e (DeactivateWeatherAlert i) w = snd (deactivateWeatherAlert e i w)"
| "exec e (CreateResponseTeam t) w = snd (createResponseTeam e t w)"
| "exec e (UpdateResponseTeam i t) w = snd (updateResponseTeam e i t w)"
| "exec e (LogActivity a) w = snd (logActivity e a w)"

definition run :: "env \<Rightarrow> call list \<Rightarrow> world \<Rightarrow> world" where
  "run e calls w = fold (exec e) calls w"

definition emptyWorld :: world where
  "emptyWorld = \<lparr>tables = (\<lambda>t. []), tick = 0, httpLog = []\<rparr>"

section \<open>Request validation (drizzle-zod, zod)\<close>

text \<open>
  \<open>createInsertSchema(table)\<close> gives one field per column: of the column's JavaScript
  type, optional when the column is nullable or has a default, nullable when the column is
  nullable. \<open>.omit\<close> drops fields. \<open>.parse\<close> wants an object, checks every field of the
  schema and keeps only those keys. A number for an integer column has to be a whole
  number of 32 bits.
\<close>

record zfield =
  zKey :: string
  zType :: colType
  zOptional :: bool
  zNullable :: bool

definition createInsertSchema :: "column list \<Rightarrow> zfield list" where
  "createInsertSchema cols =
    map (\<lambda>c. \<lparr> zKey = colKey c, zType = colType c,
                zOptional = (\<not> colNotNull c \<or> colDefault c \<noteq> NoDefault),
                zNullable = (\<not> colNotNull c) \<rparr>) cols"

definition omit :: "string list \<Rightarrow> zfield list \<Rightarrow> zfield list" where
  "omit ks schema = filter (\<lambda>f. zKey f \<notin> set ks) schema"

definition insertFloodZoneSchema :: "zfield list" where
  "insertFloodZoneSchema = omit [''id'', ''lastUpdated'', ''createdAt''] (createInsertSchema floodZones)"

definition insertAffectedPopulationSchema :: "zfield list" where
  "insertAffectedPopulationSchema =
     omit [''id'', ''createdAt'', ''updatedAt''] (createInsertSchema affectedPopulation)"

definition insertResourceSchema :: "zfield list" where
  "insertResourceSchema = omit [''id'', ''createdAt'', ''updatedAt''] (createInsertSchema resources)"

definition insertReliefDistributionSchema :: "zfield list" where
  "insertReliefDistributionSchema =
     omit [''id'', ''distributionDate'', ''createdAt''] (createInsertSchema reliefDistribution)"

definition insertWeatherAlertSchema :: "zfield list" where
  "insertWeatherAlertSchema = omit [''id'', ''createdAt''] (createInsertSchema weatherAlerts)"

definition insertResponseTeamSchema :: "zfield list" where
  "insertResponseTeamSchema =
     omit [''id'', ''createdAt'', ''updatedAt''] (createInsertSchema responseTeams)"

definition insertActivityLogSchema :: "zfield list" where
  "insertActivityLogSchema = omit [''id'', ''createdAt''] (createInsertSchema activityLog)"

datatype error =
    ZodError
  | DbError dberror
  | TypeError
  | WeatherApiError nat
  | FetchFailed
  | InvalidJson

text \<open>One field: \<open>None\<close> is an issue, otherwise the entries the field contributes.\<close>

definition parseField :: "zfield \<Rightarrow> obj \<Rightarrow> obj option" where
  "parseField f input =
    (case map_of input (zKey f) of
       None \<Rightarrow> if zOptional f then Some [] else None
     | Some v \<Rightarrow>
         if v = JNull then (if zNullable f then Some [(zKey f, JNull)] else None)
         else if hasType (zType f) v then Some [(zKey f, v)] else None)"

fun parseFields :: "zfield list \<Rightarrow> obj \<Rightarrow> obj option" where
  "parseFields [] input = Some []"
| "parseFields (f # fs) input =
     (case parseField f input of
        None \<Rightarrow> None
      | Some kv \<Rightarrow> (case parseFields fs input of None \<Rightarrow> None | Some kvs \<Rightarrow> Some (kv @ kvs)))"

fun zodParse :: "zfield list \<Rightarrow> jsval \<Rightarrow> error + obj" where
  "zodParse schema (JObj input) =
     (case parseFields schema input of None \<Rightarrow> Inl ZodError | Some data \<Rightarrow> Inr data)"
| "zodParse schema v = Inl ZodError"

section \<open>JavaScript expressions of the handlers\<close>

text \<open>
  \<open>${v}\<close> in a template literal, for the values the handlers interpolate: strings and
  whole numbers read from varchar and integer columns, and \<open>null\<close>.
\<close>

fun template :: "jsval \<Rightarrow> string" where
  "template (JStr s) = s"
| "template (JNum r) = showInt \<lfloor>r\<rfloor>"
| "template JNull = ''null''"
| "template (JBool b) = (if b then ''true'' else ''false'')"
| "template v = ''[object Object]''"

text \<open>\<open>a || b\<close>: \<open>b\<close> when \<open>a\<close> is null, the empty string, zero or false.\<close>

definition orElse :: "jsval \<Rightarrow> jsval \<Rightarrow> jsval" where
  "orElse a b = (if a = JNull \<or> a = JStr [] \<or> a = JNum 0 \<or> a = JBool False then b else a)"

text \<open>
  \<open>{...v}\<close>: the entries of an object; an array or a string spreads into its indices; any
  other value into nothing.
\<close>

definition indexed :: "jsval list \<Rightarrow> obj" where
  "indexed xs = map (\<lambda>i. (showNat i, xs ! i)) [0..<length xs]"

fun spread :: "jsval \<Rightarrow> obj" where
  "spread (JObj kvs) = kvs"
| "spread (JArr xs) = indexed xs"
| "spread (JStr s) = indexed (map (\<lambda>c. JStr [c]) s)"
| "spread v = []"

text \<open>
  Property reads on the parsed weather document. \<open>None\<close> is \<open>undefined\<close>; reading a
  property of \<open>undefined\<close> or \<open>null\<close> throws. The names read (\<open>main\<close>, \<open>temp\<close>, \<open>humidity\<close>,
  \<open>weather\<close>, \<open>description\<close>, \<open>wind\<close>, \<open>speed\<close>, \<open>pressure\<close>) are built-in properties of no
  array, string, number or boolean, so only an object has them; \<open>[0]\<close> is also the first
  element of an array and the first character of a string.
\<close>

fun getProp :: "jsval option \<Rightarrow> string \<Rightarrow> error + jsval option" where
  "getProp None k = Inl TypeError"
| "getProp (Some JNull) k = Inl TypeError"
| "getProp (Some (JObj kvs)) k = Inr (map_of kvs k)"
| "getProp (Some v) k = Inr None"

fun getIndex0 :: "jsval option \<Rightarrow> error + jsval option" where
  "getIndex0 None = Inl TypeError"
| "getIndex0 (Some JNull) = Inl TypeError"
| "getIndex0 (Some (JObj kvs)) = Inr (map_of kvs ''0'')"
| "getIndex0 (Some (JArr xs)) = Inr (first xs)"
| "getIndex0 (Some (JStr s)) = Inr (map_option (\<lambda>c. JStr [c]) (first s))"
| "getIndex0 (Some v) = Inr None"

definition getPath2 :: "jsval \<Rightarrow> string \<Rightarrow> string \<Rightarrow> error + jsval option" where
  "getPath2 v a b = (case getProp (Some v) a of Inl err \<Rightarrow> Inl err | Inr x \<Rightarrow> getProp x b)"

text \<open>\<open>JSON.stringify\<close> leaves out the properties whose value is \<open>undefined\<close>.\<close>

definition defined :: "(string \<times> jsval option) list \<Rightarrow> obj" where
  "defined kvs = List.map_filter (\<lambda>kv. map_option (\<lambda>v. (fst kv, v)) (snd kv)) kvs"

section \<open>The routes (server/routes.ts)\<close>

text \<open>
  A request as the handlers see it once \<open>isAuthenticated\<close> has let it through: the path
  parameter (\<open>:id\<close> or \<open>:location\<close>), the query parameter \<open>floodZoneId\<close>, the value of
  \<open>parseInt(req.query.limit)\<close> (\<open>None\<close> for NaN), the JSON body, and \<open>req.user.claims.sub\<close>.
\<close>

record request =
  reqParam :: string
  reqFloodZoneId :: "string option"
  reqLimit :: "int option"
  reqBody :: jsval
  reqSub :: string

text \<open>A response: the status and what \<open>res.json\<close> was given (\<open>None\<close> for \<open>undefined\<close>).\<close>

record response =
  status :: nat
  json :: "jsval option"

datatype httpMethod = GET | POST | PATCH | DELETE

datatype route =
    GetAuthUser
  | GetDashboardStats
  | GetFloodZones | PostFloodZones | PatchFloodZone
  | GetPopulation | PostPopulation | PatchPopulation
  | GetResources | PostResources | PatchResource
  | GetReliefDistribution | PostReliefDistribution
  | GetWeatherAlerts | PostWeatherAlerts | DeleteWeatherAlert
  | GetResponseTeams | PostResponseTeams | PatchResponseTeam
  | GetActivities
  | GetWeather

text \<open>\<open>registerRoutes\<close>, in the order of the source.\<close>

definition registerRoutes :: "route list" where
  "registerRoutes =
    [ GetAuthUser, GetDashboardStats,
      GetFloodZones, PostFloodZones, PatchFloodZone,
      GetPopulation, PostPopulation, PatchPopulation,
      GetResources, PostResources, PatchResource,
      GetReliefDistribution, PostReliefDistribution,
      GetWeatherAlerts, PostWeatherAlerts, DeleteWeatherAlert,
      GetResponseTeams, PostResponseTeams, PatchResponseTeam,
      GetActivities, GetWeather ]"

fun endpoint :: "route \<Rightarrow> httpMethod \<times> string" where
  "endpoint GetAuthUser = (GET, ''/api/auth/user'')"
| "endpoint GetDashboardStats = (GET, ''/api/dashboard/stats'')"
| "endpoint GetFloodZones = (GET, ''/api/flood-zones'')"
| "endpoint PostFloodZones = (POST, ''/api/flood-zones'')"
| "endpoint PatchFloodZone = (PATCH, ''/api/flood-zones/:id'')"
| "endpoint GetPopulation = (GET, ''/api/population'')"
| "endpoint PostPopulation = (POST, ''/api/population'')"
| "endpoint PatchPopulation = (PATCH, ''/api/population/:id'')"
| "endpoint GetResources = (GET, ''/api/resources'')"
| "endpoint PostResources = (POST, ''/api/resources'')"
| "endpoint PatchResource = (PATCH, ''/api/resources/:id'')"
| "endpoint GetReliefDistribution = (GET, ''/api/relief-distribution'')"
| "endpoint PostReliefDistribution = (POST, ''/api/relief-distribution'')"
| "endpoint GetWeatherAlerts = (GET, ''/api/weather-alerts'')"
| "endpoint PostWeatherAlerts = (POST, ''/api/weather-alerts'')"
| "endpoint DeleteWeatherAlert = (DELETE, ''/api/weather-alerts/:id'')"
| "endpoint GetResponseTeams = (GET, ''/api/response-teams'')"
| "endpoint PostResponseTeams = (POST, ''/api/response-teams'')"
| "endpoint PatchResponseTeam = (PATCH, ''/api/response-teams/:id'')"
| "endpoint GetActivities = (GET, ''/api/activities'')"
| "endpoint GetWeather = (GET, ''/api/weather/:location'')"

text \<open>The message of each handler's \<open>catch\<close> block.\<close>

fun failureMessage :: "route \<Rightarrow> string" where
  "failureMessage GetAuthUser = ''Failed to fetch user''"
| "failureMessage GetDashboardStats = ''Failed to fetch dashboard statistics''"
| "failureMessage GetFloodZones = ''Failed to fetch flood zones''"
| "failureMessage PostFloodZones = ''Failed to create flood zone''"
| "failureMessage PatchFloodZone = ''Failed to update flood zone''"
| "failureMessage GetPopulation = ''Failed to fetch affected population''"
| "failureMessage PostPopulation = ''Failed to register affected person''"
| "failureMessage PatchPopulation = ''Failed to update affected person''"
| "failureMessage GetResources = ''Failed to fetch resources''"
| "failureMessage PostResources = ''Failed to create resource''"
| "failureMessage PatchResource = ''Failed to update resource''"
| "failureMessage GetReliefDistribution = ''Failed to fetch relief distributions''"
| "failureMessage PostReliefDistribution = ''Failed to create relief distribution''"
| "failureMessage GetWeatherAlerts = ''Failed to fetch weather alerts''"
| "failureMessage PostWeatherAlerts = ''Failed to create weather alert''"
| "failureMessage DeleteWeatherAlert = ''Failed to deactivate weather alert''"
| "failureMessage GetResponseTeams = ''Failed to fetch response teams''"
| "failureMessage PostResponseTeams = ''Failed to create response team''"
| "failureMessage PatchResponseTeam = ''Failed to update response team''"
| "failureMessage GetActivities = ''Failed to fetch activities''"
| "failureMessage GetWeather = ''Failed to fetch weather data''"

definition respond :: "nat \<Rightarrow> jsval \<Rightarrow> response" where
  "respond code v = \<lparr>status = code, json = Some v\<rparr>"

definition message :: "string \<Rightarrow> jsval" where
  "message s = JObj [(''message'', JStr s)]"

text \<open>\<open>await\<close> on a storage call inside \<open>try\<close>: a rejection leaves the block.\<close>

definition await ::
  "(dberror + 'a) \<times> world \<Rightarrow> ('a \<Rightarrow> world \<Rightarrow> (error + response) \<times> world)
     \<Rightarrow> (error + response) \<times> world" where
  "await m f = (case m of (Inl err, w) \<Rightarrow> (Inl (DbError err), w) | (Inr x, w) \<Rightarrow> f x w)"

definition thenRespond :: "jsval \<Rightarrow> 'a \<Rightarrow> world \<Rightarrow> (error + response) \<times> world" where
  "thenRespond v x w = (Inr (respond 200 v), w)"

text \<open>The shared shape of the four PATCH handlers after the update has returned.\<close>

definition patched ::
  "env \<Rightarrow> string \<Rightarrow> (obj \<Rightarrow> obj) \<Rightarrow> obj option \<Rightarrow> world \<Rightarrow> (error + response) \<times> world" where
  "patched e notFound activity row w =
    (case row of
       None \<Rightarrow> (Inr (respond 404 (message notFound)), w)
     | Some r \<Rightarrow> await (logActivity e (activity r) w) (thenRespond (JObj r)))"

definition weatherUrl :: "string \<Rightarrow> string \<Rightarrow> string" where
  "weatherUrl location k =
     ''https://api.openweathermap.org/data/2.5/weather?q='' @ location @ ''&appid='' @ k
       @ ''&units=metric''"

text \<open>The object literal given to \<open>res.json\<close>, its properties evaluated in order.\<close>

definition reshape :: "jsval \<Rightarrow> error + obj" where
  "reshape weatherData =
    (case getPath2 weatherData ''main'' ''temp'' of Inl err \<Rightarrow> Inl err | Inr temperature \<Rightarrow>
     case getPath2 weatherData ''main'' ''humidity'' of Inl err \<Rightarrow> Inl err | Inr humidity \<Rightarrow>
     case getProp (Some weatherData) ''weather'' of Inl err \<Rightarrow> Inl err | Inr weather \<Rightarrow>
     case getIndex0 weather of Inl err \<Rightarrow> Inl err | Inr weather0 \<Rightarrow>
     case getProp weather0 ''description'' of Inl err \<Rightarrow> Inl err | Inr description \<Rightarrow>
     case getPath2 weatherData ''wind'' ''speed'' of Inl err \<Rightarrow> Inl err | Inr windSpeed \<Rightarrow>
     case getPath2 weatherData ''main'' ''pressure'' of Inl err \<Rightarrow> Inl err | Inr pressure \<Rightarrow>
       Inr (defined [ (''temperature'', temperature), (''humidity'', humidity),
                      (''description'', description), (''windSpeed'', windSpeed),
                      (''pressure'', pressure) ]))"

text \<open>The body of each handler's \<open>try\<close> block.\<close>

fun tryBlock :: "env \<Rightarrow> route \<Rightarrow> request \<Rightarrow> world \<Rightarrow> (error + response) \<times> world" where
  "tryBlock e GetAuthUser req w =
     (Inr \<lparr>status = 200, json = map_option JObj (getUser (reqSub req) w)\<rparr>, w)"
| "tryBlock e GetDashboardStats req w =
     (case getDashboardStats w of
        Inl err \<Rightarrow> (Inl (DbError err), w)
      | Inr stats \<Rightarrow> (Inr (respond 200 (JObj stats)), w))"
| "tryBlock e GetFloodZones req w = (Inr (respond 200 (JArr (map JObj (getFloodZones w)))), w)"
| "tryBlock e PostFloodZones req w =
     (case zodParse insertFloodZoneSchema (reqBody req) of
        Inl err \<Rightarrow> (Inl err, w)
      | Inr zoneData \<Rightarrow>
          await (createFloodZone e zoneData w) (\<lambda>zone w1.
          await (logActivity e
                   [ (''type'', JStr ''zone_creation''),
                     (''description'', JStr (''Created flood zone: '' @ template (col ''name'' zone))),
                     (''entityType'', JStr ''flood_zone''),
                     (''entityId'', col ''id'' zone),
                     (''performedBy'', JStr (reqSub req)),
                     (''location'', col ''district'' zone) ] w1)
                (thenRespond (JObj zone))))"
| "tryBlock e PatchFloodZone req w =
     await (updateFloodZone e (reqParam req) (spread (reqBody req)) w)
       (patched e ''Flood zone not found''
          (\<lambda>zone. [ (''type'', JStr ''zone_update''),
                     (''description'', JStr (''Updated flood zone: '' @ template (col ''name'' zone))),
                     (''entityType'', JStr ''flood_zone''),
                     (''entityId'', col ''id'' zone),
                     (''performedBy'', JStr (reqSub req)),
                     (''location'', col ''district'' zone),
                     (''metadata'', reqBody req) ]))"
| "tryBlock e GetPopulation req w =
     (Inr (respond 200 (JArr (map JObj (getAffectedPopulation (reqFloodZoneId req) w)))), w)"
| "tryBlock e PostPopulation req w =
     (case zodParse insertAffectedPopulationSchema
             (JObj ((''registeredBy'', JStr (reqSub req)) # spread (reqBody req))) of
        Inl err \<Rightarrow> (Inl err, w)
      | Inr personData \<Rightarrow>
          await (createAffectedPerson e personData w) (\<lambda>person w1.
          await (logActivity e
                   [ (''type'', JStr ''population_registration''),
                     (''description'',
                        JStr (''Registered affected person: '' @ template (col ''name'' person))),
                     (''entityType'', JStr ''population''),
                     (''entityId'', col ''id'' person),
                     (''performedBy'', JStr (reqSub req)),
                     (''location'', orElse (col ''address'' person) (JStr ''Unknown'')) ] w1)
                (thenRespond (JObj person))))"
| "tryBlock e PatchPopulation req w =
     await (updateAffectedPerson e (reqParam req) (spread (reqBody req)) w)
       (patched e ''Person not found''
          (\<lambda>person. [ (''type'', JStr ''population_update''),
                       (''description'',
                          JStr (''Updated affected person: '' @ template (col ''name'' person))),
                       (''entityType'', JStr ''population''),
                       (''entityId'', col ''id'' person),
                       (''performedBy'', JStr (reqSub req)),
                       (''metadata'', reqBody req) ]))"
| "tryBlock e GetResources req w = (Inr (respond 200 (JArr (map JObj (getResources w)))), w)"
| "tryBlock e PostResources req w =
     (case zodParse insertResourceSchema (reqBody req) of
        Inl err \<Rightarrow> (Inl err, w)
      | Inr resourceData \<Rightarrow>
          await (createResource e resourceData w) (\<lambda>resource w1.
          await (logActivity e
                   [ (''type'', JStr ''resource_creation''),
                     (''description'',
                        JStr (''Added resource: '' @ template (col ''name'' resource) @ '' (''
                              @ template (col ''totalQuantity'' resource) @ '' ''
                              @ template (col ''unit'' resource) @ '')'')),
                     (''entityType'', JStr ''resource''),
                     (''entityId'', col ''id'' resource),
                     (''performedBy'', JStr (reqSub req)),
                     (''location'', orElse (col ''location'' resource) (JStr ''Central Store'')) ] w1)
                (thenRespond (JObj resource))))"
| "tryBlock e PatchResource req w =
     await (updateResource e (reqParam req) (spread (reqBody req)) w)
       (patched e ''Resource not found''
          (\<lambda>resource. [ (''type'', JStr ''resource_update''),
                         (''description'',
                            JStr (''Updated resource: '' @ template (col ''name'' resource))),
                         (''entityType'', JStr ''resource''),
                         (''entityId'', col ''id'' resource),
                         (''performedBy'', JStr (reqSub req)),
                         (''metadata'', reqBody req) ]))"
| "tryBlock e GetReliefDistribution req w =
     (Inr (respond 200 (JArr (map JObj (getReliefDistributions (reqFloodZoneId req) w)))), w)"
| "tryBlock e PostReliefDistribution req w =
     (case zodParse insertReliefDistributionSchema
             (JObj ((''distributedBy'', JStr (reqSub req)) # spread (reqBody req))) of
        Inl err \<Rightarrow> (Inl err, w)
      | Inr distributionData \<Rightarrow>
          await (createReliefDistribution e distributionData w) (\<lambda>distribution w1.
          await (logActivity e
                   [ (''type'', JStr ''relief_distribution''),
                     (''description'',
                        JStr (''Distributed relief: '' @ template (col ''quantity'' distribution)
                              @ '' units to '' @ template (col ''distributedTo'' distribution))),
                     (''entityType'', JStr ''distribution''),
                     (''entityId'', col ''id'' distribution),
                     (''performedBy'', JStr (reqSub req)),
                     (''location'', orElse (col ''distributedTo'' distribution) (JStr ''Unknown'')) ] w1)
                (thenRespond (JObj distribution))))"
| "tryBlock e GetWeatherAlerts req w =
     (case getActiveWeatherAlerts e w of
        (alerts, w1) \<Rightarrow> (Inr (respond 200 (JArr (map JObj alerts))), w1))"
| "tryBlock e PostWeatherAlerts req w =
     (case zodParse insertWeatherAlertSchema
             (JObj ((''createdBy'', JStr (reqSub req)) # spread (reqBody req))) of
        Inl err \<Rightarrow> (Inl err, w)
      | Inr alertData \<Rightarrow>
          await (createWeatherAlert e alertData w) (\<lambda>alert w1.
          await (logActivity e
                   [ (''type'', JStr ''alert_creation''),
                     (''description'',
                        JStr (''Created '' @ template (col ''severity'' alert) @ '' alert: ''
                              @ template (col ''title'' alert))),
                     (''entityType'', JStr ''alert''),
                     (''entityId'', col ''id'' alert),
                     (''performedBy'', JStr (reqSub req)),
                     (''location'', orElse (col ''affectedArea'' alert) (JStr ''Unknown'')) ] w1)
                (thenRespond (JObj alert))))"
| "tryBlock e DeleteWeatherAlert req w =
     await (deactivateWeatherAlert e (reqParam req) w) (\<lambda>u w1.
     await (logActivity e
              [ (''type'', JStr ''alert_deactivation''),
                (''description'', JStr ''Deactivated weather alert''),
                (''entityType'', JStr ''alert''),
                (''entityId'', JStr (reqParam req)),
                (''performedBy'', JStr (reqSub req)) ] w1)
           (thenRespond (JObj [(''success'', JBool True)])))"
| "tryBlock e GetResponseTeams req w = (Inr (respond 200 (JArr (map JObj (getResponseTeams w)))), w)"
| "tryBlock e PostResponseTeams req w =
     (case zodParse insertResponseTeamSchema
             (JObj ((''leadOfficer'', JStr (reqSub req)) # spread (reqBody req))) of
        Inl err \<Rightarrow> (Inl err, w)
      | Inr teamData \<Rightarrow>
          await (createResponseTeam e teamData w) (\<lambda>team w1.
          await (logActivity e
                   [ (''type'', JStr ''team_creation''),
                     (''description'', JStr (''Created response team: '' @ template (col ''name'' team))),
                     (''entityType'', JStr ''team''),
                     (''entityId'', col ''id'' team),
                     (''performedBy'', JStr (reqSub req)),
                     (''location'', orElse (col ''currentLocation'' team) (JStr ''Base'')) ] w1)
                (thenRespond (JObj team))))"
| "tryBlock e PatchResponseTeam req w =
     await (updateResponseTeam e (reqParam req) (spread (reqBody req)) w)
       (patched e ''Response team not found''
          (\<lambda>team. [ (''type'', JStr ''team_update''),
                     (''description'', JStr (''Updated response team: '' @ template (col ''name'' team))),
                     (''entityType'', JStr ''team''),
                     (''entityId'', col ''id'' team),
                     (''performedBy'', JStr (reqSub req)),
                     (''metadata'', reqBody req) ]))"
| "tryBlock e GetActivities req w =
     (let limit = (case reqLimit req of None \<Rightarrow> 20 | Some n \<Rightarrow> if n = 0 then 20 else n)
      in case getRecentActivities limit w of
           Inl err \<Rightarrow> (Inl (DbError err), w)
         | Inr activities \<Rightarrow> (Inr (respond 200 (JArr (map JObj activities))), w))"
| "tryBlock e GetWeather req w =
     (case apiKey e of
        None \<Rightarrow> (Inr (respond 500 (message ''Weather API key not configured'')), w)
      | Some k \<Rightarrow>
          if k = [] then (Inr (respond 500 (message ''Weather API key not configured'')), w)
          else
            (let url = weatherUrl (reqParam req) k;
                 w1 = w\<lparr>httpLog := httpLog w @ [url]\<rparr>
             in case fetch e url of
                  NetworkError \<Rightarrow> (Inl FetchFailed, w1)
                | HttpResponse ok code body \<Rightarrow>
                    if \<not> ok then (Inl (WeatherApiError code), w1)
                    else (case body of
                            None \<Rightarrow> (Inl InvalidJson, w1)
                          | Some weatherData \<Rightarrow>
                              (case reshape weatherData of
                                 Inl err \<Rightarrow> (Inl err, w1)
                               | Inr data \<Rightarrow> (Inr (respond 200 (JObj data)), w1)))))"

text \<open>The handler: the \<open>try\<close> block, and the \<open>catch\<close> that answers 500 with the route's message.\<close>

definition handle :: "env \<Rightarrow> route \<Rightarrow> request \<Rightarrow> world \<Rightarrow> response \<times> world" where
  "handle e r req w =
    (case tryBlock e r req w of
       (Inl err, w1) \<Rightarrow> (respond 500 (message (failureMessage r)), w1)
     | (Inr res, w1) \<Rightarrow> (res, w1))"

text \<open>
  The endpoints by table: the path under which the handlers read and write each table
  (for the users table, the one route that reads it).
\<close>

fun collectionPath :: "tname \<Rightarrow> string" where
  "collectionPath Users = ''/api/auth/user''"
| "collectionPath FloodZones = ''/api/flood-zones''"
| "collectionPath AffectedPopulation = ''/api/population''"
| "collectionPath Resources = ''/api/resources''"
| "collectionPath ReliefDistribution = ''/api/relief-distribution''"
| "collectionPath WeatherAlerts = ''/api/weather-alerts''"
| "collectionPath ResponseTeams = ''/api/response-teams''"
| "collectionPath ActivityLog = ''/api/activities''"

definition exposes :: "httpMethod \<Rightarrow> string \<Rightarrow> bool" where
  "exposes m p = ((m, p) \<in> set (map endpoint registerRoutes))"

section \<open>The flood map (client/src/components/flood-map.tsx, ui/map.tsx)\<close>

text \<open>
  What the map component hands to Leaflet. \<open>parseFloat\<close> is the JavaScript function, taken
  as a parameter together with its type of numbers. The popup text of a circle is not part
  of the model.
\<close>

record 'f circleProps =
  center :: "'f \<times> 'f"
  radius :: jsval
  color :: "string option"
  fillColor :: "string option"
  fillOpacity :: "rat option"

record 'f circle =
  circleCenter :: "'f \<times> 'f"
  circleRadius :: jsval
  circleColor :: string
  circleFillColor :: string
  circleFillOpacity :: rat

definition getRiskColor :: "jsval \<Rightarrow> string" where
  "getRiskColor riskLevel =
    (if riskLevel = JStr ''high'' then ''#dc2626''
     else if riskLevel = JStr ''medium'' then ''#ea580c''
     else if riskLevel = JStr ''low'' then ''#16a34a''
     else ''#6b7280'')"

text \<open>
  \<open>FloodMap\<close>: while the query is loading a skeleton is rendered and no \<open>Map\<close>; afterwards a
  \<open>Map\<close> whose children are one \<open>MapCircle\<close> element per zone of the fetched list (no list
  yet reads as the empty list).
\<close>

definition FloodMap :: "(jsval \<Rightarrow> 'f) \<Rightarrow> bool \<Rightarrow> obj list option \<Rightarrow> 'f circleProps list option" where
  "FloodMap parseFloat isLoading data =
    (if isLoading then None
     else Some (map (\<lambda>zone. \<lparr> center = (parseFloat (col ''latitude'' zone), parseFloat (col ''longitude'' zone)),
                              radius = col ''radius'' zone,
                              color = Some (getRiskColor (col ''riskLevel'' zone)),
                              fillColor = Some (getRiskColor (col ''riskLevel'' zone)),
                              fillOpacity = Some (3 / 10) \<rparr>)
                    (case data of None \<Rightarrow> [] | Some zones \<Rightarrow> zones)))"

text \<open>
  The state that the effects of \<open>ui/map.tsx\<close> read and write: the module's variable
  \<open>globalMapInstance\<close>, the \<open>mapInstanceRef\<close> of the mounted \<open>Map\<close>, and the circles that have
  been added to a Leaflet map and not removed, each with the map it was added to. The
  Leaflet maps are told apart by their number in the order of the \<open>L.map\<close> calls.
\<close>

record 'f page =
  globalMapInstance :: "nat option"
  mapInstanceRef :: "nat option"
  mapsCreated :: nat
  circles :: "(nat \<times> 'f circle) list"

text \<open>When the module is loaded: \<open>let globalMapInstance: L.Map | null = null\<close>.\<close>

definition initialPage :: "'f page" where
  "initialPage = \<lparr> globalMapInstance = None, mapInstanceRef = None, mapsCreated = 0, circles = [] \<rparr>"

text \<open>
  The effect of \<open>MapCircle\<close>: nothing while \<open>globalMapInstance\<close> is null; otherwise one
  \<open>L.circle\<close> added to that map, with the defaults of the props filled in.
\<close>

definition MapCircle :: "'f circleProps \<Rightarrow> 'f page \<Rightarrow> 'f page" where
  "MapCircle props s =
    (case globalMapInstance s of
       None \<Rightarrow> s
     | Some m \<Rightarrow>
         (let c = (case color props of None \<Rightarrow> ''#3388ff'' | Some c \<Rightarrow> c)
          in s\<lparr> circles := circles s @
                  [ (m, \<lparr> circleCenter = center props,
                          circleRadius = radius props,
                          circleColor = c,
                          circleFillColor = (case fillColor props of
                                               None \<Rightarrow> c
                                             | Some f \<Rightarrow> if f = [] then c else f),
                          circleFillOpacity = (case fillOpacity props of None \<Rightarrow> 3 / 10 | Some x \<Rightarrow> x) \<rparr>) ] \<rparr>))"

text \<open>
  The effect of \<open>Map\<close>: a new Leaflet map, stored in \<open>globalMapInstance\<close> and in the ref. (Its
  \<open>mapRef\<close> is the element that \<open>Map\<close> renders, which is in place when effects run.) Its
  cleanup: with a map in the ref, that map is removed, its layers with it, and the ref and
  \<open>globalMapInstance\<close> are set to null.
\<close>

definition Map_effect :: "'f page \<Rightarrow> 'f page" where
  "Map_effect s =
    s\<lparr> globalMapInstance := Some (mapsCreated s),
       mapInstanceRef := Some (mapsCreated s),
       mapsCreated := Suc (mapsCreated s) \<rparr>"

definition Map_cleanup :: "'f page \<Rightarrow> 'f page" where
  "Map_cleanup s =
    (case mapInstanceRef s of
       None \<Rightarrow> s
     | Some m \<Rightarrow> s\<lparr> circles := filter (\<lambda>c. fst c \<noteq> m) (circles s),
                     mapInstanceRef := None,
                     globalMapInstance := None \<rparr>)"

text \<open>The cleanup of a \<open>MapCircle\<close> effect that has added a circle removes that circle.\<close>

definition MapCircle_cleanups :: "'f page \<Rightarrow> 'f page" where
  "MapCircle_cleanups s = s\<lparr> circles := [] \<rparr>"

text \<open>
  One rendering of \<open>FloodMap\<close> and the effects that React runs for it. The dependencies of
  both effects hold an array that is built anew by every rendering (\<open>defaultCenter\<close> for
  \<open>Map\<close>, \<open>center\<close> for each \<open>MapCircle\<close>), so every rendering runs the cleanups of the
  effects of the one before and then the effects again; a component that is no longer
  rendered has its cleanup run as well. React runs all cleanups before any effect, and the
  effects of the children before the effect of their parent: the \<open>MapCircle\<close> effects in
  order, then the effect of \<open>Map\<close>.
\<close>

definition render :: "(jsval \<Rightarrow> 'f) \<Rightarrow> bool \<Rightarrow> obj list option \<Rightarrow> 'f page \<Rightarrow> 'f page" where
  "render parseFloat isLoading data s =
    (let cleaned = Map_cleanup (MapCircle_cleanups s)
     in case FloodMap parseFloat isLoading data of
          None \<Rightarrow> cleaned
        | Some children \<Rightarrow> Map_effect (fold MapCircle children cleaned))"

text \<open>The page after a sequence of renderings, each with its query state.\<close>

definition renders :: "(jsval \<Rightarrow> 'f) \<Rightarrow> (bool \<times> obj list option) list \<Rightarrow> 'f page \<Rightarrow> 'f page" where
  "renders parseFloat queries s = fold (\<lambda>q. render parseFloat (fst q) (snd q)) queries s"

section \<open>Example inputs\<close>

text \<open>A small environment and a few request objects on which the theorems below are run.\<close>

definition exampleEnv :: env where
  "exampleEnv =
    \<lparr> genUuid = (\<lambda>n. if n = 0 then ''r1'' else if n = 1 then ''d1'' else ''x''),
      clock = (\<lambda>n. int n),
      pgInput = (\<lambda>t v. None),
      apiKey = None,
      fetch = (\<lambda>u. NetworkError) \<rparr>"

definition exampleResource :: obj where
  "exampleResource =
    [ (''name'', JStr ''Rice''), (''type'', JStr ''food''), (''unit'', JStr ''kg''),
      (''totalQuantity'', JNum 10), (''priority'', JStr ''high'') ]"

definition exampleDistribution :: obj where
  "exampleDistribution = [ (''resourceId'', JStr ''r1''), (''quantity'', JNum 20) ]"

definition exampleStock :: world where
  "exampleStock = run exampleEnv [CreateResource exampleResource] emptyWorld"

definition exampleAlert :: obj where
  "exampleAlert =
    [ (''type'', JStr ''flood_warning''), (''severity'', JStr ''high''),
      (''title'', JStr ''River rising''), (''message'', JStr ''Move to higher ground''),
      (''validUntil'', JDate 100) ]"

definition exampleAlerts :: world where
  "exampleAlerts = run exampleEnv [CreateWeatherAlert exampleAlert] emptyWorld"

definition exampleUser :: world where
  "exampleUser = run exampleEnv [UpsertUser [(''id'', JStr ''u1'')]] emptyWorld"

definition exampleRequest :: request where
  "exampleRequest =
    \<lparr> reqParam = ''nowhere'', reqFloodZoneId = None, reqLimit = None,
      reqBody = JObj [ (''name'', JStr ''Rice''), (''type'', JStr ''food''), (''unit'', JStr ''kg''),
                       (''totalQuantity'', JNum 10), (''priority'', JStr ''urgent'') ],
      reqSub = ''u1'' \<rparr>"


definition exampleZone :: obj where
  "exampleZone =
    [ (''id'', JStr ''z1''), (''name'', JStr ''Kuttanad''), (''district'', JStr ''Alappuzha''),
      (''latitude'', JStr ''9.35000000''), (''longitude'', JStr ''76.40000000''),
      (''riskLevel'', JStr ''high''), (''radius'', JNum 500), (''waterLevel'', JNull),
      (''dangerMark'', JNull), (''isActive'', JBool True), (''lastUpdated'', JDate 0),
      (''createdAt'', JDate 0) ]"

section \<open>Properties of the statements\<close>

lemmas builder_defs =
  column_def varchar_def pgText_def pgInteger_def decimal_def boolean_def timestamp_def
  jsonb_def notNull_def primaryKey_def defaultTo_def defaultNow_def unique_def references_def

lemma first_eq_None [simp]: "first xs = None \<longleftrightarrow> xs = []"
  by (cases xs) (simp_all add: first_def)

lemma map_filter_eq_Nil: "List.map_filter f xs = [] \<longleftrightarrow> (\<forall>x\<in>set xs. f x = None)"
  by (induction xs) (auto split: option.splits)

lemma buildRow_keys: "buildRow e n cols vals = Inr r \<Longrightarrow> map fst r = map colKey cols"
  by (induction cols arbitrary: r) (auto split: sum.splits option.splits)

lemma insertRow_world:
  assumes "insertRow e t vals w = (res, w')"
  shows "tick w' = Suc (tick w)" and "httpLog w' = httpLog w"
    and "tables w' = (case res of Inl err \<Rightarrow> tables w | Inr r \<Rightarrow> (tables w)(t := tables w t @ [r]))"
  using assms by (auto simp: insertRow_def Let_def split: sum.splits option.splits)

lemma insertRow_Inr:
  assumes "insertRow e t vals w = (Inr r, w')"
  shows "buildRow e (tick w) (columnsOf t) vals = Inr r"
    and "checkRow w (tables w t) r (columnsOf t) = None"
  using assms by (auto simp: insertRow_def Let_def split: sum.splits option.splits)

lemma checkRow_None:
  "checkRow w others r cols = None \<longleftrightarrow>
     (\<forall>c\<in>set cols. notNullError r c = None \<and> uniqueError others r c = None \<and> foreignKeyError w r c = None)"
  by (auto simp: checkRow_def map_filter_eq_Nil)

lemma applySet_keys: "applySet sets r kvs = Inr kvs' \<Longrightarrow> map fst kvs' = map fst kvs"
  by (induction kvs arbitrary: kvs') (auto split: sum.splits)

lemma applySet_map_of:
  "applySet sets r kvs = Inr kvs' \<Longrightarrow>
     map_of kvs' k = (case map_of kvs k of None \<Rightarrow> None
                      | Some v \<Rightarrow> (case assign sets r k v of Inl err \<Rightarrow> None | Inr v' \<Rightarrow> Some v'))"
  by (induction kvs arbitrary: kvs') (auto split: sum.splits)

lemma applySet_untouched:
  "applySet sets r kvs = Inr kvs' \<Longrightarrow> map_of sets k = None \<Longrightarrow> map_of kvs' k = map_of kvs k"
  by (simp add: applySet_map_of assign_def split: option.splits)

lemma applyAll_length: "applyAll sel sets rows = Inr rows' \<Longrightarrow> length rows' = length rows"
  by (induction rows arbitrary: rows') (auto split: sum.splits if_splits)

lemma applyAll_nth:
  "applyAll sel sets rows = Inr rows' \<Longrightarrow> i < length rows \<Longrightarrow>
     (if sel (rows ! i) then applySet sets (rows ! i) (rows ! i) = Inr (rows' ! i)
      else rows' ! i = rows ! i)"
proof (induction rows arbitrary: rows' i)
  case Nil
  then show ?case by simp
next
  case (Cons r rs)
  then show ?case
    by (cases i) (auto split: sum.splits if_splits)
qed

lemma applyAll_none: "\<forall>r\<in>set rows. \<not> sel r \<Longrightarrow> applyAll sel sets rows = Inr rows"
  by (induction rows) auto

lemma updateRows_world:
  assumes "updateRows e t sets ident w = (res, w')"
  shows "tick w' = tick w" and "httpLog w' = httpLog w"
    and "t' \<noteq> t \<Longrightarrow> tables w' t' = tables w t'"
  using assms by (auto simp: updateRows_def Let_def split: sum.splits option.splits)

lemma updateRows_Inr:
  assumes "updateRows e t sets ident w = (Inr rs, w')"
  shows "\<exists>bound. bindSet e (columnsOf t) sets = Inr bound
           \<and> applyAll (\<lambda>r. sql_eq (col ''id'' r) ident = Some True) bound (tables w t) = Inr (tables w' t)"
  using assms by (auto simp: updateRows_def Let_def split: sum.splits option.splits)

lemma updateRows_Inl:
  assumes "updateRows e t sets ident w = (Inl err, w')"
  shows "w' = w"
  using assms by (auto simp: updateRows_def Let_def split: sum.splits option.splits)


lemma buildRow_col:
  "buildRow e n cols vals = Inr r \<Longrightarrow> distinct (map colKey cols) \<Longrightarrow> c \<in> set cols \<Longrightarrow>
     (case map_of vals (colKey c) of
        None \<Rightarrow> Inr (defaultValue e n c)
      | Some v \<Rightarrow> convert e (colKey c) (colType c) v) = (Inr (col (colKey c) r) :: dberror + jsval)"
proof (induction cols arbitrary: r)
  case Nil
  then show ?case by simp
next
  case (Cons a cols)
  from Cons.prems(1) obtain v r0 where
    v: "(case map_of vals (colKey a) of None \<Rightarrow> Inr (defaultValue e n a)
         | Some v \<Rightarrow> convert e (colKey a) (colType a) v) = (Inr v :: dberror + jsval)"
    and r0: "buildRow e n cols vals = Inr r0" and r: "r = (colKey a, v) # r0"
    by (auto split: sum.splits)
  show ?case
  proof (cases "c = a")
    case True
    show ?thesis unfolding True using v r by (simp add: col_def)
  next
    case False
    with Cons.prems(3) have c: "c \<in> set cols" by simp
    have "colKey a \<notin> set (map colKey cols)" using Cons.prems(2) by simp
    moreover have "colKey c \<in> set (map colKey cols)" using c by simp
    ultimately have ne: "colKey c \<noteq> colKey a" by metis
    have dist: "distinct (map colKey cols)" using Cons.prems(2) by simp
    from Cons.IH[OF r0 dist c] ne r show ?thesis
      by (simp add: col_def)
  qed
qed

lemma distinct_reliefDistribution: "distinct (map colKey reliefDistribution)"
  by (simp add: reliefDistribution_def builder_defs)

lemma bindSet_resources_bump:
  "bindSet e resources
      [(''distributedQuantity'', PlusColumn ''distributedQuantity'' (JNum q)),
       (''updatedAt'', Val (JDate now))] = Inr bound \<Longrightarrow>
   bound = [(''distributedQuantity'', PlusColumn ''distributedQuantity'' (JNum q)),
            (''updatedAt'', Val (JDate now))]"
  by (simp add: resources_def builder_defs split: if_splits)


lemma applySet_assign:
  "applySet sets r kvs = Inr kvs' \<Longrightarrow> (k, v) \<in> set kvs \<Longrightarrow> \<exists>v'. assign sets r k v = Inr v'"
  by (induction kvs arbitrary: kvs') (auto split: sum.splits)

lemma sel_byId [simp]: "sql_eq (col ''id'' r) (JStr i) = Some True \<longleftrightarrow> col ''id'' r = JStr i"
  by (auto simp: sql_eq_def)

lemma createReliefDistribution_steps:
  assumes ok: "createReliefDistribution e d w = (Inr nd, w')"
  shows "\<exists>w1 rows.
    insertRow e ReliefDistribution d w = (Inr nd, w1) \<and>
    updateRows e Resources
        [(''distributedQuantity'', PlusColumn ''distributedQuantity'' (col ''quantity'' d)),
         (''updatedAt'', Val (JDate (clock e (Suc (tick w)))))]
        (col ''resourceId'' d) (w1\<lparr>tick := Suc (Suc (tick w))\<rparr>) = (Inr rows, w')"
proof -
  obtain res w1 where ins: "insertRow e ReliefDistribution d w = (res, w1)"
    by (cases "insertRow e ReliefDistribution d w")
  have t1: "tick w1 = Suc (tick w)" using insertRow_world(1)[OF ins] .
  from ok ins t1 show ?thesis
    by (auto simp: createReliefDistribution_def Let_def split: sum.splits prod.splits)
qed

lemma bumped_row:
  assumes ap: "applySet [(''distributedQuantity'', PlusColumn ''distributedQuantity'' (JNum q)),
                         (''updatedAt'', Val (JDate now))] r r = Inr r'"
  shows "map fst r' = map fst r"
    and "col ''distributedQuantity'' r = JNull \<or> (\<exists>a. col ''distributedQuantity'' r = JNum a)"
    and "col ''distributedQuantity'' r = JNum a \<Longrightarrow> col ''distributedQuantity'' r' = JNum (a + q)"
    and "col ''distributedQuantity'' r = JNull \<Longrightarrow> col ''distributedQuantity'' r' = JNull"
    and "map_of r' ''updatedAt'' = map_option (\<lambda>v. JDate now) (map_of r ''updatedAt'')"
    and "k \<noteq> ''distributedQuantity'' \<Longrightarrow> k \<noteq> ''updatedAt'' \<Longrightarrow> map_of r' k = map_of r k"
proof -
  let ?sets = "[(''distributedQuantity'', PlusColumn ''distributedQuantity'' (JNum q)),
                (''updatedAt'', Val (JDate now))]"
  show "map fst r' = map fst r" using applySet_keys[OF ap] .
  show "map_of r' ''updatedAt'' = map_option (\<lambda>v. JDate now) (map_of r ''updatedAt'')"
    using applySet_map_of[OF ap, of "''updatedAt''"]
    by (simp add: assign_def split: option.splits)
  show "map_of r' k = map_of r k" if "k \<noteq> ''distributedQuantity''" "k \<noteq> ''updatedAt''"
    using applySet_untouched[OF ap, of k] that by simp
  have dq: "map_of r' ''distributedQuantity'' =
      (case map_of r ''distributedQuantity'' of None \<Rightarrow> None
       | Some v \<Rightarrow> (case sqlPlus ''distributedQuantity'' (col ''distributedQuantity'' r) (JNum q) of
                      Inl err \<Rightarrow> None | Inr v' \<Rightarrow> Some v'))"
    using applySet_map_of[OF ap, of "''distributedQuantity''"]
    by (simp add: assign_def cong: option.case_cong)
  have succ: "\<exists>v'. sqlPlus ''distributedQuantity'' (col ''distributedQuantity'' r) (JNum q) = Inr v'"
    if "map_of r ''distributedQuantity'' = Some v" for v
    using applySet_assign[OF ap map_of_SomeD[OF that]] by (simp add: assign_def)
  show "col ''distributedQuantity'' r = JNull \<or> (\<exists>a. col ''distributedQuantity'' r = JNum a)"
  proof (cases "map_of r ''distributedQuantity''")
    case None
    then show ?thesis by (simp add: col_def)
  next
    case (Some v)
    from succ[OF Some] show ?thesis
      by (cases "col ''distributedQuantity'' r") auto
  qed
  show "col ''distributedQuantity'' r' = JNum (a + q)" if a: "col ''distributedQuantity'' r = JNum a"
  proof -
    from a obtain v where v: "map_of r ''distributedQuantity'' = Some v"
      by (auto simp: col_def split: option.splits)
    from succ[OF v] a dq v show ?thesis
      by (auto simp: col_def split: if_splits)
  qed
  show "col ''distributedQuantity'' r' = JNull" if n: "col ''distributedQuantity'' r = JNull"
    using dq n by (auto simp: col_def split: option.splits sum.splits)
qed


lemma resourceId_column:
  "notNull (references Resources (varchar ''resourceId'')) \<in> set reliefDistribution"
  by (simp add: reliefDistribution_def)

section \<open>Properties of the weather-alert statements\<close>

lemma first_simps [simp]: "first [] = None" "first (x # xs) = Some x"
  by (simp_all add: first_def)

lemma sql_and_True [simp]: "sql_and a b = Some True \<longleftrightarrow> a = Some True \<and> b = Some True"
  by (cases "(a, b)" rule: sql_and.cases) auto

lemma isActiveAlert_iff:
  "isActiveAlert now r = Some True \<longleftrightarrow>
     col ''isActive'' r = JBool True \<and> (\<exists>t. col ''validUntil'' r = JDate t \<and> now \<le> t)"
  by (cases "col ''validUntil'' r") (auto simp: isActiveAlert_def sql_eq_def)

lemma sorted_orderByDesc: "sorted (map (\<lambda>r. descKey (col k r)) (orderByDesc k rows))"
  by (simp add: orderByDesc_def)

lemma mset_orderByDesc: "mset (orderByDesc k rows) = mset rows"
  by (simp add: orderByDesc_def)

lemma descKey_le:
  "descKey x \<le> descKey y \<Longrightarrow> x = JDate a \<Longrightarrow> y = JDate b \<Longrightarrow> b \<le> a"
  by simp

lemma latest_first:
  "sorted_wrt (\<lambda>x y. \<forall>a b. col k x = JDate a \<longrightarrow> col k y = JDate b \<longrightarrow> b \<le> a) (orderByDesc k rows)"
proof -
  have "sorted_wrt (\<lambda>x y. descKey (col k x) \<le> descKey (col k y)) (orderByDesc k rows)"
    using sorted_orderByDesc[of k rows] by (simp add: sorted_map)
  then show ?thesis
    by (rule sorted_wrt_mono_rel[rotated]) auto
qed

lemma applySet_switch:
  "applySet [(''isActive'', Val (JBool False))] r kvs
     = Inr (map (\<lambda>kv. (fst kv, if fst kv = ''isActive'' then JBool False else snd kv)) kvs)"
  by (induction kvs) (auto simp: assign_def)

lemma applyAll_switch:
  "applyAll sel [(''isActive'', Val (JBool False))] rows
     = Inr (map (\<lambda>r. if sel r
                       then map (\<lambda>kv. (fst kv, if fst kv = ''isActive'' then JBool False else snd kv)) r
                       else r) rows)"
  by (induction rows) (auto simp: applySet_switch)

lemma bindSet_switch:
  "bindSet e weatherAlerts [(''isActive'', Val (JBool False))] = Inr [(''isActive'', Val (JBool False))]"
  by (simp add: weatherAlerts_def builder_defs)

lemma map_of_switch:
  "map_of (map (\<lambda>kv. (fst kv, if fst kv = ''isActive'' then JBool False else snd kv)) r) k
     = map_option (\<lambda>v. if k = ''isActive'' then JBool False else v) (map_of r k)"
  by (induction r) auto

lemma col_switch:
  "col k (map (\<lambda>kv. (fst kv, if fst kv = ''isActive'' then JBool False else snd kv)) r)
     = (if k = ''isActive'' \<and> map_of r k \<noteq> None then JBool False else col k r)"
  by (auto simp: col_def map_of_switch split: option.splits)

lemma changed_switch:
  "set (changed r (map (\<lambda>kv. (fst kv, if fst kv = ''isActive'' then JBool False else snd kv)) r)
          weatherAlerts) \<subseteq> {defaultTo (Literal (JBool True)) (boolean ''isActive'')}"
  by (auto simp: changed_def col_switch weatherAlerts_def builder_defs)

lemma updatedError_switch:
  "updatedError w WeatherAlerts others
      (r, map (\<lambda>kv. (fst kv, if fst kv = ''isActive'' then JBool False else snd kv)) r) = None"
proof -
  let ?r' = "map (\<lambda>kv. (fst kv, if fst kv = ''isActive'' then JBool False else snd kv)) r"
  have "checkRow w others ?r' (changed r ?r' weatherAlerts) = None"
    unfolding checkRow_None
  proof
    fix c assume "c \<in> set (changed r ?r' weatherAlerts)"
    with changed_switch[of r] have "c = defaultTo (Literal (JBool True)) (boolean ''isActive'')"
      by blast
    then show "notNullError ?r' c = None \<and> uniqueError others ?r' c = None
                 \<and> foreignKeyError w ?r' c = None"
      by (simp add: notNullError_def uniqueError_def foreignKeyError_def builder_defs)
  qed
  moreover have "col ''id'' ?r' = col ''id'' r"
    by (simp add: col_switch)
  ultimately show ?thesis
    by (simp add: updatedError_def)
qed

lemma zip_map_same: "zip rows (map f rows) = map (\<lambda>r. (r, f r)) rows"
  by (induction rows) auto

lemma deactivateWeatherAlert_result:
  "deactivateWeatherAlert e i w =
     (Inr (),
      w\<lparr>tables := (tables w)(WeatherAlerts :=
            map (\<lambda>r. if col ''id'' r = JStr i
                      then map (\<lambda>kv. (fst kv, if fst kv = ''isActive'' then JBool False else snd kv)) r
                      else r)
                (tables w WeatherAlerts))\<rparr>)"
proof -
  let ?off = "\<lambda>r. map (\<lambda>kv. (fst kv, if fst kv = ''isActive'' then JBool False else snd kv)) r"
  let ?sel = "\<lambda>r. sql_eq (col ''id'' r) (JStr i) = Some True"
  let ?f = "\<lambda>r. if ?sel r then ?off r else r"
  let ?rows = "tables w WeatherAlerts"
  have none: "List.map_filter (updatedError w WeatherAlerts (filter (\<lambda>r. \<not> ?sel r) ?rows))
                (filter (\<lambda>rr. ?sel (fst rr)) (zip ?rows (map ?f ?rows))) = []"
    unfolding map_filter_eq_Nil zip_map_same
    by (auto simp: updatedError_switch)
  have "updateRows e WeatherAlerts [(''isActive'', Val (JBool False))] (JStr i) w
          = (Inr (map snd (filter (\<lambda>rr. ?sel (fst rr)) (zip ?rows (map ?f ?rows)))),
             w\<lparr>tables := (tables w)(WeatherAlerts := map ?f ?rows)\<rparr>)"
    unfolding updateRows_def Let_def
    by (simp only: columnsOf.simps bindSet_switch applyAll_switch none sum.case first_def list.case option.case)
  then show ?thesis
    by (simp add: deactivateWeatherAlert_def)
qed

lemma deactivateWeatherAlert_absent:
  assumes "JStr i \<notin> set (map (col ''id'') (tables w WeatherAlerts))"
  shows "deactivateWeatherAlert e i w = (Inr (), w)"
proof -
  have "map (\<lambda>r. if col ''id'' r = JStr i
                  then map (\<lambda>kv. (fst kv, if fst kv = ''isActive'' then JBool False else snd kv)) r
                  else r) (tables w WeatherAlerts) = tables w WeatherAlerts"
    using assms by (intro map_idI) (force simp: image_iff)
  then show ?thesis
    by (simp add: deactivateWeatherAlert_result)
qed


lemma insertRow_other: "t' \<noteq> t \<Longrightarrow> tables (snd (insertRow e t vals w)) t' = tables w t'"
  using insertRow_world(3)[of e t vals w "fst (insertRow e t vals w)" "snd (insertRow e t vals w)"]
  by (simp split: sum.splits)

lemma updateRows_other: "t' \<noteq> t \<Longrightarrow> tables (snd (updateRows e t sets ident w)) t' = tables w t'"
  using updateRows_world(3)[of e t sets ident w "fst (updateRows e t sets ident w)"
      "snd (updateRows e t sets ident w)" t']
  by simp

lemma setAndStamp_other:
  assumes ne: "t' \<noteq> t"
  shows "tables (snd (setAndStamp e t stamp ident updates w)) t' = tables w t'"
proof -
  let ?w1 = "w\<lparr>tick := Suc (tick w)\<rparr>"
  obtain res w2 where
    u: "updateRows e t (setOf ((stamp, JDate (clock e (tick w))) # updates)) (JStr ident) ?w1 = (res, w2)"
    by (cases "updateRows e t (setOf ((stamp, JDate (clock e (tick w))) # updates)) (JStr ident) ?w1")
  from updateRows_world(3)[OF u ne] have "tables w2 t' = tables w t'" by simp
  then show ?thesis
    by (cases res) (simp_all add: setAndStamp_def Let_def u)
qed

lemma upsertUser_other:
  assumes ne: "t' \<noteq> Users"
  shows "tables (snd (upsertUser e u w)) t' = tables w t'"
proof -
  let ?w1 = "w\<lparr>tick := Suc (tick w)\<rparr>"
  let ?w2 = "?w1\<lparr>tick := Suc (tick ?w1)\<rparr>"
  let ?sets = "setOf ((''updatedAt'', JDate (clock e (tick w))) # u)"
  obtain ri wi where i: "insertRow e Users u ?w1 = (ri, wi)"
    by (cases "insertRow e Users u ?w1")
  have a: "tables wi t' = tables w t'"
    using insertRow_other[OF ne, of e u ?w1] i by simp
  have b: "tables wu t' = tables w t'" if "updateRows e Users ?sets ident ?w2 = (ru, wu)" for ident ru wu
    using updateRows_world(3)[OF that ne] by simp
  show ?thesis
  proof (cases "buildRow e (tick ?w1) users u")
    case (Inl err)
    then show ?thesis by (simp add: upsertUser_def Let_def)
  next
    case (Inr r)
    show ?thesis
    proof (cases "first (List.map_filter (notNullError r) users)")
      case (Some err)
      with Inr show ?thesis by (simp add: upsertUser_def Let_def)
    next
      case None
      show ?thesis
      proof (cases "col ''id'' r \<in> set (map (col ''id'') (tables w Users))")
        case True
        obtain ru wu where uu: "updateRows e Users ?sets (col ''id'' r) ?w2 = (ru, wu)"
          by (cases "updateRows e Users ?sets (col ''id'' r) ?w2")
        from b[OF uu] Inr None True uu show ?thesis
          by (cases ru) (simp_all add: upsertUser_def Let_def)
      next
        case False
        with a i Inr None show ?thesis
          by (cases ri) (simp_all add: upsertUser_def Let_def)
      qed
    qed
  qed
qed

lemma createReliefDistribution_other:
  assumes "t' \<noteq> Resources" "t' \<noteq> ReliefDistribution"
  shows "tables (snd (createReliefDistribution e d w)) t' = tables w t'"
proof -
  obtain res w1 where ins: "insertRow e ReliefDistribution d w = (res, w1)"
    by (cases "insertRow e ReliefDistribution d w")
  have a: "tables w1 t' = tables w t'"
    using insertRow_other[OF assms(2), of e d w] ins by simp
  show ?thesis
  proof (cases res)
    case (Inl err)
    with ins a show ?thesis by (simp add: createReliefDistribution_def)
  next
    case (Inr nd)
    let ?w2 = "w1\<lparr>tick := Suc (tick w1)\<rparr>"
    let ?sets = "[(''distributedQuantity'', PlusColumn ''distributedQuantity'' (col ''quantity'' d)),
                  (''updatedAt'', Val (JDate (clock e (tick w1))))]"
    obtain ru wu where u: "updateRows e Resources ?sets (col ''resourceId'' d) ?w2 = (ru, wu)"
      by (cases "updateRows e Resources ?sets (col ''resourceId'' d) ?w2")
    from updateRows_world(3)[OF u assms(1)] a have "tables wu t' = tables w t'" by simp
    with ins Inr u show ?thesis
      by (cases ru) (simp_all add: createReliefDistribution_def Let_def)
  qed
qed

lemma id_column: "defaultTo GenRandomUuid (primaryKey (varchar ''id'')) \<in> set weatherAlerts"
  by (simp add: weatherAlerts_def)

lemma createWeatherAlert_fresh:
  assumes "insertRow e WeatherAlerts a w = (Inr r, w')"
  shows "col ''id'' r \<notin> set (map (col ''id'') (tables w WeatherAlerts))"
    and "map fst r = map colKey weatherAlerts"
proof -
  have "checkRow w (tables w WeatherAlerts) r weatherAlerts = None"
    using insertRow_Inr(2)[OF assms] by simp
  with id_column have
    "notNullError r (defaultTo GenRandomUuid (primaryKey (varchar ''id''))) = None"
    "uniqueError (tables w WeatherAlerts) r (defaultTo GenRandomUuid (primaryKey (varchar ''id''))) = None"
    unfolding checkRow_None by blast+
  then show "col ''id'' r \<notin> set (map (col ''id'') (tables w WeatherAlerts))"
    by (simp add: notNullError_def uniqueError_def builder_defs split: if_splits)
  show "map fst r = map colKey weatherAlerts"
    using buildRow_keys[OF insertRow_Inr(1)[OF assms]] by simp
qed

lemma exec_alerts:
  "tables (exec e c w) WeatherAlerts = tables w WeatherAlerts
   \<or> (\<exists>r. tables (exec e c w) WeatherAlerts = tables w WeatherAlerts @ [r]
          \<and> col ''id'' r \<notin> set (map (col ''id'') (tables w WeatherAlerts))
          \<and> map fst r = map colKey weatherAlerts)
   \<or> (\<exists>j. tables (exec e c w) WeatherAlerts =
          map (\<lambda>r. if col ''id'' r = JStr j
                    then map (\<lambda>kv. (fst kv, if fst kv = ''isActive'' then JBool False else snd kv)) r
                    else r)
              (tables w WeatherAlerts))"
proof (cases c)
  case (CreateWeatherAlert a)
  obtain res w' where ins: "insertRow e WeatherAlerts a w = (res, w')"
    by (cases "insertRow e WeatherAlerts a w")
  show ?thesis
  proof (cases res)
    case (Inl err)
    with ins insertRow_world(3)[OF ins] CreateWeatherAlert show ?thesis
      by (simp add: createWeatherAlert_def)
  next
    case (Inr r)
    with ins insertRow_world(3)[OF ins] createWeatherAlert_fresh[of e a w r w'] CreateWeatherAlert
    show ?thesis
      by (simp add: createWeatherAlert_def)
  qed
next
  case (DeactivateWeatherAlert j)
  then show ?thesis
    by (simp add: deactivateWeatherAlert_result) blast
qed (simp_all add: upsertUser_other createReliefDistribution_other setAndStamp_other insertRow_other
      createFloodZone_def updateFloodZone_def createAffectedPerson_def updateAffectedPerson_def
      createResource_def updateResource_def getActiveWeatherAlerts_def createResponseTeam_def
      updateResponseTeam_def logActivity_def)

section \<open>Dashboard statistics\<close>

lemma digit_cases: "d < 10 \<Longrightarrow> d = 0 \<or> d = 1 \<or> d = 2 \<or> d = 3 \<or> d = 4 \<or> d = 5 \<or> d = 6 \<or> d = 7 \<or> d = 8 \<or> d = (9::nat)"
  by arith

lemma digitChar_digit:
  assumes "d < 10"
  shows "digitChar d \<in> set ''0123456789''" and "of_char (digitChar d) - 48 = d"
    and "(digitChar d = CHR ''0'') = (d = 0)"
proof -
  from digit_cases[OF assms]
  have "digitChar d \<in> set ''0123456789'' \<and> of_char (digitChar d) - 48 = d
        \<and> (digitChar d = CHR ''0'') = (d = 0)"
    by (elim disjE) (simp_all add: digitChar_def)
  then show "digitChar d \<in> set ''0123456789''" and "of_char (digitChar d) - 48 = d"
    and "(digitChar d = CHR ''0'') = (d = 0)"
    by (rule conjunct1, rule conjunct2[THEN conjunct1], rule conjunct2[THEN conjunct2])
qed

lemma showNat_small: "n < 10 \<Longrightarrow> showNat n = [digitChar n]"
  by (subst showNat.simps) simp

lemma showNat_large: "\<not> n < 10 \<Longrightarrow> showNat n = showNat (n div 10) @ [digitChar (n mod 10)]"
  by (subst showNat.simps) simp

lemma showNat_not_Nil: "showNat n \<noteq> []"
  by (cases "n < 10") (simp_all add: showNat_small showNat_large)

lemma showNat_digits: "set (showNat n) \<subseteq> set ''0123456789''"
proof (induction n rule: showNat.induct)
  case (1 n)
  show ?case
  proof (cases "n < 10")
    case True
    with digitChar_digit(1)[of n] show ?thesis by (simp add: showNat_small)
  next
    case False
    with 1 digitChar_digit(1)[of "n mod 10"] show ?thesis by (simp add: showNat_large)
  qed
qed

lemma showNat_reading: "foldl (\<lambda>a c. 10 * a + (of_char c - 48)) 0 (showNat n) = n"
proof (induction n rule: showNat.induct)
  case (1 n)
  show ?case
  proof (cases "n < 10")
    case True
    with digitChar_digit(2)[of n] show ?thesis by (simp add: showNat_small)
  next
    case False
    with 1 digitChar_digit(2)[of "n mod 10"] show ?thesis by (simp add: showNat_large)
  qed
qed

lemma showNat_leading: "(hd (showNat n) = CHR ''0'') = (showNat n = ''0'')"
proof (induction n rule: showNat.induct)
  case (1 n)
  show ?case
  proof (cases "n < 10")
    case True
    then show ?thesis by (simp add: showNat_small)
  next
    case False
    then have pos: "n div 10 \<noteq> 0" by simp
    have "showNat (n div 10) \<noteq> ''0''"
    proof
      assume "showNat (n div 10) = ''0''"
      with showNat_reading[of "n div 10"] pos show False by simp
    qed
    with 1 False showNat_not_Nil[of "n div 10"] show ?thesis
      by (simp add: showNat_large)
  qed
qed

lemma intOf_col:
  "intOf (col k r) = (case map_of r k of Some (JNum x) \<Rightarrow> Some \<lfloor>x\<rfloor> | _ \<Rightarrow> None)"
  by (simp add: col_def split: option.splits jsval.splits)

lemma columnInts_eq:
  "columnInts k rows
     = List.map_filter (\<lambda>r. case map_of r k of Some (JNum x) \<Rightarrow> Some \<lfloor>x\<rfloor> | _ \<Rightarrow> None) rows"
  by (simp add: columnInts_def intOf_col)

lemma sql_sum_eq:
  "sql_sum k rows = (if columnInts k rows = [] then None else Some (sum_list (columnInts k rows)))"
  by (simp add: sql_sum_def split: list.splits)

lemma select_div_scale_percentage:
  "select_div_scale a 1 b 0
     = nat (min 1000 (max 1 (16 - 4 * (int (floorlog 10000 (nat \<bar>a\<bar>) - 1) - int (floorlog 10000 (nat \<bar>b\<bar>) - 1)
          - (if nat \<bar>a\<bar> div 10000 ^ (floorlog 10000 (nat \<bar>a\<bar>) - 1)
                  \<le> nat \<bar>b\<bar> div 10000 ^ (floorlog 10000 (nat \<bar>b\<bar>) - 1) then 1 else 0)))))"
proof -
  have m: "max 0 (max (int 0) (max (int 1) r)) = max 1 r" for r :: int
    by simp
  have c: "q * 4 = 4 * q" for q :: int
    by simp
  show ?thesis
    unfolding select_div_scale_def numericWeight_def firstDigit_def Let_def m c ..
qed
lemma reliefPercentage_cases:
  "reliefPercentage rows =
     Inr (if columnInts ''totalQuantity'' rows = [] then None
          else if sum_list (columnInts ''totalQuantity'' rows) = 0 then Some 0
          else if columnInts ''distributedQuantity'' rows = [] then None
          else Some (round0 (roundTo
                 (select_div_scale (sum_list (columnInts ''distributedQuantity'' rows) * 100) 1
                                   (sum_list (columnInts ''totalQuantity'' rows)) 0)
                 (of_int (sum_list (columnInts ''distributedQuantity'' rows) * 100)
                    / of_int (sum_list (columnInts ''totalQuantity'' rows))))))"
  by (simp add: reliefPercentage_def sql_sum_eq sql_div_def times100_def sql_round_def Let_def)

lemma showInt_eq: "showInt p = (if p < 0 then ''-'' else []) @ showNat (nat \<bar>p\<bar>)"
  by (simp add: showInt_def)

lemma percentage_text:
  "numericText (Some p) = JStr ((if p < 0 then ''-'' else []) @ showNat (nat \<bar>p\<bar>))"
  by (simp add: numericText_def showInt_eq)


lemma whereRows_isActive:
  "whereRows (\<lambda>r. sql_eq (col ''isActive'' r) (JBool True)) rows
     = filter (\<lambda>r. map_of r ''isActive'' = Some (JBool True)) rows"
  unfolding whereRows_def by (rule filter_cong) (auto simp: sql_eq_def col_def split: option.splits)

lemma getDashboardStats_fields:
  "getDashboardStats w =
     Inr [ (''activeZones'',
              JStr (showNat (length (filter (\<lambda>r. map_of r ''isActive'' = Some (JBool True))
                                            (tables w FloodZones))))),
           (''affectedPeople'', JStr (showNat (length (tables w AffectedPopulation)))),
           (''reliefDistributed'', numericText (projr (reliefPercentage (tables w Resources)))),
           (''responseTeams'', JStr (showNat (length (tables w ResponseTeams)))) ]"
  by (simp add: getDashboardStats_def reliefPercentage_cases whereRows_isActive sql_count_def
      bigintText_def Let_def)

text \<open>
  C1. \<open>getDashboardStats\<close> always returns, and returns an object of exactly four fields, each
  as the driver delivers a bigint or a numeric: as its decimal text. \<open>activeZones\<close> is the
  number of flood-zone rows whose \<open>isActive\<close> is true, \<open>affectedPeople\<close> the number of
  affected-population rows, \<open>responseTeams\<close> the number of response-team rows, and
  \<open>reliefDistributed\<close> the distributed/total percentage over all resource rows (whose
  quantities are whole numbers): NULL when no resource row has a total quantity, 0 when the
  total quantities add up to 0, NULL when no row has a distributed quantity, and otherwise
  \<open>100 * sum distributed / sum total\<close> as PostgreSQL computes it: the quotient is rounded to
  the result scale of numeric division (16 significant digits at least, counted in digits of
  base 10000, and no fewer decimals than the one of \<open>100.0\<close>) and that is rounded to a whole
  number, ties away from zero both times. \<open>GET /api/dashboard/stats\<close> answers 200 with that
  object and changes nothing.
\<close>

theorem getDashboardStats_aggregates:
  "let totals = List.map_filter (\<lambda>r. case map_of r ''totalQuantity'' of
                                        Some (JNum x) \<Rightarrow> Some \<lfloor>x\<rfloor> | _ \<Rightarrow> None)
                                (tables w Resources);
       distributed = List.map_filter (\<lambda>r. case map_of r ''distributedQuantity'' of
                                             Some (JNum x) \<Rightarrow> Some \<lfloor>x\<rfloor> | _ \<Rightarrow> None)
                                     (tables w Resources);
       dividend = sum_list distributed * 100;
       divisor = sum_list totals;
       weight = (\<lambda>v. floorlog 10000 (nat \<bar>v\<bar>) - 1);
       leading = (\<lambda>v. nat \<bar>v\<bar> div 10000 ^ weight v);
       scale = nat (min 1000 (max 1 (16 - 4 * (int (weight dividend) - int (weight divisor)
                                                - (if leading dividend \<le> leading divisor then 1 else 0)))));
       exact = (of_int dividend / of_int divisor :: rat);
       quotient = sgn exact * of_int \<lfloor>\<bar>exact\<bar> * 10 ^ scale + 1 / 2\<rfloor> / 10 ^ scale;
       percentage = (if 0 \<le> quotient then \<lfloor>quotient + 1 / 2\<rfloor> else - \<lfloor>- quotient + 1 / 2\<rfloor>)
   in \<exists>active people teams digits.
        getDashboardStats w =
          Inr [ (''activeZones'', JStr active),
                (''affectedPeople'', JStr people),
                (''reliefDistributed'',
                   if totals = [] then JNull
                   else if divisor = 0 then JStr ''0''
                   else if distributed = [] then JNull
                   else JStr ((if percentage < 0 then ''-'' else []) @ digits)),
                (''responseTeams'', JStr teams) ]
      \<and> decimalOf active (length (filter (\<lambda>r. map_of r ''isActive'' = Some (JBool True))
                                         (tables w FloodZones)))
      \<and> decimalOf people (length (tables w AffectedPopulation))
      \<and> decimalOf teams (length (tables w ResponseTeams))
      \<and> decimalOf digits (nat \<bar>percentage\<bar>)
      \<and> handle e GetDashboardStats req w
          = (\<lparr>status = 200, json = Some (JObj (projr (getDashboardStats w)))\<rparr>, w)"
proof -
  define totals where "totals = columnInts ''totalQuantity'' (tables w Resources)"
  define distributed where "distributed = columnInts ''distributedQuantity'' (tables w Resources)"
  define percentage where "percentage =
    round0 (roundTo (select_div_scale (sum_list distributed * 100) 1 (sum_list totals) 0)
                    (of_int (sum_list distributed * 100) / of_int (sum_list totals)))"
  have rp: "numericText (projr (reliefPercentage (tables w Resources)))
      = (if totals = [] then JNull
         else if sum_list totals = 0 then JStr ''0''
         else if distributed = [] then JNull
         else JStr ((if percentage < 0 then ''-'' else []) @ showNat (nat \<bar>percentage\<bar>)))"
    unfolding reliefPercentage_cases totals_def distributed_def percentage_def
    by (simp add: percentage_text) (simp add: numericText_def showInt_def showNat_small digitChar_def)
  have stats: "getDashboardStats w =
          Inr [ (''activeZones'', JStr (showNat (length (filter (\<lambda>r. map_of r ''isActive'' = Some (JBool True))
                                         (tables w FloodZones))))),
                (''affectedPeople'', JStr (showNat (length (tables w AffectedPopulation)))),
                (''reliefDistributed'',
                   if totals = [] then JNull
                   else if sum_list totals = 0 then JStr ''0''
                   else if distributed = [] then JNull
                   else JStr ((if percentage < 0 then ''-'' else []) @ showNat (nat \<bar>percentage\<bar>))),
                (''responseTeams'', JStr (showNat (length (tables w ResponseTeams)))) ]"
    unfolding getDashboardStats_fields rp ..
  have route: "handle e GetDashboardStats req w
          = (\<lparr>status = 200, json = Some (JObj (projr (getDashboardStats w)))\<rparr>, w)"
    by (simp add: handle_def getDashboardStats_fields respond_def)
  have "\<exists>active people teams digits.
        getDashboardStats w =
          Inr [ (''activeZones'', JStr active),
                (''affectedPeople'', JStr people),
                (''reliefDistributed'',
                   if totals = [] then JNull
                   else if sum_list totals = 0 then JStr ''0''
                   else if distributed = [] then JNull
                   else JStr ((if percentage < 0 then ''-'' else []) @ digits)),
                (''responseTeams'', JStr teams) ]
      \<and> decimalOf active (length (filter (\<lambda>r. map_of r ''isActive'' = Some (JBool True))
                                         (tables w FloodZones)))
      \<and> decimalOf people (length (tables w AffectedPopulation))
      \<and> decimalOf teams (length (tables w ResponseTeams))
      \<and> decimalOf digits (nat \<bar>percentage\<bar>)
      \<and> handle e GetDashboardStats req w
          = (\<lparr>status = 200, json = Some (JObj (projr (getDashboardStats w)))\<rparr>, w)"
    apply (rule exI[of _ "showNat (length (filter (\<lambda>r. map_of r ''isActive'' = Some (JBool True))
                                         (tables w FloodZones)))"])
    apply (rule exI[of _ "showNat (length (tables w AffectedPopulation))"])
    apply (rule exI[of _ "showNat (length (tables w ResponseTeams))"])
    apply (rule exI[of _ "showNat (nat \<bar>percentage\<bar>)"])
    apply (rule conjI[OF stats])
    apply (intro conjI showNat_not_Nil showNat_digits showNat_leading showNat_reading route)
    done
  then show ?thesis
    unfolding Let_def totals_def distributed_def percentage_def columnInts_eq
      select_div_scale_percentage round0_def roundTo_def .
qed

text \<open>
  C2. On a database with no resource row the sum of the total quantities is SQL's NULL, not
  0: the \<open>WHEN\<close> branch is not taken, and \<open>reliefDistributed\<close> comes back as NULL where the
  claim (and the declared type \<open>number\<close>) has 0.
\<close>

theorem getDashboardStats_no_resources:
  "getDashboardStats emptyWorld =
     Inr [ (''activeZones'', JStr ''0''), (''affectedPeople'', JStr ''0''),
           (''reliefDistributed'', JNull), (''responseTeams'', JStr ''0'') ]"
  by (simp add: getDashboardStats_fields reliefPercentage_cases emptyWorld_def columnInts_def
      numericText_def showNat_small digitChar_def)


section \<open>Relief distribution\<close>

text \<open>
  C3. When \<open>createReliefDistribution\<close> returns, for a distribution whose \<open>resourceId\<close> is a
  string and whose \<open>quantity\<close> is a number: the new row is appended to the distribution
  table; a resource row with that id exists; in every resource row with that id the
  distributed quantity has grown by the quantity (NULL stays NULL), \<open>updatedAt\<close> is the
  reading of the clock, and every other field, total and allocated quantity among them, is
  as before; every other resource row and every other table is unchanged.
\<close>

theorem createReliefDistribution_frame:
  assumes ok: "createReliefDistribution e d w = (Inr nd, w')"
    and rid: "col ''resourceId'' d = JStr rid"
    and q: "col ''quantity'' d = JNum q"
  shows "tables w' ReliefDistribution = tables w ReliefDistribution @ [nd]
       \<and> JStr rid \<in> set (map (col ''id'') (tables w Resources))
       \<and> length (tables w' Resources) = length (tables w Resources)
       \<and> (\<forall>i<length (tables w Resources).
            (col ''id'' (tables w Resources ! i) \<noteq> JStr rid \<longrightarrow>
               tables w' Resources ! i = tables w Resources ! i)
          \<and> (col ''id'' (tables w Resources ! i) = JStr rid \<longrightarrow>
               map fst (tables w' Resources ! i) = map fst (tables w Resources ! i)
             \<and> (\<forall>a. col ''distributedQuantity'' (tables w Resources ! i) = JNum a \<longrightarrow>
                    col ''distributedQuantity'' (tables w' Resources ! i) = JNum (a + q))
             \<and> (col ''distributedQuantity'' (tables w Resources ! i) = JNull \<longrightarrow>
                    col ''distributedQuantity'' (tables w' Resources ! i) = JNull)
             \<and> (col ''distributedQuantity'' (tables w Resources ! i) = JNull
                  \<or> (\<exists>a. col ''distributedQuantity'' (tables w Resources ! i) = JNum a))
             \<and> map_of (tables w' Resources ! i) ''updatedAt''
                  = map_option (\<lambda>v. JDate (clock e (Suc (tick w))))
                               (map_of (tables w Resources ! i) ''updatedAt'')
             \<and> (\<forall>k. k \<noteq> ''distributedQuantity'' \<longrightarrow> k \<noteq> ''updatedAt'' \<longrightarrow>
                    map_of (tables w' Resources ! i) k = map_of (tables w Resources ! i) k)))
       \<and> (\<forall>t. t \<noteq> Resources \<longrightarrow> t \<noteq> ReliefDistribution \<longrightarrow> tables w' t = tables w t)"
proof -
  let ?now = "clock e (Suc (tick w))"
  let ?sets = "[(''distributedQuantity'', PlusColumn ''distributedQuantity'' (JNum q)),
                (''updatedAt'', Val (JDate ?now))]"
  from createReliefDistribution_steps[OF ok] q rid obtain w1 rows where
    ins: "insertRow e ReliefDistribution d w = (Inr nd, w1)" and
    upd: "updateRows e Resources ?sets (JStr rid) (w1\<lparr>tick := Suc (Suc (tick w))\<rparr>) = (Inr rows, w')"
    by auto
  have tab1: "tables w1 = (tables w)(ReliefDistribution := tables w ReliefDistribution @ [nd])"
    using insertRow_world(3)[OF ins] by simp
  have other: "tables w' t = tables w1 t" if "t \<noteq> Resources" for t
    using updateRows_world(3)[OF upd that] by simp
  have c1: "tables w' ReliefDistribution = tables w ReliefDistribution @ [nd]"
    using other[of ReliefDistribution] tab1 by simp
  have c5: "\<forall>t. t \<noteq> Resources \<longrightarrow> t \<noteq> ReliefDistribution \<longrightarrow> tables w' t = tables w t"
    using other tab1 by simp
  \<comment> \<open>the foreign key: the resource exists\<close>
  from rid have given: "map_of d ''resourceId'' = Some (JStr rid)"
    by (auto simp: col_def split: option.splits)
  have built: "buildRow e (tick w) reliefDistribution d = Inr nd"
    using insertRow_Inr(1)[OF ins] by simp
  have checked: "checkRow w (tables w ReliefDistribution) nd reliefDistribution = None"
    using insertRow_Inr(2)[OF ins] by simp
  have "col ''resourceId'' nd = JStr rid"
    using buildRow_col[OF built distinct_reliefDistribution resourceId_column] given
    by (simp add: builder_defs)
  moreover have "foreignKeyError w nd (notNull (references Resources (varchar ''resourceId''))) = None"
    using checked resourceId_column by (simp add: checkRow_None)
  ultimately have c2: "JStr rid \<in> set (map (col ''id'') (tables w Resources))"
    by (simp add: foreignKeyError_def builder_defs split: if_splits)
  \<comment> \<open>the update\<close>
  from updateRows_Inr[OF upd] obtain bound where
    b: "bindSet e resources ?sets = Inr bound" and
    ap: "applyAll (\<lambda>r. sql_eq (col ''id'' r) (JStr rid) = Some True) bound (tables w Resources)
           = Inr (tables w' Resources)"
    using tab1 by auto
  have bound: "bound = ?sets" using bindSet_resources_bump[OF b] .
  have c3: "length (tables w' Resources) = length (tables w Resources)"
    using applyAll_length[OF ap] .
  have c4: "(col ''id'' (tables w Resources ! i) \<noteq> JStr rid \<longrightarrow>
               tables w' Resources ! i = tables w Resources ! i)
          \<and> (col ''id'' (tables w Resources ! i) = JStr rid \<longrightarrow>
               map fst (tables w' Resources ! i) = map fst (tables w Resources ! i)
             \<and> (\<forall>a. col ''distributedQuantity'' (tables w Resources ! i) = JNum a \<longrightarrow>
                    col ''distributedQuantity'' (tables w' Resources ! i) = JNum (a + q))
             \<and> (col ''distributedQuantity'' (tables w Resources ! i) = JNull \<longrightarrow>
                    col ''distributedQuantity'' (tables w' Resources ! i) = JNull)
             \<and> (col ''distributedQuantity'' (tables w Resources ! i) = JNull
                  \<or> (\<exists>a. col ''distributedQuantity'' (tables w Resources ! i) = JNum a))
             \<and> map_of (tables w' Resources ! i) ''updatedAt''
                  = map_option (\<lambda>v. JDate ?now) (map_of (tables w Resources ! i) ''updatedAt'')
             \<and> (\<forall>k. k \<noteq> ''distributedQuantity'' \<longrightarrow> k \<noteq> ''updatedAt'' \<longrightarrow>
                    map_of (tables w' Resources ! i) k = map_of (tables w Resources ! i) k))"
    if i: "i < length (tables w Resources)" for i
  proof (cases "col ''id'' (tables w Resources ! i) = JStr rid")
    case False
    with applyAll_nth[OF ap i] show ?thesis by simp
  next
    case True
    with applyAll_nth[OF ap i] bound
    have "applySet ?sets (tables w Resources ! i) (tables w Resources ! i) = Inr (tables w' Resources ! i)"
      by (simp add: sql_eq_def)
    from bumped_row[OF this] True show ?thesis by blast
  qed
  from c1 c2 c3 c4 c5 show ?thesis by blast
qed


theorem createReliefDistribution_frame_witness:
  "tables (snd (createReliefDistribution exampleEnv exampleDistribution exampleStock)) ReliefDistribution
     = tables exampleStock ReliefDistribution
         @ [projr (fst (createReliefDistribution exampleEnv exampleDistribution exampleStock))]
   \<and> col ''distributedQuantity''
        (tables (snd (createReliefDistribution exampleEnv exampleDistribution exampleStock)) Resources ! 0)
       = JNum 20
   \<and> col ''totalQuantity''
        (tables (snd (createReliefDistribution exampleEnv exampleDistribution exampleStock)) Resources ! 0)
       = JNum 10"
proof -
  let ?X = "createReliefDistribution exampleEnv exampleDistribution exampleStock"
  have "\<not> isl (fst ?X)" by code_simp
  then have ok: "?X = (Inr (projr (fst ?X)), snd ?X)"
    by (cases ?X; cases "fst ?X") auto
  have rid: "col ''resourceId'' exampleDistribution = JStr ''r1''" by code_simp
  have q: "col ''quantity'' exampleDistribution = JNum 20" by code_simp
  have len: "0 < length (tables exampleStock Resources)" by code_simp
  have ident: "col ''id'' (tables exampleStock Resources ! 0) = JStr ''r1''" by code_simp
  have dq: "col ''distributedQuantity'' (tables exampleStock Resources ! 0) = JNum 0" by code_simp
  have tq: "map_of (tables exampleStock Resources ! 0) ''totalQuantity'' = Some (JNum 10)" by code_simp
  from createReliefDistribution_frame[OF ok rid q] len ident dq tq show ?thesis
    by (auto simp: col_def)
qed

lemma floor_half: "\<lfloor>1 / 2 :: rat\<rfloor> = 0"
  by (simp add: floor_eq_iff)

lemma scale_of_none: "select_div_scale 0 (Suc 0) 10 0 = 20"
  by (simp add: select_div_scale_def numericWeight_def firstDigit_def compute_floorlog)

lemma scale_of_double: "select_div_scale 2000 (Suc 0) 10 0 = 16"
  by (simp add: select_div_scale_def numericWeight_def firstDigit_def compute_floorlog)

lemma rounded_double: "round0 (roundTo 16 200) = 200"
  by code_simp

text \<open>
  C9. Nothing compares a distribution with the stock. From the empty database, a resource is
  created with total quantity 10; nothing of it is distributed yet, and the dashboard reports
  0 percent. Distributing 20 of it succeeds: the total stays 10, the distributed quantity
  grows by the 20 of the distribution and so exceeds the total, and the dashboard then
  reports 200 percent.
\<close>

theorem distributed_exceeds_total:
  "\<exists>e resource distribution quantity total before row after stats.
      map_of distribution ''quantity'' = Some (JNum quantity)
    \<and> map (\<lambda>r. (map_of r ''totalQuantity'', map_of r ''distributedQuantity''))
          (tables (run e [CreateResource resource] emptyWorld) Resources)
        = [(Some (JNum total), Some (JNum before))]
    \<and> before \<le> total
    \<and> map_of (projr (getDashboardStats (run e [CreateResource resource] emptyWorld))) ''reliefDistributed''
        = Some (JStr ''0'')
    \<and> createReliefDistribution e distribution (run e [CreateResource resource] emptyWorld)
        = (Inr row, after)
    \<and> after = run e [CreateResource resource, CreateReliefDistribution distribution] emptyWorld
    \<and> map (\<lambda>r. (map_of r ''totalQuantity'', map_of r ''distributedQuantity''))
          (tables after Resources)
        = [(Some (JNum total), Some (JNum (before + quantity)))]
    \<and> total < before + quantity
    \<and> getDashboardStats after = Inr stats
    \<and> map_of stats ''reliefDistributed'' = Some (JStr ''200'')
    \<and> 100 < foldl (\<lambda>a c. 10 * a + (of_char c - 48)) (0::nat) ''200''"
proof -
  let ?w0 = "run exampleEnv [CreateResource exampleResource] emptyWorld"
  let ?X = "createReliefDistribution exampleEnv exampleDistribution ?w0"
  let ?row = "[ (''id'', JStr ''d1''), (''resourceId'', JStr ''r1''), (''floodZoneId'', JNull),
                (''quantity'', JNum 20), (''distributedTo'', JNull), (''distributedBy'', JNull),
                (''distributionDate'', JDate 1), (''recipientCount'', JNull), (''notes'', JNull),
                (''status'', JStr ''completed''), (''createdAt'', JDate 1) ]"
  let ?stats = "[ (''activeZones'', JStr ''0''), (''affectedPeople'', JStr ''0''),
                  (''reliefDistributed'', JStr ''200''), (''responseTeams'', JStr ''0'') ]"
  have 1: "map_of exampleDistribution ''quantity'' = Some (JNum 20)"
    by code_simp
  have 2: "map (\<lambda>r. (map_of r ''totalQuantity'', map_of r ''distributedQuantity''))
              (tables ?w0 Resources) = [(Some (JNum 10), Some (JNum 0))]"
    by code_simp
  have 3: "(0::rat) \<le> 10"
    by simp
  have "columnInts ''totalQuantity'' (tables ?w0 Resources) = [10]"
    and "columnInts ''distributedQuantity'' (tables ?w0 Resources) = [0]"
    by code_simp+
  then have "reliefPercentage (tables ?w0 Resources) = Inr (Some 0)"
    by (simp add: reliefPercentage_cases scale_of_none roundTo_def round0_def floor_half)
  then have 4: "map_of (projr (getDashboardStats ?w0)) ''reliefDistributed'' = Some (JStr ''0'')"
    by (simp add: getDashboardStats_fields numericText_def showInt_def showNat_small digitChar_def)
  have "fst ?X = Inr ?row"
    by code_simp
  then have 5: "?X = (Inr ?row, snd ?X)"
    by (simp add: prod_eq_iff)
  have 6: "snd ?X = run exampleEnv [CreateResource exampleResource,
                                     CreateReliefDistribution exampleDistribution] emptyWorld"
    by (simp add: run_def)
  have 7: "map (\<lambda>r. (map_of r ''totalQuantity'', map_of r ''distributedQuantity''))
              (tables (snd ?X) Resources) = [(Some (JNum 10), Some (JNum (0 + 20)))]"
    by code_simp
  have 8: "(10::rat) < 0 + 20"
    by simp
  have "columnInts ''totalQuantity'' (tables (snd ?X) Resources) = [10]"
    and "columnInts ''distributedQuantity'' (tables (snd ?X) Resources) = [20]"
    by code_simp+
  then have "reliefPercentage (tables (snd ?X) Resources) = Inr (Some 200)"
    by (simp add: reliefPercentage_cases scale_of_double rounded_double)
  moreover have "tables (snd ?X) FloodZones = []" "tables (snd ?X) AffectedPopulation = []"
    "tables (snd ?X) ResponseTeams = []"
    by code_simp+
  ultimately have 9: "getDashboardStats (snd ?X) = Inr ?stats"
    by (simp add: getDashboardStats_fields numericText_def showInt_def showNat_small
        showNat_large digitChar_def)
  have 10: "map_of ?stats ''reliefDistributed'' = Some (JStr ''200'')"
    by simp
  have 11: "100 < foldl (\<lambda>a c. 10 * a + (of_char c - 48)) (0::nat) ''200''"
    by simp
  show ?thesis
    by (rule exI[of _ exampleEnv], rule exI[of _ exampleResource],
        rule exI[of _ exampleDistribution], rule exI[of _ 20], rule exI[of _ 10],
        rule exI[of _ 0], rule exI[of _ ?row], rule exI[of _ "snd ?X"], rule exI[of _ ?stats],
        intro conjI)
       (rule 1 2 3 4 5 6 7 8 9 10 11)+
qed

section \<open>Weather alerts\<close>

lemma run_Cons: "run e (c # cs) w = run e cs (exec e c w)"
  by (simp add: run_def)

lemma run_Nil: "run e [] w = w"
  by (simp add: run_def)

lemma run_append: "run e (cs @ [c]) w = exec e c (run e cs w)"
  by (simp add: run_def)

lemma map_fst_switch:
  "map fst (map (\<lambda>kv. (fst kv, if fst kv = ''isActive'' then JBool False else snd kv)) r) = map fst r"
  by (induction r) simp_all

lemma exec_shape:
  assumes "\<forall>r\<in>set (tables w WeatherAlerts). map fst r = map colKey weatherAlerts"
  shows "\<forall>r\<in>set (tables (exec e c w) WeatherAlerts). map fst r = map colKey weatherAlerts"
proof -
  let ?off = "\<lambda>r. map (\<lambda>kv. (fst kv, if fst kv = ''isActive'' then JBool False else snd kv)) r"
  consider
    (same) "tables (exec e c w) WeatherAlerts = tables w WeatherAlerts"
  | (more) r where "tables (exec e c w) WeatherAlerts = tables w WeatherAlerts @ [r]"
      "map fst r = map colKey weatherAlerts"
  | (off) j where "tables (exec e c w) WeatherAlerts =
        map (\<lambda>r. if col ''id'' r = JStr j then ?off r else r) (tables w WeatherAlerts)"
    using exec_alerts[of e c w] by blast
  then show ?thesis
  proof cases
    case same
    with assms show ?thesis by simp
  next
    case more
    with assms show ?thesis by simp
  next
    case off
    show ?thesis
    proof
      fix r' assume "r' \<in> set (tables (exec e c w) WeatherAlerts)"
      then obtain r where r: "r \<in> set (tables w WeatherAlerts)"
        and r': "r' = (if col ''id'' r = JStr j then ?off r else r)"
        unfolding off by auto
      from assms r have "map fst r = map colKey weatherAlerts" by blast
      with r' show "map fst r' = map colKey weatherAlerts"
        by (simp add: comp_def)
    qed
  qed
qed

lemma run_shape:
  "\<forall>r\<in>set (tables (run e cs emptyWorld) WeatherAlerts). map fst r = map colKey weatherAlerts"
proof (induction cs rule: rev_induct)
  case Nil
  then show ?case by (simp add: run_Nil emptyWorld_def)
next
  case (snoc c cs)
  then show ?case unfolding run_append by (rule exec_shape)
qed

lemma exec_inactive:
  assumes "JStr i \<in> set (map (col ''id'') (tables w WeatherAlerts))"
    and "\<forall>r\<in>set (tables w WeatherAlerts). col ''id'' r = JStr i \<longrightarrow> col ''isActive'' r \<noteq> JBool True"
  shows "JStr i \<in> set (map (col ''id'') (tables (exec e c w) WeatherAlerts))
       \<and> (\<forall>r\<in>set (tables (exec e c w) WeatherAlerts).
             col ''id'' r = JStr i \<longrightarrow> col ''isActive'' r \<noteq> JBool True)"
proof -
  let ?off = "\<lambda>r. map (\<lambda>kv. (fst kv, if fst kv = ''isActive'' then JBool False else snd kv)) r"
  consider
    (same) "tables (exec e c w) WeatherAlerts = tables w WeatherAlerts"
  | (more) r where "tables (exec e c w) WeatherAlerts = tables w WeatherAlerts @ [r]"
      "col ''id'' r \<notin> set (map (col ''id'') (tables w WeatherAlerts))"
  | (off) j where "tables (exec e c w) WeatherAlerts =
        map (\<lambda>r. if col ''id'' r = JStr j then ?off r else r) (tables w WeatherAlerts)"
    using exec_alerts[of e c w] by blast
  then show ?thesis
  proof cases
    case same
    with assms show ?thesis by simp
  next
    case more
    with assms show ?thesis by auto
  next
    case off
    have ident: "col ''id'' (if col ''id'' r = JStr j then ?off r else r) = col ''id'' r" for r
      by (simp add: col_switch)
    have act: "col ''isActive'' (if col ''id'' r = JStr j then ?off r else r) = JBool True
                 \<Longrightarrow> col ''isActive'' r = JBool True" for r
      by (simp add: col_switch split: if_splits)
    from assms(1) have "JStr i \<in> set (map (col ''id'') (tables (exec e c w) WeatherAlerts))"
      unfolding off by (simp add: comp_def ident)
    moreover have "\<forall>r\<in>set (tables (exec e c w) WeatherAlerts).
             col ''id'' r = JStr i \<longrightarrow> col ''isActive'' r \<noteq> JBool True"
    proof (intro ballI impI)
      fix r' assume "r' \<in> set (tables (exec e c w) WeatherAlerts)" and i': "col ''id'' r' = JStr i"
      then obtain r where r: "r \<in> set (tables w WeatherAlerts)"
        and r': "r' = (if col ''id'' r = JStr j then ?off r else r)"
        unfolding off by auto
      from i' r' ident[of r] have "col ''id'' r = JStr i" by simp
      with assms(2) r have "col ''isActive'' r \<noteq> JBool True" by blast
      with act[of r] r' show "col ''isActive'' r' \<noteq> JBool True" by blast
    qed
    ultimately show ?thesis by simp
  qed
qed

lemma run_inactive:
  assumes "JStr i \<in> set (map (col ''id'') (tables w WeatherAlerts))"
    and "\<forall>r\<in>set (tables w WeatherAlerts). col ''id'' r = JStr i \<longrightarrow> col ''isActive'' r \<noteq> JBool True"
  shows "\<forall>r\<in>set (tables (run e cs w) WeatherAlerts).
             col ''id'' r = JStr i \<longrightarrow> col ''isActive'' r \<noteq> JBool True"
proof -
  have "JStr i \<in> set (map (col ''id'') (tables (run e cs w) WeatherAlerts))
       \<and> (\<forall>r\<in>set (tables (run e cs w) WeatherAlerts).
             col ''id'' r = JStr i \<longrightarrow> col ''isActive'' r \<noteq> JBool True)"
  proof (induction cs rule: rev_induct)
    case Nil
    with assms show ?case by (simp add: run_Nil)
  next
    case (snoc c cs)
    then show ?case unfolding run_append by (intro exec_inactive) simp_all
  qed
  then show ?thesis by simp
qed

lemma getActiveWeatherAlerts_fst:
  "fst (getActiveWeatherAlerts e w)
     = orderByDesc ''createdAt''
         (filter (\<lambda>r. col ''isActive'' r = JBool True
                      \<and> (\<exists>t. col ''validUntil'' r = JDate t \<and> clock e (tick w) \<le> t))
                 (tables w WeatherAlerts))"
proof -
  have "whereRows (isActiveAlert (clock e (tick w))) (tables w WeatherAlerts)
        = filter (\<lambda>r. col ''isActive'' r = JBool True
                      \<and> (\<exists>t. col ''validUntil'' r = JDate t \<and> clock e (tick w) \<le> t))
                 (tables w WeatherAlerts)"
    unfolding whereRows_def by (rule filter_cong[OF refl]) (simp only: isActiveAlert_iff)
  then show ?thesis
    by (simp only: getActiveWeatherAlerts_def fst_conv)
qed

lemma set_orderByDesc: "set (orderByDesc k rows) = set rows"
  by (simp add: orderByDesc_def)


text \<open>
  C10. In a world reached from the empty database: \<open>getActiveWeatherAlerts\<close> returns exactly
  the alerts whose \<open>isActive\<close> is true and whose \<open>validUntil\<close> is a time not before the
  clock's reading (an alert with no \<open>validUntil\<close> is left out), latest \<open>createdAt\<close> first.
  \<open>deactivateWeatherAlert\<close> never raises; afterwards every alert with the given id has
  \<open>isActive = false\<close>, and, if there was such an alert, no later call of
  \<open>getActiveWeatherAlerts\<close> returns one with that id, whatever storage calls come in
  between. When no alert has the id the world is left exactly as it was.
\<close>

theorem weatherAlerts_active_and_deactivated:
  assumes reach: "w = run e0 calls0 emptyWorld"
  shows "mset (fst (getActiveWeatherAlerts e w))
           = mset (filter (\<lambda>r. col ''isActive'' r = JBool True
                               \<and> (\<exists>t. col ''validUntil'' r = JDate t \<and> clock e (tick w) \<le> t))
                          (tables w WeatherAlerts))
       \<and> sorted_wrt (\<lambda>x y. \<forall>a b. col ''createdAt'' x = JDate a \<longrightarrow> col ''createdAt'' y = JDate b \<longrightarrow> b \<le> a)
            (fst (getActiveWeatherAlerts e w))
       \<and> fst (deactivateWeatherAlert e i w) = Inr ()
       \<and> (\<forall>r\<in>set (tables (snd (deactivateWeatherAlert e i w)) WeatherAlerts).
             col ''id'' r = JStr i \<longrightarrow> col ''isActive'' r = JBool False)
       \<and> (JStr i \<in> set (map (col ''id'') (tables w WeatherAlerts)) \<longrightarrow>
             (\<forall>e' calls. \<forall>r\<in>set (fst (getActiveWeatherAlerts e'
                                          (run e' calls (snd (deactivateWeatherAlert e i w))))).
                 col ''id'' r \<noteq> JStr i))
       \<and> (JStr i \<notin> set (map (col ''id'') (tables w WeatherAlerts)) \<longrightarrow>
             deactivateWeatherAlert e i w = (Inr (), w))"
proof -
  let ?off = "\<lambda>r. map (\<lambda>kv. (fst kv, if fst kv = ''isActive'' then JBool False else snd kv)) r"
  let ?w1 = "snd (deactivateWeatherAlert e i w)"
  have rows1: "tables ?w1 WeatherAlerts
                 = map (\<lambda>r. if col ''id'' r = JStr i then ?off r else r) (tables w WeatherAlerts)"
    by (simp add: deactivateWeatherAlert_result)
  have shaped: "\<forall>r\<in>set (tables w WeatherAlerts). map fst r = map colKey weatherAlerts"
    unfolding reach by (rule run_shape)
  have c1: "mset (fst (getActiveWeatherAlerts e w))
           = mset (filter (\<lambda>r. col ''isActive'' r = JBool True
                               \<and> (\<exists>t. col ''validUntil'' r = JDate t \<and> clock e (tick w) \<le> t))
                          (tables w WeatherAlerts))"
    by (simp only: getActiveWeatherAlerts_fst mset_orderByDesc)
  have c2: "sorted_wrt (\<lambda>x y. \<forall>a b. col ''createdAt'' x = JDate a \<longrightarrow> col ''createdAt'' y = JDate b \<longrightarrow> b \<le> a)
            (fst (getActiveWeatherAlerts e w))"
    by (simp only: getActiveWeatherAlerts_fst latest_first)
  have c3: "fst (deactivateWeatherAlert e i w) = Inr ()"
    by (simp add: deactivateWeatherAlert_result)
  have off_after: "col ''id'' r' = JStr i \<longrightarrow> col ''isActive'' r' = JBool False"
    if "r' \<in> set (tables ?w1 WeatherAlerts)" for r'
  proof
    assume i': "col ''id'' r' = JStr i"
    from that obtain r where r: "r \<in> set (tables w WeatherAlerts)"
      and r': "r' = (if col ''id'' r = JStr i then ?off r else r)"
      unfolding rows1 by auto
    have "col ''id'' r = JStr i"
      using i' r' by (cases "col ''id'' r = JStr i") (simp_all add: col_switch)
    with r' have r'': "r' = ?off r" by simp
    from shaped r have "map fst r = map colKey weatherAlerts" by blast
    then have "''isActive'' \<in> set (map fst r)"
      by (simp add: weatherAlerts_def builder_defs)
    then have "map_of r ''isActive'' \<noteq> None"
      by (simp add: map_of_eq_None_iff)
    with r'' show "col ''isActive'' r' = JBool False"
      by (simp add: col_switch)
  qed
  then have c4: "\<forall>r\<in>set (tables ?w1 WeatherAlerts).
             col ''id'' r = JStr i \<longrightarrow> col ''isActive'' r = JBool False"
    by blast
  have c5: "\<forall>e' calls. \<forall>r\<in>set (fst (getActiveWeatherAlerts e' (run e' calls ?w1))).
                 col ''id'' r \<noteq> JStr i"
    if present: "JStr i \<in> set (map (col ''id'') (tables w WeatherAlerts))"
  proof (intro allI ballI)
    fix e' calls r
    assume r: "r \<in> set (fst (getActiveWeatherAlerts e' (run e' calls ?w1)))"
    have ids: "map (col ''id'') (tables ?w1 WeatherAlerts) = map (col ''id'') (tables w WeatherAlerts)"
      unfolding rows1 by (simp add: comp_def col_switch cong: map_cong)
    have p1: "JStr i \<in> set (map (col ''id'') (tables ?w1 WeatherAlerts))"
      using present ids by simp
    have p2: "\<forall>r\<in>set (tables ?w1 WeatherAlerts). col ''id'' r = JStr i \<longrightarrow> col ''isActive'' r \<noteq> JBool True"
      using c4 by auto
    from r have "r \<in> set (tables (run e' calls ?w1) WeatherAlerts)" and "col ''isActive'' r = JBool True"
      by (simp_all add: getActiveWeatherAlerts_fst set_orderByDesc)
    with run_inactive[OF p1 p2, of e' calls] show "col ''id'' r \<noteq> JStr i"
      by blast
  qed
  have c6: "JStr i \<notin> set (map (col ''id'') (tables w WeatherAlerts)) \<longrightarrow>
             deactivateWeatherAlert e i w = (Inr (), w)"
    using deactivateWeatherAlert_absent by blast
  from c1 c2 c3 c4 c5 c6 show ?thesis
    by blast
qed

theorem weatherAlerts_active_and_deactivated_witness:
  "map (col ''id'') (fst (getActiveWeatherAlerts exampleEnv exampleAlerts)) = [JStr ''r1'']
   \<and> fst (deactivateWeatherAlert exampleEnv ''r1'' exampleAlerts) = Inr ()
   \<and> map (col ''isActive'') (tables (snd (deactivateWeatherAlert exampleEnv ''r1'' exampleAlerts)) WeatherAlerts)
        = [JBool False]
   \<and> JStr ''r1'' \<notin> set (map (col ''id'')
        (fst (getActiveWeatherAlerts exampleEnv
               (run exampleEnv [] (snd (deactivateWeatherAlert exampleEnv ''r1'' exampleAlerts))))))
   \<and> deactivateWeatherAlert exampleEnv ''zz'' exampleAlerts = (Inr (), exampleAlerts)"
proof -
  have reach: "exampleAlerts = run exampleEnv [CreateWeatherAlert exampleAlert] emptyWorld"
    by (simp add: exampleAlerts_def)
  have present: "JStr ''r1'' \<in> set (map (col ''id'') (tables exampleAlerts WeatherAlerts))"
    by code_simp
  have absent: "JStr ''zz'' \<notin> set (map (col ''id'') (tables exampleAlerts WeatherAlerts))"
    by code_simp
  have a: "map (col ''id'') (fst (getActiveWeatherAlerts exampleEnv exampleAlerts)) = [JStr ''r1'']"
    by code_simp
  have b: "map (col ''isActive'') (tables (snd (deactivateWeatherAlert exampleEnv ''r1'' exampleAlerts)) WeatherAlerts)
        = [JBool False]"
    by code_simp
  from weatherAlerts_active_and_deactivated[OF reach, of exampleEnv "''r1''"] present
  have c: "fst (deactivateWeatherAlert exampleEnv ''r1'' exampleAlerts) = Inr ()"
    and d: "\<forall>r\<in>set (fst (getActiveWeatherAlerts exampleEnv
               (run exampleEnv [] (snd (deactivateWeatherAlert exampleEnv ''r1'' exampleAlerts))))).
              col ''id'' r \<noteq> JStr ''r1''"
    by blast+
  from weatherAlerts_active_and_deactivated[OF reach, of exampleEnv "''zz''"] absent
  have f: "deactivateWeatherAlert exampleEnv ''zz'' exampleAlerts = (Inr (), exampleAlerts)"
    by blast
  from d have d': "JStr ''r1'' \<notin> set (map (col ''id'')
        (fst (getActiveWeatherAlerts exampleEnv
               (run exampleEnv [] (snd (deactivateWeatherAlert exampleEnv ''r1'' exampleAlerts))))))"
    by auto
  from a b c d' f show ?thesis by blast
qed


section \<open>The routes\<close>

lemma handle_caught:
  "tryBlock e r req w = (Inl err, w1) \<Longrightarrow>
     handle e r req w = (respond 500 (message (failureMessage r)), w1)"
  by (simp add: handle_def)

lemma handle_returned:
  "tryBlock e r req w = (Inr res, w1) \<Longrightarrow> handle e r req w = (res, w1)"
  by (simp add: handle_def)

lemma await_Inr:
  "await m f = (Inr res, w1) \<Longrightarrow> \<exists>x w0. m = (Inr x, w0) \<and> f x w0 = (Inr res, w1)"
  by (cases m; cases "fst m") (auto simp: await_def)

lemma thenRespond_Inr: "thenRespond v x w = (Inr res, w1) \<Longrightarrow> res = respond 200 v \<and> w1 = w"
  by (auto simp: thenRespond_def)

lemma logged_status:
  "await (logActivity e a w) (thenRespond v) = (Inr res, w1) \<Longrightarrow> status res = 200"
  by (auto dest!: await_Inr thenRespond_Inr simp: respond_def)

lemma created_status:
  "await m (\<lambda>x w1. await (logActivity e (a x) w1) (thenRespond (v x))) = (Inr res, w2)
     \<Longrightarrow> status res = 200"
  by (auto dest!: await_Inr thenRespond_Inr simp: respond_def)

lemma patched_status:
  "patched e notFound a row w = (Inr res, w1) \<Longrightarrow>
     (row = None \<and> status res = 404) \<or> (row \<noteq> None \<and> status res = 200)"
  by (cases row) (auto simp: patched_def respond_def dest!: logged_status)

lemma updated_status:
  "await m (patched e notFound a) = (Inr res, w1) \<Longrightarrow>
     (\<exists>w0. m = (Inr None, w0) \<and> status res = 404) \<or> status res = 200"
  by (auto dest!: await_Inr patched_status)

lemma tryBlock_status:
  assumes "tryBlock e r req w = (Inr res, w1)"
  shows "status res = 200 \<or> status res = 404 \<or> (status res = 500 \<and> r = GetWeather)"
proof (cases r)
  case GetWeather
  with assms show ?thesis
    by (auto simp: respond_def Let_def split: option.splits if_splits fetchResult.splits sum.splits)
qed (use assms in \<open>auto simp: respond_def Let_def
      dest!: created_status updated_status logged_status
      split: sum.splits option.splits prod.splits\<close>)


lemma updateRows_returning_Nil:
  assumes "updateRows e t sets ident w = (Inr [], w')"
  shows "\<forall>r\<in>set (tables w t). sql_eq (col ''id'' r) ident \<noteq> Some True"
proof
  fix r assume r: "r \<in> set (tables w t)"
  let ?sel = "\<lambda>r. sql_eq (col ''id'' r) ident = Some True"
  from assms obtain bound rows' where
    ap: "applyAll ?sel bound (tables w t) = Inr rows'" and
    none: "filter (\<lambda>rr. ?sel (fst rr)) (zip (tables w t) rows') = []"
    by (auto simp: updateRows_def Let_def split: sum.splits option.splits)
  from r obtain n where n: "n < length (tables w t)" "tables w t ! n = r"
    by (auto simp: in_set_conv_nth)
  with applyAll_length[OF ap] have "(r, rows' ! n) \<in> set (zip (tables w t) rows')"
    by (auto simp: set_zip)
  with none show "sql_eq (col ''id'' r) ident \<noteq> Some True"
    by (auto simp: filter_empty_conv)
qed

lemma setAndStamp_None:
  assumes "setAndStamp e t stamp ident updates w = (Inr None, w')"
  shows "JStr ident \<notin> set (map (col ''id'') (tables w t))"
proof -
  let ?w1 = "w\<lparr>tick := Suc (tick w)\<rparr>"
  let ?sets = "setOf ((stamp, JDate (clock e (tick w))) # updates)"
  obtain res w2 where u: "updateRows e t ?sets (JStr ident) ?w1 = (res, w2)"
    by (cases "updateRows e t ?sets (JStr ident) ?w1")
  with assms have "res = Inr []"
    by (cases res) (auto simp: setAndStamp_def Let_def)
  with u updateRows_returning_Nil[of e t ?sets "JStr ident" ?w1 w2] show ?thesis
    by auto
qed

lemma tryBlock_404:
  assumes "tryBlock e r req w = (Inr res, w1)" and "status res = 404"
  shows "(r = PatchFloodZone \<and> JStr (reqParam req) \<notin> set (map (col ''id'') (tables w FloodZones)))
       \<or> (r = PatchPopulation \<and> JStr (reqParam req) \<notin> set (map (col ''id'') (tables w AffectedPopulation)))
       \<or> (r = PatchResource \<and> JStr (reqParam req) \<notin> set (map (col ''id'') (tables w Resources)))
       \<or> (r = PatchResponseTeam \<and> JStr (reqParam req) \<notin> set (map (col ''id'') (tables w ResponseTeams)))"
proof (cases r)
  case PatchFloodZone
  with assms obtain w0 where "updateFloodZone e (reqParam req) (spread (reqBody req)) w = (Inr None, w0)"
    by (auto dest!: updated_status)
  with PatchFloodZone show ?thesis
    by (auto simp: updateFloodZone_def dest: setAndStamp_None)
next
  case PatchPopulation
  with assms obtain w0 where "updateAffectedPerson e (reqParam req) (spread (reqBody req)) w = (Inr None, w0)"
    by (auto dest!: updated_status)
  with PatchPopulation show ?thesis
    by (auto simp: updateAffectedPerson_def dest: setAndStamp_None)
next
  case PatchResource
  with assms obtain w0 where "updateResource e (reqParam req) (spread (reqBody req)) w = (Inr None, w0)"
    by (auto dest!: updated_status)
  with PatchResource show ?thesis
    by (auto simp: updateResource_def dest: setAndStamp_None)
next
  case PatchResponseTeam
  with assms obtain w0 where "updateResponseTeam e (reqParam req) (spread (reqBody req)) w = (Inr None, w0)"
    by (auto dest!: updated_status)
  with PatchResponseTeam show ?thesis
    by (auto simp: updateResponseTeam_def dest: setAndStamp_None)
next
  case GetWeather
  with assms show ?thesis
    by (auto simp: respond_def Let_def split: option.splits if_splits fetchResult.splits sum.splits)
qed (use assms in \<open>auto simp: respond_def Let_def
      dest!: created_status logged_status
      split: sum.splits option.splits prod.splits\<close>)


lemma parseFields_issue:
  "f \<in> set schema \<Longrightarrow> parseField f input = None \<Longrightarrow> parseFields schema input = None"
  by (induction schema) (auto split: option.splits)

lemma parseField_required:
  "\<not> zOptional f \<Longrightarrow> \<not> zNullable f \<Longrightarrow>
   map_of input (zKey f) = None \<or> map_of input (zKey f) = Some JNull \<Longrightarrow>
   parseField f input = None"
  by (auto simp: parseField_def)

lemmas schema_defs =
  insertFloodZoneSchema_def insertAffectedPopulationSchema_def insertResourceSchema_def
  insertReliefDistributionSchema_def insertWeatherAlertSchema_def insertResponseTeamSchema_def
  omit_def createInsertSchema_def
  floodZones_def affectedPopulation_def resources_def reliefDistribution_def weatherAlerts_def
  responseTeams_def builder_defs

lemma required_floodZone:
  "map zKey (filter (\<lambda>f. \<not> zOptional f) insertFloodZoneSchema)
     = [''name'', ''district'', ''latitude'', ''longitude'', ''riskLevel'', ''radius'']"
  by (simp add: schema_defs)

lemma required_population:
  "map zKey (filter (\<lambda>f. \<not> zOptional f) insertAffectedPopulationSchema)
     = [''name'', ''evacuationStatus'']"
  by (simp add: schema_defs)

lemma required_resource:
  "map zKey (filter (\<lambda>f. \<not> zOptional f) insertResourceSchema)
     = [''name'', ''type'', ''unit'', ''totalQuantity'', ''priority'']"
  by (simp add: schema_defs)

lemma required_distribution:
  "map zKey (filter (\<lambda>f. \<not> zOptional f) insertReliefDistributionSchema)
     = [''resourceId'', ''quantity'']"
  by (simp add: schema_defs)

lemma required_alert:
  "map zKey (filter (\<lambda>f. \<not> zOptional f) insertWeatherAlertSchema)
     = [''type'', ''severity'', ''title'', ''message'']"
  by (simp add: schema_defs)

lemma required_team:
  "map zKey (filter (\<lambda>f. \<not> zOptional f) insertResponseTeamSchema)
     = [''name'', ''type'', ''status'']"
  by (simp add: schema_defs)

lemma required_not_nullable:
  "f \<in> set (createInsertSchema cols) \<Longrightarrow> \<not> zOptional f \<Longrightarrow> \<not> zNullable f"
  by (auto simp: createInsertSchema_def)

lemma omit_subset: "f \<in> set (omit ks schema) \<Longrightarrow> f \<in> set schema"
  by (simp add: omit_def)

lemma required_key:
  "f \<in> set schema \<Longrightarrow> \<not> zOptional f \<Longrightarrow> zKey f \<in> set (map zKey (filter (\<lambda>f. \<not> zOptional f) schema))"
  by auto


lemma zodParse_required:
  assumes "f \<in> set (omit ks (createInsertSchema cols))" "\<not> zOptional f"
    and "map_of input (zKey f) = None \<or> map_of input (zKey f) = Some JNull"
  shows "zodParse (omit ks (createInsertSchema cols)) (JObj input) = Inl ZodError"
proof -
  have "\<not> zNullable f"
    using required_not_nullable[OF omit_subset[OF assms(1)] assms(2)] .
  with assms have "parseField f input = None"
    by (intro parseField_required)
  with assms(1) show ?thesis
    by (simp add: parseFields_issue)
qed

lemma zodParse_body_required:
  assumes "f \<in> set (omit ks (createInsertSchema cols))" "\<not> zOptional f"
    and "map_of (spread body) (zKey f) = None \<or> map_of (spread body) (zKey f) = Some JNull"
  shows "zodParse (omit ks (createInsertSchema cols)) body = Inl ZodError"
proof (cases body)
  case (JObj kvs)
  with assms zodParse_required[of f ks cols kvs] show ?thesis by simp
qed simp_all

lemma zodParse_spread_required:
  assumes "f \<in> set (omit ks (createInsertSchema cols))" "\<not> zOptional f"
    and "map_of (spread body) (zKey f) = None \<or> map_of (spread body) (zKey f) = Some JNull"
    and "k0 \<notin> set (map zKey (filter (\<lambda>f. \<not> zOptional f) (omit ks (createInsertSchema cols))))"
  shows "zodParse (omit ks (createInsertSchema cols)) (JObj ((k0, v0) # spread body)) = Inl ZodError"
proof -
  have "zKey f \<noteq> k0"
    using required_key[OF assms(1,2)] assms(4) by metis
  with assms(3) have "map_of ((k0, v0) # spread body) (zKey f) = None
                    \<or> map_of ((k0, v0) # spread body) (zKey f) = Some JNull"
    by simp
  with assms(1,2) show ?thesis
    by (rule zodParse_required)
qed

lemma reject_floodZone:
  assumes "f \<in> set insertFloodZoneSchema" "\<not> zOptional f"
    and "map_of (spread (reqBody req)) (zKey f) = None \<or> map_of (spread (reqBody req)) (zKey f) = Some JNull"
  shows "handle e PostFloodZones req w = (respond 500 (message (failureMessage PostFloodZones)), w)"
proof -
  have "zodParse insertFloodZoneSchema (reqBody req) = Inl ZodError"
    using assms unfolding insertFloodZoneSchema_def by (rule zodParse_body_required)
  then show ?thesis by (simp add: handle_def)
qed

lemma reject_resource:
  assumes "f \<in> set insertResourceSchema" "\<not> zOptional f"
    and "map_of (spread (reqBody req)) (zKey f) = None \<or> map_of (spread (reqBody req)) (zKey f) = Some JNull"
  shows "handle e PostResources req w = (respond 500 (message (failureMessage PostResources)), w)"
proof -
  have "zodParse insertResourceSchema (reqBody req) = Inl ZodError"
    using assms unfolding insertResourceSchema_def by (rule zodParse_body_required)
  then show ?thesis by (simp add: handle_def)
qed

lemma reject_population:
  assumes "f \<in> set insertAffectedPopulationSchema" "\<not> zOptional f"
    and "map_of (spread (reqBody req)) (zKey f) = None \<or> map_of (spread (reqBody req)) (zKey f) = Some JNull"
  shows "handle e PostPopulation req w = (respond 500 (message (failureMessage PostPopulation)), w)"
proof -
  have "zodParse insertAffectedPopulationSchema
          (JObj ((''registeredBy'', JStr (reqSub req)) # spread (reqBody req))) = Inl ZodError"
    using assms required_population unfolding insertAffectedPopulationSchema_def
    by (intro zodParse_spread_required) simp_all
  then show ?thesis by (simp add: handle_def)
qed

lemma reject_distribution:
  assumes "f \<in> set insertReliefDistributionSchema" "\<not> zOptional f"
    and "map_of (spread (reqBody req)) (zKey f) = None \<or> map_of (spread (reqBody req)) (zKey f) = Some JNull"
  shows "handle e PostReliefDistribution req w
           = (respond 500 (message (failureMessage PostReliefDistribution)), w)"
proof -
  have "zodParse insertReliefDistributionSchema
          (JObj ((''distributedBy'', JStr (reqSub req)) # spread (reqBody req))) = Inl ZodError"
    using assms required_distribution unfolding insertReliefDistributionSchema_def
    by (intro zodParse_spread_required) simp_all
  then show ?thesis by (simp add: handle_def)
qed

lemma reject_alert:
  assumes "f \<in> set insertWeatherAlertSchema" "\<not> zOptional f"
    and "map_of (spread (reqBody req)) (zKey f) = None \<or> map_of (spread (reqBody req)) (zKey f) = Some JNull"
  shows "handle e PostWeatherAlerts req w = (respond 500 (message (failureMessage PostWeatherAlerts)), w)"
proof -
  have "zodParse insertWeatherAlertSchema
          (JObj ((''createdBy'', JStr (reqSub req)) # spread (reqBody req))) = Inl ZodError"
    using assms required_alert unfolding insertWeatherAlertSchema_def
    by (intro zodParse_spread_required) simp_all
  then show ?thesis by (simp add: handle_def)
qed

lemma reject_team:
  assumes "f \<in> set insertResponseTeamSchema" "\<not> zOptional f"
    and "map_of (spread (reqBody req)) (zKey f) = None \<or> map_of (spread (reqBody req)) (zKey f) = Some JNull"
  shows "handle e PostResponseTeams req w = (respond 500 (message (failureMessage PostResponseTeams)), w)"
proof -
  have "zodParse insertResponseTeamSchema
          (JObj ((''leadOfficer'', JStr (reqSub req)) # spread (reqBody req))) = Inl ZodError"
    using assms required_team unfolding insertResponseTeamSchema_def
    by (intro zodParse_spread_required) simp_all
  then show ?thesis by (simp add: handle_def)
qed

lemma any_string_field:
  "parseField \<lparr>zKey = k, zType = Varchar, zOptional = False, zNullable = False\<rparr> ((k, JStr s) # input)
     = Some [(k, JStr s)]"
  by (simp add: parseField_def)

lemma enumerated_fields:
  "\<lparr>zKey = ''riskLevel'', zType = Varchar, zOptional = False, zNullable = False\<rparr> \<in> set insertFloodZoneSchema"
  "\<lparr>zKey = ''evacuationStatus'', zType = Varchar, zOptional = False, zNullable = False\<rparr>
     \<in> set insertAffectedPopulationSchema"
  "\<lparr>zKey = ''priority'', zType = Varchar, zOptional = False, zNullable = False\<rparr> \<in> set insertResourceSchema"
  "\<lparr>zKey = ''severity'', zType = Varchar, zOptional = False, zNullable = False\<rparr> \<in> set insertWeatherAlertSchema"
  "\<lparr>zKey = ''status'', zType = Varchar, zOptional = False, zNullable = False\<rparr> \<in> set insertResponseTeamSchema"
  by (simp_all add: schema_defs)


text \<open>
  C4. Which of the three endpoints each of the eight tables has: flood zones, affected
  population, resources and response teams have GET (list), POST (create) and PATCH
  (update); relief distribution and weather alerts have GET and POST and no PATCH (the only
  other route on them is the DELETE that deactivates a weather alert); the activity log has
  GET alone; the users table has only the GET that returns the signed-in user. The four
  PATCH routes are all the PATCH routes there are.
\<close>

theorem rest_surface:
  "map (\<lambda>t. (t, exposes GET (collectionPath t), exposes POST (collectionPath t),
                 exposes PATCH (collectionPath t @ ''/:id''))) allTables
     = [ (Users, True, False, False),
         (FloodZones, True, True, True),
         (AffectedPopulation, True, True, True),
         (Resources, True, True, True),
         (ReliefDistribution, True, True, False),
         (WeatherAlerts, True, True, False),
         (ResponseTeams, True, True, True),
         (ActivityLog, True, False, False) ]
   \<and> filter (\<lambda>r. fst (endpoint r) = PATCH) registerRoutes
       = [PatchFloodZone, PatchPopulation, PatchResource, PatchResponseTeam]
   \<and> filter (\<lambda>r. fst (endpoint r) = DELETE) registerRoutes = [DeleteWeatherAlert]"
  by (simp add: exposes_def registerRoutes_def allTables_def)

theorem rest_surface_counterexample:
  "\<not> (\<forall>t. exposes GET (collectionPath t) \<and> exposes POST (collectionPath t)
            \<and> exposes PATCH (collectionPath t @ ''/:id''))"
proof
  assume "\<forall>t. exposes GET (collectionPath t) \<and> exposes POST (collectionPath t)
            \<and> exposes PATCH (collectionPath t @ ''/:id'')"
  then have "exposes PATCH (collectionPath ReliefDistribution @ ''/:id'')" by blast
  then show False by (simp add: exposes_def registerRoutes_def)
qed

text \<open>
  C5. A create request in which a required field of the insert schema is missing or null is
  answered with 500 and leaves the world as it was; the required fields are those listed.
  The enumerated fields (risk level, evacuation status, priority, alert severity, team
  status) are plain string fields of their schemas: whatever string they hold passes the
  field's check.
\<close>

theorem create_validation:
  "(\<forall>f\<in>set insertFloodZoneSchema. \<not> zOptional f \<longrightarrow>
       (map_of (spread (reqBody req)) (zKey f) = None \<or> map_of (spread (reqBody req)) (zKey f) = Some JNull) \<longrightarrow>
       handle e PostFloodZones req w = (respond 500 (message ''Failed to create flood zone''), w))
 \<and> (\<forall>f\<in>set insertAffectedPopulationSchema. \<not> zOptional f \<longrightarrow>
       (map_of (spread (reqBody req)) (zKey f) = None \<or> map_of (spread (reqBody req)) (zKey f) = Some JNull) \<longrightarrow>
       handle e PostPopulation req w = (respond 500 (message ''Failed to register affected person''), w))
 \<and> (\<forall>f\<in>set insertResourceSchema. \<not> zOptional f \<longrightarrow>
       (map_of (spread (reqBody req)) (zKey f) = None \<or> map_of (spread (reqBody req)) (zKey f) = Some JNull) \<longrightarrow>
       handle e PostResources req w = (respond 500 (message ''Failed to create resource''), w))
 \<and> (\<forall>f\<in>set insertReliefDistributionSchema. \<not> zOptional f \<longrightarrow>
       (map_of (spread (reqBody req)) (zKey f) = None \<or> map_of (spread (reqBody req)) (zKey f) = Some JNull) \<longrightarrow>
       handle e PostReliefDistribution req w
         = (respond 500 (message ''Failed to create relief distribution''), w))
 \<and> (\<forall>f\<in>set insertWeatherAlertSchema. \<not> zOptional f \<longrightarrow>
       (map_of (spread (reqBody req)) (zKey f) = None \<or> map_of (spread (reqBody req)) (zKey f) = Some JNull) \<longrightarrow>
       handle e PostWeatherAlerts req w = (respond 500 (message ''Failed to create weather alert''), w))
 \<and> (\<forall>f\<in>set insertResponseTeamSchema. \<not> zOptional f \<longrightarrow>
       (map_of (spread (reqBody req)) (zKey f) = None \<or> map_of (spread (reqBody req)) (zKey f) = Some JNull) \<longrightarrow>
       handle e PostResponseTeams req w = (respond 500 (message ''Failed to create response team''), w))
 \<and> map zKey (filter (\<lambda>f. \<not> zOptional f) insertFloodZoneSchema)
      = [''name'', ''district'', ''latitude'', ''longitude'', ''riskLevel'', ''radius'']
 \<and> map zKey (filter (\<lambda>f. \<not> zOptional f) insertAffectedPopulationSchema) = [''name'', ''evacuationStatus'']
 \<and> map zKey (filter (\<lambda>f. \<not> zOptional f) insertResourceSchema)
      = [''name'', ''type'', ''unit'', ''totalQuantity'', ''priority'']
 \<and> map zKey (filter (\<lambda>f. \<not> zOptional f) insertReliefDistributionSchema) = [''resourceId'', ''quantity'']
 \<and> map zKey (filter (\<lambda>f. \<not> zOptional f) insertWeatherAlertSchema)
      = [''type'', ''severity'', ''title'', ''message'']
 \<and> map zKey (filter (\<lambda>f. \<not> zOptional f) insertResponseTeamSchema) = [''name'', ''type'', ''status'']
 \<and> (\<forall>S k. (S, k) \<in> set [ (insertFloodZoneSchema, ''riskLevel''),
                         (insertAffectedPopulationSchema, ''evacuationStatus''),
                         (insertResourceSchema, ''priority''),
                         (insertWeatherAlertSchema, ''severity''),
                         (insertResponseTeamSchema, ''status'') ] \<longrightarrow>
       (\<exists>f. f \<in> set S \<and> zKey f = k
            \<and> (\<forall>s input. parseField f ((k, JStr s) # input) = Some [(k, JStr s)])))"
proof -
  have enum: "\<exists>f. f \<in> set S \<and> zKey f = k
            \<and> (\<forall>s input. parseField f ((k, JStr s) # input) = Some [(k, JStr s)])"
    if "\<lparr>zKey = k, zType = Varchar, zOptional = False, zNullable = False\<rparr> \<in> set S" for S k
    using that any_string_field[of k] by (intro exI[of _ "\<lparr>zKey = k, zType = Varchar, zOptional = False, zNullable = False\<rparr>"]) simp
  have last: "\<forall>S k. (S, k) \<in> set [ (insertFloodZoneSchema, ''riskLevel''),
                         (insertAffectedPopulationSchema, ''evacuationStatus''),
                         (insertResourceSchema, ''priority''),
                         (insertWeatherAlertSchema, ''severity''),
                         (insertResponseTeamSchema, ''status'') ] \<longrightarrow>
       (\<exists>f. f \<in> set S \<and> zKey f = k
            \<and> (\<forall>s input. parseField f ((k, JStr s) # input) = Some [(k, JStr s)]))"
    using enum[OF enumerated_fields(1)] enum[OF enumerated_fields(2)] enum[OF enumerated_fields(3)]
      enum[OF enumerated_fields(4)] enum[OF enumerated_fields(5)]
    by (simp only: set_simps insert_iff empty_iff prod.inject) blast
  show ?thesis
    using reject_floodZone[of _ req e w] reject_population[of _ req e w] reject_resource[of _ req e w]
      reject_distribution[of _ req e w] reject_alert[of _ req e w] reject_team[of _ req e w]
      required_floodZone required_population required_resource required_distribution
      required_alert required_team last
    by (simp only: failureMessage.simps) blast
qed


theorem create_validation_witness:
  "handle exampleEnv PostResources (exampleRequest\<lparr>reqBody := JObj []\<rparr>) emptyWorld
     = (respond 500 (message ''Failed to create resource''), emptyWorld)"
proof -
  have "\<forall>f\<in>set insertResourceSchema. \<not> zOptional f \<longrightarrow>
       (map_of (spread (reqBody (exampleRequest\<lparr>reqBody := JObj []\<rparr>))) (zKey f) = None
        \<or> map_of (spread (reqBody (exampleRequest\<lparr>reqBody := JObj []\<rparr>))) (zKey f) = Some JNull) \<longrightarrow>
       handle exampleEnv PostResources (exampleRequest\<lparr>reqBody := JObj []\<rparr>) emptyWorld
         = (respond 500 (message ''Failed to create resource''), emptyWorld)"
    using create_validation[of "exampleRequest\<lparr>reqBody := JObj []\<rparr>" exampleEnv emptyWorld]
    by blast
  from this[rule_format, OF enumerated_fields(3)] show ?thesis
    by simp
qed

theorem enumerated_value_accepted:
  "status (fst (handle exampleEnv PostResources exampleRequest exampleUser)) = 200
   \<and> map (col ''priority'') (tables (snd (handle exampleEnv PostResources exampleRequest exampleUser)) Resources)
       = [JStr ''urgent'']"
  by code_simp

lemma applyAll_unselected: "\<forall>r\<in>set rows. \<not> sel r \<Longrightarrow> applyAll sel sets rows = Inr rows"
  by (induction rows) simp_all

lemma filter_zip_unselected:
  "\<forall>r\<in>set rows. \<not> sel r \<Longrightarrow> filter (\<lambda>rr. sel (fst rr)) (zip rows rows') = []"
  by (auto simp: filter_empty_conv dest: set_zip_leftD)

lemma updateRows_absent:
  assumes "JStr i \<notin> set (map (col ''id'') (tables w t))"
  shows "updateRows e t sets (JStr i) w
           = (case bindSet e (columnsOf t) sets of
                Inl err \<Rightarrow> (Inl err, w)
              | Inr bound \<Rightarrow> (Inr [], w))"
proof -
  let ?sel = "\<lambda>r. sql_eq (col ''id'' r) (JStr i) = Some True"
  have none: "\<forall>r\<in>set (tables w t). \<not> ?sel r"
  proof
    fix r assume "r \<in> set (tables w t)"
    then have "col ''id'' r \<in> set (map (col ''id'') (tables w t))" by simp
    with assms have "col ''id'' r \<noteq> JStr i" by metis
    then show "\<not> ?sel r" by simp
  qed
  have same: "w\<lparr>tables := (tables w)(t := tables w t)\<rparr> = w"
    by simp
  show ?thesis
    unfolding updateRows_def Let_def
    by (simp add: applyAll_unselected[OF none] filter_zip_unselected[OF none] same
             List.map_filter_simps del: sel_byId split: sum.splits)
qed

lemma setAndStamp_absent:
  assumes "JStr i \<notin> set (map (col ''id'') (tables w t))"
  shows "setAndStamp e t stamp i updates w
           = (case bindSet e (columnsOf t) (setOf ((stamp, JDate (clock e (tick w))) # updates)) of
                Inl err \<Rightarrow> (Inl err, w\<lparr>tick := Suc (tick w)\<rparr>)
              | Inr bound \<Rightarrow> (Inr None, w\<lparr>tick := Suc (tick w)\<rparr>))"
proof -
  from assms have "JStr i \<notin> set (map (col ''id'') (tables (w\<lparr>tick := Suc (tick w)\<rparr>) t))"
    by simp
  from updateRows_absent[OF this] show ?thesis
    by (simp add: setAndStamp_def Let_def split: sum.splits)
qed

lemma map_of_setOf: "map_of (setOf updates) k = map_option Val (map_of updates k)"
  by (induction updates) (auto simp: setOf_def)

lemma bindSet_stamp:
  assumes "\<forall>c\<in>set cols. colKey c = stamp \<longrightarrow> colType c = Timestamp"
    and "\<forall>c\<in>set cols. map_of updates (colKey c) = None"
  shows "\<exists>bound. bindSet e cols (setOf ((stamp, JDate d) # updates)) = Inr bound"
  using assms
proof (induction cols)
  case Nil
  then show ?case by simp
next
  case (Cons c cols)
  then obtain bound where b: "bindSet e cols (setOf ((stamp, JDate d) # updates)) = Inr bound"
    by auto
  have m: "map_of (setOf ((stamp, JDate d) # updates)) (colKey c)
             = (if colKey c = stamp then Some (Val (JDate d)) else None)"
    using Cons.prems(2) map_of_setOf[of updates "colKey c"] by (simp add: setOf_def)
  show ?case
  proof (cases "colKey c = stamp")
    case True
    with Cons.prems(1) have "colType c = Timestamp" by simp
    with True m b show ?thesis by simp
  next
    case False
    with m b show ?thesis by simp
  qed
qed

lemma stamp_columns:
  "\<forall>c\<in>set (columnsOf FloodZones). colKey c = ''lastUpdated'' \<longrightarrow> colType c = Timestamp"
  "\<forall>c\<in>set (columnsOf AffectedPopulation). colKey c = ''updatedAt'' \<longrightarrow> colType c = Timestamp"
  "\<forall>c\<in>set (columnsOf Resources). colKey c = ''updatedAt'' \<longrightarrow> colType c = Timestamp"
  "\<forall>c\<in>set (columnsOf ResponseTeams). colKey c = ''updatedAt'' \<longrightarrow> colType c = Timestamp"
  by (simp_all add: floodZones_def affectedPopulation_def resources_def responseTeams_def builder_defs)

lemma await_patched_absent:
  "m = (case b of Inl err \<Rightarrow> (Inl err, w') | Inr bound \<Rightarrow> (Inr None, w')) \<Longrightarrow>
     await m (patched e nf act)
       = (case b of Inl err \<Rightarrow> (Inl (DbError err), w')
          | Inr bound \<Rightarrow> (Inr (respond 404 (message nf)), w'))"
  by (cases b) (simp_all add: await_def patched_def)

lemma patch_absent:
  assumes r: "(r, t, nf) \<in> set [ (PatchFloodZone, FloodZones, ''Flood zone not found''),
                                  (PatchPopulation, AffectedPopulation, ''Person not found''),
                                  (PatchResource, Resources, ''Resource not found''),
                                  (PatchResponseTeam, ResponseTeams, ''Response team not found'') ]"
    and absent: "JStr (reqParam req) \<notin> set (map (col ''id'') (tables w t))"
  shows "\<exists>stamp.
           (\<forall>c\<in>set (columnsOf t). colKey c = stamp \<longrightarrow> colType c = Timestamp)
         \<and> tryBlock e r req w
           = (case bindSet e (columnsOf t)
                     (setOf ((stamp, JDate (clock e (tick w))) # spread (reqBody req))) of
                Inl err \<Rightarrow> (Inl (DbError err), w\<lparr>tick := Suc (tick w)\<rparr>)
              | Inr bound \<Rightarrow> (Inr (respond 404 (message nf)), w\<lparr>tick := Suc (tick w)\<rparr>))"
proof -
  from r have "r = PatchFloodZone \<and> t = FloodZones \<and> nf = ''Flood zone not found''
      \<or> r = PatchPopulation \<and> t = AffectedPopulation \<and> nf = ''Person not found''
      \<or> r = PatchResource \<and> t = Resources \<and> nf = ''Resource not found''
      \<or> r = PatchResponseTeam \<and> t = ResponseTeams \<and> nf = ''Response team not found''"
    by simp
  then show ?thesis
  proof (elim disjE conjE)
    assume 1: "r = PatchFloodZone" "t = FloodZones" "nf = ''Flood zone not found''"
    have "tryBlock e r req w
           = (case bindSet e (columnsOf t)
                     (setOf ((''lastUpdated'', JDate (clock e (tick w))) # spread (reqBody req))) of
                Inl err \<Rightarrow> (Inl (DbError err), w\<lparr>tick := Suc (tick w)\<rparr>)
              | Inr bound \<Rightarrow> (Inr (respond 404 (message nf)), w\<lparr>tick := Suc (tick w)\<rparr>))"
      unfolding 1 tryBlock.simps updateFloodZone_def
      by (rule await_patched_absent[OF setAndStamp_absent[OF absent[unfolded 1]]])
    with stamp_columns(1) 1(2) show ?thesis by blast
  next
    assume 2: "r = PatchPopulation" "t = AffectedPopulation" "nf = ''Person not found''"
    have "tryBlock e r req w
           = (case bindSet e (columnsOf t)
                     (setOf ((''updatedAt'', JDate (clock e (tick w))) # spread (reqBody req))) of
                Inl err \<Rightarrow> (Inl (DbError err), w\<lparr>tick := Suc (tick w)\<rparr>)
              | Inr bound \<Rightarrow> (Inr (respond 404 (message nf)), w\<lparr>tick := Suc (tick w)\<rparr>))"
      unfolding 2 tryBlock.simps updateAffectedPerson_def
      by (rule await_patched_absent[OF setAndStamp_absent[OF absent[unfolded 2]]])
    with stamp_columns(2) 2(2) show ?thesis by blast
  next
    assume 3: "r = PatchResource" "t = Resources" "nf = ''Resource not found''"
    have "tryBlock e r req w
           = (case bindSet e (columnsOf t)
                     (setOf ((''updatedAt'', JDate (clock e (tick w))) # spread (reqBody req))) of
                Inl err \<Rightarrow> (Inl (DbError err), w\<lparr>tick := Suc (tick w)\<rparr>)
              | Inr bound \<Rightarrow> (Inr (respond 404 (message nf)), w\<lparr>tick := Suc (tick w)\<rparr>))"
      unfolding 3 tryBlock.simps updateResource_def
      by (rule await_patched_absent[OF setAndStamp_absent[OF absent[unfolded 3]]])
    with stamp_columns(3) 3(2) show ?thesis by blast
  next
    assume 4: "r = PatchResponseTeam" "t = ResponseTeams" "nf = ''Response team not found''"
    have "tryBlock e r req w
           = (case bindSet e (columnsOf t)
                     (setOf ((''updatedAt'', JDate (clock e (tick w))) # spread (reqBody req))) of
                Inl err \<Rightarrow> (Inl (DbError err), w\<lparr>tick := Suc (tick w)\<rparr>)
              | Inr bound \<Rightarrow> (Inr (respond 404 (message nf)), w\<lparr>tick := Suc (tick w)\<rparr>))"
      unfolding 4 tryBlock.simps updateResponseTeam_def
      by (rule await_patched_absent[OF setAndStamp_absent[OF absent[unfolded 4]]])
    with stamp_columns(4) 4(2) show ?thesis by blast
  qed
qed

lemma patch_not_found:
  assumes r: "(r, t, nf) \<in> set [ (PatchFloodZone, FloodZones, ''Flood zone not found''),
                                  (PatchPopulation, AffectedPopulation, ''Person not found''),
                                  (PatchResource, Resources, ''Resource not found''),
                                  (PatchResponseTeam, ResponseTeams, ''Response team not found'') ]"
    and absent: "JStr (reqParam req) \<notin> set (map (col ''id'') (tables w t))"
  shows "(\<forall>res w1. tryBlock e r req w = (Inr res, w1) \<longrightarrow>
            handle e r req w = (respond 404 (message nf), w\<lparr>tick := Suc (tick w)\<rparr>))
       \<and> ((\<forall>c\<in>set (columnsOf t). map_of (spread (reqBody req)) (colKey c) = None) \<longrightarrow>
            handle e r req w = (respond 404 (message nf), w\<lparr>tick := Suc (tick w)\<rparr>))"
proof -
  from patch_absent[OF r absent, of e] obtain stamp where
    st: "\<forall>c\<in>set (columnsOf t). colKey c = stamp \<longrightarrow> colType c = Timestamp" and
    tb: "tryBlock e r req w
           = (case bindSet e (columnsOf t)
                     (setOf ((stamp, JDate (clock e (tick w))) # spread (reqBody req))) of
                Inl err \<Rightarrow> (Inl (DbError err), w\<lparr>tick := Suc (tick w)\<rparr>)
              | Inr bound \<Rightarrow> (Inr (respond 404 (message nf)), w\<lparr>tick := Suc (tick w)\<rparr>))"
    by blast
  have a: "\<forall>res w1. tryBlock e r req w = (Inr res, w1) \<longrightarrow>
            handle e r req w = (respond 404 (message nf), w\<lparr>tick := Suc (tick w)\<rparr>)"
    unfolding tb handle_def by (auto split: sum.splits)
  have b: "handle e r req w = (respond 404 (message nf), w\<lparr>tick := Suc (tick w)\<rparr>)"
    if "\<forall>c\<in>set (columnsOf t). map_of (spread (reqBody req)) (colKey c) = None"
  proof -
    from bindSet_stamp[OF st that, of e "clock e (tick w)"] obtain bound where
      "bindSet e (columnsOf t) (setOf ((stamp, JDate (clock e (tick w))) # spread (reqBody req)))
         = Inr bound" by blast
    then show ?thesis unfolding handle_def tb by simp
  qed
  from a b show ?thesis by blast
qed

lemma activities_negative_limit:
  "n < 0 \<Longrightarrow>
     handle e GetActivities (req\<lparr>reqLimit := Some n\<rparr>) w
       = (respond 200 (JArr (map JObj (orderByDesc ''createdAt'' (tables w ActivityLog)))), w)"
  by (simp add: handle_def getRecentActivities_def Let_def)

text \<open>With no row of that id but a body whose value PostgreSQL refuses, the answer is 500.\<close>

lemma patch_absent_invalid_body:
  "JStr (reqParam exampleRequest) \<notin> set (map (col ''id'') (tables exampleUser FloodZones))
   \<and> fst (handle exampleEnv PatchFloodZone
              (exampleRequest\<lparr>reqBody := JObj [(''radius'', JStr ''abc'')]\<rparr>) exampleUser)
       = respond 500 (message ''Failed to update flood zone'')"
  by code_simp

text \<open>
  C6. For every route: an error raised inside the \<open>try\<close> block, whatever it is, is answered
  with 500 and the route's JSON message; the status of a response is 200, 404 or 500; 404
  comes only from the four PATCH routes, when no row of the table has the id of the
  request; a body that fails the schema of a create route is answered with 500. And the
  four PATCH routes do answer 404, with their own message, when no row of the table has the
  id of the request and the update raises no error, as it does not when the body names no
  column of the table; the update statement is the only change to the world, a tick of the
  statement counter.
\<close>

theorem failure_statuses:
  "(\<forall>err w1. tryBlock e r req w = (Inl err, w1) \<longrightarrow>
       handle e r req w = (respond 500 (message (failureMessage r)), w1))
 \<and> (status (fst (handle e r req w)) = 200 \<or> status (fst (handle e r req w)) = 404
      \<or> status (fst (handle e r req w)) = 500)
 \<and> (status (fst (handle e r req w)) = 404 \<longrightarrow>
       (r = PatchFloodZone \<and> JStr (reqParam req) \<notin> set (map (col ''id'') (tables w FloodZones)))
     \<or> (r = PatchPopulation \<and> JStr (reqParam req) \<notin> set (map (col ''id'') (tables w AffectedPopulation)))
     \<or> (r = PatchResource \<and> JStr (reqParam req) \<notin> set (map (col ''id'') (tables w Resources)))
     \<or> (r = PatchResponseTeam \<and> JStr (reqParam req) \<notin> set (map (col ''id'') (tables w ResponseTeams))))
 \<and> (zodParse insertFloodZoneSchema (reqBody req) = Inl ZodError \<longrightarrow>
       handle e PostFloodZones req w = (respond 500 (message ''Failed to create flood zone''), w))
 \<and> (zodParse insertAffectedPopulationSchema
        (JObj ((''registeredBy'', JStr (reqSub req)) # spread (reqBody req))) = Inl ZodError \<longrightarrow>
       handle e PostPopulation req w = (respond 500 (message ''Failed to register affected person''), w))
 \<and> (zodParse insertResourceSchema (reqBody req) = Inl ZodError \<longrightarrow>
       handle e PostResources req w = (respond 500 (message ''Failed to create resource''), w))
 \<and> (zodParse insertReliefDistributionSchema
        (JObj ((''distributedBy'', JStr (reqSub req)) # spread (reqBody req))) = Inl ZodError \<longrightarrow>
       handle e PostReliefDistribution req w
         = (respond 500 (message ''Failed to create relief distribution''), w))
 \<and> (zodParse insertWeatherAlertSchema
        (JObj ((''createdBy'', JStr (reqSub req)) # spread (reqBody req))) = Inl ZodError \<longrightarrow>
       handle e PostWeatherAlerts req w = (respond 500 (message ''Failed to create weather alert''), w))
 \<and> (zodParse insertResponseTeamSchema
        (JObj ((''leadOfficer'', JStr (reqSub req)) # spread (reqBody req))) = Inl ZodError \<longrightarrow>
       handle e PostResponseTeams req w = (respond 500 (message ''Failed to create response team''), w))
 \<and> (\<forall>r' t notFound.
       (r', t, notFound) \<in> set [ (PatchFloodZone, FloodZones, ''Flood zone not found''),
                                  (PatchPopulation, AffectedPopulation, ''Person not found''),
                                  (PatchResource, Resources, ''Resource not found''),
                                  (PatchResponseTeam, ResponseTeams, ''Response team not found'') ] \<longrightarrow>
       JStr (reqParam req) \<notin> set (map (col ''id'') (tables w t)) \<longrightarrow>
         (\<forall>res w1. tryBlock e r' req w = (Inr res, w1) \<longrightarrow>
            handle e r' req w = (respond 404 (message notFound), w\<lparr>tick := Suc (tick w)\<rparr>))
       \<and> ((\<forall>c\<in>set (columnsOf t). map_of (spread (reqBody req)) (colKey c) = None) \<longrightarrow>
            handle e r' req w = (respond 404 (message notFound), w\<lparr>tick := Suc (tick w)\<rparr>)))"
proof -
  obtain out w1 where tb: "tryBlock e r req w = (out, w1)"
    by (cases "tryBlock e r req w")
  have c1: "\<forall>err w1. tryBlock e r req w = (Inl err, w1) \<longrightarrow>
       handle e r req w = (respond 500 (message (failureMessage r)), w1)"
    by (simp add: handle_caught)
  have c2: "status (fst (handle e r req w)) = 200 \<or> status (fst (handle e r req w)) = 404
      \<or> status (fst (handle e r req w)) = 500"
  proof (cases out)
    case (Inl err)
    with tb show ?thesis by (simp add: handle_caught respond_def)
  next
    case (Inr res)
    with tb tryBlock_status[of e r req w res w1] show ?thesis
      by (auto simp: handle_returned)
  qed
  have c3: "status (fst (handle e r req w)) = 404 \<longrightarrow>
       (r = PatchFloodZone \<and> JStr (reqParam req) \<notin> set (map (col ''id'') (tables w FloodZones)))
     \<or> (r = PatchPopulation \<and> JStr (reqParam req) \<notin> set (map (col ''id'') (tables w AffectedPopulation)))
     \<or> (r = PatchResource \<and> JStr (reqParam req) \<notin> set (map (col ''id'') (tables w Resources)))
     \<or> (r = PatchResponseTeam \<and> JStr (reqParam req) \<notin> set (map (col ''id'') (tables w ResponseTeams)))"
  proof (cases out)
    case (Inl err)
    with tb show ?thesis by (simp add: handle_caught respond_def)
  next
    case (Inr res)
    with tb tryBlock_404[of e r req w res w1] show ?thesis
      by (simp add: handle_returned)
  qed
  have c4: "zodParse insertFloodZoneSchema (reqBody req) = Inl ZodError \<longrightarrow>
       handle e PostFloodZones req w = (respond 500 (message ''Failed to create flood zone''), w)"
    and c5: "zodParse insertAffectedPopulationSchema
        (JObj ((''registeredBy'', JStr (reqSub req)) # spread (reqBody req))) = Inl ZodError \<longrightarrow>
       handle e PostPopulation req w = (respond 500 (message ''Failed to register affected person''), w)"
    and c6: "zodParse insertResourceSchema (reqBody req) = Inl ZodError \<longrightarrow>
       handle e PostResources req w = (respond 500 (message ''Failed to create resource''), w)"
    and c7: "zodParse insertReliefDistributionSchema
        (JObj ((''distributedBy'', JStr (reqSub req)) # spread (reqBody req))) = Inl ZodError \<longrightarrow>
       handle e PostReliefDistribution req w
         = (respond 500 (message ''Failed to create relief distribution''), w)"
    and c8: "zodParse insertWeatherAlertSchema
        (JObj ((''createdBy'', JStr (reqSub req)) # spread (reqBody req))) = Inl ZodError \<longrightarrow>
       handle e PostWeatherAlerts req w = (respond 500 (message ''Failed to create weather alert''), w)"
    and c9: "zodParse insertResponseTeamSchema
        (JObj ((''leadOfficer'', JStr (reqSub req)) # spread (reqBody req))) = Inl ZodError \<longrightarrow>
       handle e PostResponseTeams req w = (respond 500 (message ''Failed to create response team''), w)"
    by (simp_all add: handle_def)
  have c10: "\<forall>r' t notFound.
       (r', t, notFound) \<in> set [ (PatchFloodZone, FloodZones, ''Flood zone not found''),
                                  (PatchPopulation, AffectedPopulation, ''Person not found''),
                                  (PatchResource, Resources, ''Resource not found''),
                                  (PatchResponseTeam, ResponseTeams, ''Response team not found'') ] \<longrightarrow>
       JStr (reqParam req) \<notin> set (map (col ''id'') (tables w t)) \<longrightarrow>
         (\<forall>res w1. tryBlock e r' req w = (Inr res, w1) \<longrightarrow>
            handle e r' req w = (respond 404 (message notFound), w\<lparr>tick := Suc (tick w)\<rparr>))
       \<and> ((\<forall>c\<in>set (columnsOf t). map_of (spread (reqBody req)) (colKey c) = None) \<longrightarrow>
            handle e r' req w = (respond 404 (message notFound), w\<lparr>tick := Suc (tick w)\<rparr>))"
    by (intro allI impI) (rule patch_not_found)
  from c1 c2 c3 c4 c5 c6 c7 c8 c9 c10 show ?thesis
    by (intro conjI)
qed

theorem failure_statuses_witness:
  "handle exampleEnv PostResources (exampleRequest\<lparr>reqBody := JArr []\<rparr>) emptyWorld
     = (respond 500 (message ''Failed to create resource''), emptyWorld)
   \<and> handle exampleEnv PatchResource (exampleRequest\<lparr>reqBody := JObj []\<rparr>) exampleStock
     = (respond 404 (message ''Resource not found''), exampleStock\<lparr>tick := Suc (tick exampleStock)\<rparr>)"
proof
  have "zodParse insertResourceSchema (reqBody (exampleRequest\<lparr>reqBody := JArr []\<rparr>)) = Inl ZodError"
    by simp
  with failure_statuses[of exampleEnv PostResources "exampleRequest\<lparr>reqBody := JArr []\<rparr>" emptyWorld]
  show "handle exampleEnv PostResources (exampleRequest\<lparr>reqBody := JArr []\<rparr>) emptyWorld
     = (respond 500 (message ''Failed to create resource''), emptyWorld)"
    by blast
next
  let ?req = "exampleRequest\<lparr>reqBody := JObj []\<rparr>"
  have route: "(PatchResource, Resources, ''Resource not found'')
      \<in> set [ (PatchFloodZone, FloodZones, ''Flood zone not found''),
                (PatchPopulation, AffectedPopulation, ''Person not found''),
                (PatchResource, Resources, ''Resource not found''),
                (PatchResponseTeam, ResponseTeams, ''Response team not found'') ]"
    by simp
  have absent: "JStr (reqParam ?req) \<notin> set (map (col ''id'') (tables exampleStock Resources))"
    by code_simp
  have body: "\<forall>c\<in>set (columnsOf Resources). map_of (spread (reqBody ?req)) (colKey c) = None"
    by simp
  from failure_statuses[of exampleEnv PatchResource ?req exampleStock]
  have "\<forall>r' t notFound.
       (r', t, notFound) \<in> set [ (PatchFloodZone, FloodZones, ''Flood zone not found''),
                                  (PatchPopulation, AffectedPopulation, ''Person not found''),
                                  (PatchResource, Resources, ''Resource not found''),
                                  (PatchResponseTeam, ResponseTeams, ''Response team not found'') ] \<longrightarrow>
       JStr (reqParam ?req) \<notin> set (map (col ''id'') (tables exampleStock t)) \<longrightarrow>
         (\<forall>res w1. tryBlock exampleEnv r' ?req exampleStock = (Inr res, w1) \<longrightarrow>
            handle exampleEnv r' ?req exampleStock
              = (respond 404 (message notFound), exampleStock\<lparr>tick := Suc (tick exampleStock)\<rparr>))
       \<and> ((\<forall>c\<in>set (columnsOf t). map_of (spread (reqBody ?req)) (colKey c) = None) \<longrightarrow>
            handle exampleEnv r' ?req exampleStock
              = (respond 404 (message notFound), exampleStock\<lparr>tick := Suc (tick exampleStock)\<rparr>))"
    by (elim conjE)
  from this[rule_format, OF route absent] body
  show "handle exampleEnv PatchResource ?req exampleStock
     = (respond 404 (message ''Resource not found''), exampleStock\<lparr>tick := Suc (tick exampleStock)\<rparr>)"
    by blast
qed

theorem not_found_status:
  "status (fst (handle exampleEnv PatchFloodZone (exampleRequest\<lparr>reqBody := JObj []\<rparr>) exampleUser)) = 404
   \<and> json (fst (handle exampleEnv PatchFloodZone (exampleRequest\<lparr>reqBody := JObj []\<rparr>) exampleUser))
       = Some (JObj [(''message'', JStr ''Flood zone not found'')])"
  by code_simp


section \<open>The weather route\<close>










section \<open>The flood map\<close>

lemma MapCircle_without_map: "globalMapInstance s = None \<Longrightarrow> MapCircle props s = s"
  by (simp add: MapCircle_def)

lemma fold_MapCircle_without_map:
  "globalMapInstance s = None \<Longrightarrow> fold MapCircle children s = s"
  by (induction children) (simp_all add: MapCircle_without_map)

lemma cleaned_page:
  "globalMapInstance s = mapInstanceRef s \<Longrightarrow>
     globalMapInstance (Map_cleanup (MapCircle_cleanups s)) = None
   \<and> mapInstanceRef (Map_cleanup (MapCircle_cleanups s)) = None
   \<and> circles (Map_cleanup (MapCircle_cleanups s)) = []"
  by (simp add: Map_cleanup_def MapCircle_cleanups_def split: option.splits)

lemma render_page:
  assumes "globalMapInstance s = mapInstanceRef s"
  shows "circles (render parseFloat isLoading data s) = []
       \<and> globalMapInstance (render parseFloat isLoading data s)
           = mapInstanceRef (render parseFloat isLoading data s)
       \<and> (globalMapInstance (render parseFloat isLoading data s) = None) = isLoading"
proof -
  let ?c = "Map_cleanup (MapCircle_cleanups s)"
  from cleaned_page[OF assms] have c: "globalMapInstance ?c = None" "mapInstanceRef ?c = None"
    "circles ?c = []" by simp_all
  show ?thesis
  proof (cases "FloodMap parseFloat isLoading data")
    case None
    with c show ?thesis by (simp add: render_def Let_def FloodMap_def split: if_splits)
  next
    case (Some children)
    with c fold_MapCircle_without_map[OF c(1), of children] show ?thesis
      by (simp add: render_def Let_def Map_effect_def FloodMap_def split: if_splits)
  qed
qed

lemma renders_page:
  "globalMapInstance s = mapInstanceRef s \<Longrightarrow> circles s = [] \<Longrightarrow>
     circles (renders parseFloat queries s) = []
   \<and> globalMapInstance (renders parseFloat queries s) = mapInstanceRef (renders parseFloat queries s)"
proof (induction queries arbitrary: s)
  case Nil
  then show ?case by (simp add: renders_def)
next
  case (Cons q queries)
  from render_page[OF Cons.prems(1), of parseFloat "fst q" "snd q"]
  have "globalMapInstance (render parseFloat (fst q) (snd q) s)
          = mapInstanceRef (render parseFloat (fst q) (snd q) s)"
    and "circles (render parseFloat (fst q) (snd q) s) = []"
    by simp_all
  from Cons.IH[OF this] show ?case by (simp add: renders_def)
qed

text \<open>
  C8. \<open>FloodMap\<close> hands \<open>Map\<close> one \<open>MapCircle\<close> element per zone of the fetched list, centred at
  \<open>parseFloat\<close> of the zone's latitude and longitude, with the zone's radius, and coloured
  (stroke and fill) red for risk level \<open>high\<close>, orange for \<open>medium\<close>, green for \<open>low\<close> and gray
  for anything else; and the effect of such an element adds exactly that circle to the map
  held by \<open>globalMapInstance\<close>, and nothing when that variable is null. But the variable is
  null whenever these effects run: the effect of \<open>Map\<close> that sets it runs after the effects of
  its children, and its cleanup, which runs before them at the next rendering, sets it back
  to null. So after any sequence of renderings of \<open>FloodMap\<close>, whatever the zones fetched,
  no circle is on a map; after a rendering with the zones loaded the map itself is there.
\<close>

theorem no_circle_drawn:
  "FloodMap parseFloat False (Some zones)
     = Some (map (\<lambda>zone. \<lparr> center = (parseFloat (col ''latitude'' zone), parseFloat (col ''longitude'' zone)),
                             radius = col ''radius'' zone,
                             color = Some (if col ''riskLevel'' zone = JStr ''high'' then ''#dc2626''
                                           else if col ''riskLevel'' zone = JStr ''medium'' then ''#ea580c''
                                           else if col ''riskLevel'' zone = JStr ''low'' then ''#16a34a''
                                           else ''#6b7280''),
                             fillColor = Some (if col ''riskLevel'' zone = JStr ''high'' then ''#dc2626''
                                               else if col ''riskLevel'' zone = JStr ''medium'' then ''#ea580c''
                                               else if col ''riskLevel'' zone = JStr ''low'' then ''#16a34a''
                                               else ''#6b7280''),
                             fillOpacity = Some (3 / 10) \<rparr>)
                 zones)
 \<and> circles (MapCircle \<lparr> center = c, radius = r, color = Some k, fillColor = Some k, fillOpacity = Some a \<rparr>
                       (s\<lparr> globalMapInstance := Some m \<rparr>))
     = circles s @ [(m, \<lparr> circleCenter = c, circleRadius = r, circleColor = k, circleFillColor = k,
                           circleFillOpacity = a \<rparr>)]
 \<and> MapCircle props (s\<lparr> globalMapInstance := None \<rparr>) = s\<lparr> globalMapInstance := None \<rparr>
 \<and> circles (renders parseFloat queries initialPage) = []
 \<and> circles (renders parseFloat (queries @ [(False, Some zones)]) initialPage) = []
 \<and> globalMapInstance (renders parseFloat (queries @ [(False, Some zones)]) initialPage)
      = Some (mapsCreated (renders parseFloat queries initialPage))"
proof (intro conjI)
  have init: "globalMapInstance (initialPage :: 'a page) = mapInstanceRef (initialPage :: 'a page)"
    "circles (initialPage :: 'a page) = []"
    by (simp_all add: initialPage_def)
  let ?s = "renders parseFloat queries initialPage"
  from renders_page[OF init] have inv: "circles ?s = []" "globalMapInstance ?s = mapInstanceRef ?s"
    by simp_all
  show "circles ?s = []" by (rule inv)
  have app: "renders parseFloat (queries @ [(False, Some zones)]) initialPage
               = render parseFloat False (Some zones) ?s"
    by (simp add: renders_def)
  from render_page[OF inv(2), of parseFloat False "Some zones"]
  show "circles (renders parseFloat (queries @ [(False, Some zones)]) initialPage) = []"
    unfolding app by simp
  let ?c = "Map_cleanup (MapCircle_cleanups ?s)"
  from cleaned_page[OF inv(2)] have c: "globalMapInstance ?c = None" by simp
  have created: "mapsCreated ?c = mapsCreated ?s"
    by (simp add: Map_cleanup_def MapCircle_cleanups_def split: option.splits)
  show "globalMapInstance (renders parseFloat (queries @ [(False, Some zones)]) initialPage)
      = Some (mapsCreated ?s)"
    unfolding app
    by (simp add: render_def Let_def FloodMap_def fold_MapCircle_without_map[OF c] Map_effect_def created)
qed (simp_all add: FloodMap_def getRiskColor_def MapCircle_def)

end
